theory Spec2Isabelle
  imports Main
begin

section \<open>Removing ory finalizers: the handler of \<open>ory_crds.go\<close>\<close>

text \<open>
  The handler talks to a Kubernetes API server through two client libraries. The
  libraries and the server are not part of the repository: they are the environment
  of the model. Every call into them is answered by the environment, and the call is
  recorded, with its answer, in a trace. The code of the handler is embedded as
  functions that pass the trace along.
\<close>

subsection \<open>Errors\<close>

text \<open>
  An error of the API machinery carries a status reason; \<open>IsNotFound\<close> and
  \<open>IsConflict\<close> test it. \<open>errors.Wrapf\<close> puts a message in front of a cause and
  keeps the cause, which the two tests see through.
\<close>

datatype statusReason = StatusReasonNotFound | StatusReasonConflict | StatusReasonUnknown

datatype error = StatusError statusReason string | Wrapf error string

fun IsNotFound :: "error \<Rightarrow> bool" where
  "IsNotFound (StatusError r m) = (r = StatusReasonNotFound)"
| "IsNotFound (Wrapf e m) = IsNotFound e"

fun IsConflict :: "error \<Rightarrow> bool" where
  "IsConflict (StatusError r m) = (r = StatusReasonConflict)"
| "IsConflict (Wrapf e m) = IsConflict e"

fun Error :: "error \<Rightarrow> string" where
  "Error (StatusError r m) = m"
| "Error (Wrapf e m) = m @ '': '' @ Error e"

subsection \<open>API objects\<close>

datatype warningHandler = DefaultWarnings | NoWarnings

record config =
  Host :: string
  WarningHandler :: warningHandler

record customResourceDefinition =
  SpecGroup :: string
  SpecVersion :: string
  SpecNamesPlural :: string

record groupVersionResource =
  Group :: string
  Version :: string
  Resource :: string

text \<open>
  An unstructured object, as far as the handler reads it. An absent finalizer list and
  an empty one are both \<open>[]\<close>: the code only asks for the length.
\<close>

record unstructured =
  Name :: string
  Namespace :: string
  Kind :: string
  ResourceVersion :: string
  Finalizers :: "string list"

definition SetFinalizersNil :: "unstructured \<Rightarrow> unstructured" where
  "SetFinalizersNil u = u\<lparr>Finalizers := []\<rparr>"

definition NamespaceAll :: string where
  "NamespaceAll = ''''"

definition GVRString :: "groupVersionResource \<Rightarrow> string" where
  "GVRString g = Group g @ ''/'' @ Version g @ '', Resource='' @ Resource g"

subsection \<open>The environment and the trace\<close>

datatype apixClient = ApixClient nat

datatype dynamicClient = DynamicClient nat

datatype sugaredLogger = SugaredLogger nat

datatype level = DebugLevel | ErrorLevel

text \<open>
  A call into a library, with what it returned. A request to the server returns a Go
  pair: a pointer that may be nil and an error that may be nil, in any combination. The
  code tests the two separately, and the libraries differ: on an error the dynamic client
  returns a nil object, the generated clientset an empty one.
\<close>

datatype event =
    ParseKubeConfig string "error + config"
  | ApixNewForConfig config "error + apixClient"
  | DynamicNewForConfig config "error + dynamicClient"
  | CrdGet apixClient string "customResourceDefinition option \<times> error option"
  | ResourceList dynamicClient groupVersionResource string
      "unstructured list option \<times> error option"
  | ResourceGet dynamicClient groupVersionResource string string
      "unstructured option \<times> error option"
  | ResourceUpdate dynamicClient groupVersionResource string unstructured
      "unstructured option \<times> error option"
  | Logged sugaredLogger level string

text \<open>
  The environment answers each call from the history of the calls made so far, so
  that every sequence of answers is an environment. \<open>DefaultRetrySteps\<close> is the
  number of attempts of \<open>retry.DefaultRetry\<close>, a constant of the client library (there
  it is 5) and a parameter here.
\<close>

record environment =
  RESTConfigFromKubeConfig :: "event list \<Rightarrow> string \<Rightarrow> error + config"
  apixNewForConfig :: "event list \<Rightarrow> config \<Rightarrow> error + apixClient"
  dynamicNewForConfig :: "event list \<Rightarrow> config \<Rightarrow> error + dynamicClient"
  crdGet :: "event list \<Rightarrow> apixClient \<Rightarrow> string
    \<Rightarrow> customResourceDefinition option \<times> error option"
  resourceList :: "event list \<Rightarrow> dynamicClient \<Rightarrow> groupVersionResource \<Rightarrow> string
    \<Rightarrow> unstructured list option \<times> error option"
  resourceGet :: "event list \<Rightarrow> dynamicClient \<Rightarrow> groupVersionResource \<Rightarrow> string \<Rightarrow> string
    \<Rightarrow> unstructured option \<times> error option"
  resourceUpdate :: "event list \<Rightarrow> dynamicClient \<Rightarrow> groupVersionResource \<Rightarrow> string
    \<Rightarrow> unstructured \<Rightarrow> unstructured option \<times> error option"
  DefaultRetrySteps :: nat

subsection \<open>The handler\<close>

text \<open>
  The fields of the handler are nil until \<open>FindAndDeleteOryFinalizers\<close> assigns them.
  A method call through a nil field panics; \<open>NilPanic\<close> is that outcome. The logger a
  caller passes in is a pointer too and may be nil: the field then stays nil, and the
  first log line panics. A log line is an event of the trace, with the logger it went to.
\<close>

record defaultOryFinalizersHandler =
  apixClient :: "apixClient option"
  dynamic :: "dynamicClient option"
  logger :: "sugaredLogger option"

definition NewDefaultOryFinalizersHandler :: defaultOryFinalizersHandler where
  "NewDefaultOryFinalizersHandler = \<lparr>apixClient = None, dynamic = None, logger = None\<rparr>"

datatype 'a outcome = Return 'a | NilPanic

definition andThen ::
  "'a outcome \<times> event list \<Rightarrow> ('a \<Rightarrow> event list \<Rightarrow> 'b outcome \<times> event list)
    \<Rightarrow> 'b outcome \<times> event list" where
  "andThen m f = (case m of (NilPanic, tr) \<Rightarrow> (NilPanic, tr) | (Return a, tr) \<Rightarrow> f a tr)"

definition logf ::
  "defaultOryFinalizersHandler \<Rightarrow> level \<Rightarrow> string \<Rightarrow> event list \<Rightarrow> unit outcome \<times> event list" where
  "logf h lvl msg tr =
     (case logger h of
        None \<Rightarrow> (NilPanic, tr)
      | Some lg \<Rightarrow> (Return (), tr @ [Logged lg lvl msg]))"

definition useDynamic ::
  "defaultOryFinalizersHandler \<Rightarrow> event list \<Rightarrow> dynamicClient outcome \<times> event list" where
  "useDynamic h tr = (case dynamic h of None \<Rightarrow> (NilPanic, tr) | Some d \<Rightarrow> (Return d, tr))"

definition useApixClient ::
  "defaultOryFinalizersHandler \<Rightarrow> event list \<Rightarrow> apixClient outcome \<times> event list" where
  "useApixClient h tr = (case apixClient h of None \<Rightarrow> (NilPanic, tr) | Some c \<Rightarrow> (Return c, tr))"

text \<open>The test \<open>err != nil && !apierr.IsNotFound(err)\<close> of the three requests.\<close>

definition otherThanNotFound :: "error option \<Rightarrow> bool" where
  "otherThanNotFound err = (case err of None \<Rightarrow> False | Some e \<Rightarrow> \<not> IsNotFound e)"

definition quoted :: "string \<Rightarrow> string" where
  "quoted s = [CHR 0x22] @ s @ [CHR 0x22]"

definition typeString :: "groupVersionResource \<Rightarrow> string" where
  "typeString crdef = Resource crdef @ ''.'' @ Group crdef @ ''/'' @ Version crdef"

text \<open>The formatted messages of the log lines and of the wrapped error.\<close>

definition droppingMessage :: "groupVersionResource \<Rightarrow> string" where
  "droppingMessage crdef =
     ''Dropping finalizers for all ory custom resources of type: '' @ typeString crdef"

definition finishedMessage :: "groupVersionResource \<Rightarrow> string" where
  "finishedMessage crdef =
     ''Finished dropping finalizers for ory custom resources of type: '' @ typeString crdef"

definition foundMessage :: "unstructured \<Rightarrow> unstructured \<Rightarrow> string" where
  "foundMessage res instance =
     ''Found ory finalizers for '' @ quoted (Name res) @ '' '' @ Kind instance @ '', deleting''"

definition deletedMessage :: "unstructured \<Rightarrow> unstructured \<Rightarrow> string" where
  "deletedMessage res instance =
     ''Deleted ory finalizer for '' @ quoted (Name res) @ '' '' @ Kind instance"

definition failedMessage :: "groupVersionResource \<Rightarrow> string \<Rightarrow> string" where
  "failedMessage crdef name =
     ''deleting ory finalizer for '' @ typeString crdef @ '' '' @ quoted name @ '' failed''"

definition errorMessage :: "groupVersionResource \<Rightarrow> error \<Rightarrow> string" where
  "errorMessage crdef err =
     ''Error while dropping finalizers for oauth2client '' @ quoted (GVRString crdef)
       @ '': '' @ Error err"

subsubsection \<open>\<open>restConfig\<close>\<close>

definition restConfig ::
  "environment \<Rightarrow> string \<Rightarrow> event list \<Rightarrow> (error + config) \<times> event list" where
  "restConfig env kubeconfigData tr =
     (let r = RESTConfigFromKubeConfig env tr kubeconfigData;
          tr1 = tr @ [ParseKubeConfig kubeconfigData r]
      in case r of
           Inl err \<Rightarrow> (Inl err, tr1)
         | Inr cfg \<Rightarrow> (Inr (cfg\<lparr>WarningHandler := NoWarnings\<rparr>), tr1))"

subsubsection \<open>\<open>removeCustomResourceFinalizers\<close>\<close>

definition removeCustomResourceFinalizers ::
  "environment \<Rightarrow> defaultOryFinalizersHandler \<Rightarrow> groupVersionResource \<Rightarrow> unstructured
    \<Rightarrow> event list \<Rightarrow> error option outcome \<times> event list" where
  "removeCustomResourceFinalizers env h crdef instance tr =
     andThen (useDynamic h tr) (\<lambda>d tr.
       let resp = resourceGet env tr d crdef (Namespace instance) (Name instance);
           tr1 = tr @ [ResourceGet d crdef (Namespace instance) (Name instance) resp]
       in if otherThanNotFound (snd resp) then (Return (snd resp), tr1)
          else case fst resp of
            None \<Rightarrow> (Return None, tr1)
          | Some res \<Rightarrow>
              if length (Finalizers res) > 0 then
                andThen (logf h DebugLevel (foundMessage res instance) tr1) (\<lambda>_ tr2.
                  let res' = SetFinalizersNil res in
                  andThen (useDynamic h tr2) (\<lambda>d' tr2.
                    let uresp = resourceUpdate env tr2 d' crdef (Namespace res') res';
                        tr3 = tr2 @ [ResourceUpdate d' crdef (Namespace res') res' uresp]
                    in case snd uresp of
                         Some err \<Rightarrow> (Return (Some err), tr3)
                       | None \<Rightarrow>
                           andThen (logf h DebugLevel (deletedMessage res' instance) tr3) (\<lambda>_ tr4.
                             (Return None, tr4))))
              else (Return None, tr1))"

subsubsection \<open>\<open>retry.RetryOnConflict\<close>\<close>

text \<open>
  The retry helper is a function of the client library, not of the repository; this is
  what it does, with the waiting between attempts left out. \<open>retryLoop\<close> has the number
  of attempts that are left: it runs the function, stops when the function returns nil
  or an error that is not a conflict, and runs it again after a conflict while attempts
  are left. When they run out it returns the last conflict (nil when the function never
  ran). A panic of the function goes through.
\<close>

fun retryLoop ::
  "nat \<Rightarrow> error option \<Rightarrow> (event list \<Rightarrow> error option outcome \<times> event list)
    \<Rightarrow> event list \<Rightarrow> error option outcome \<times> event list" where
  "retryLoop 0 lastErr fn tr = (Return lastErr, tr)"
| "retryLoop (Suc n) lastErr fn tr =
     (case fn tr of
        (NilPanic, tr1) \<Rightarrow> (NilPanic, tr1)
      | (Return None, tr1) \<Rightarrow> (Return None, tr1)
      | (Return (Some err), tr1) \<Rightarrow>
          if IsConflict err then retryLoop n (Some err) fn tr1
          else (Return (Some err), tr1))"

definition RetryOnConflict ::
  "nat \<Rightarrow> (event list \<Rightarrow> error option outcome \<times> event list)
    \<Rightarrow> event list \<Rightarrow> error option outcome \<times> event list" where
  "RetryOnConflict steps fn tr = retryLoop steps None fn tr"

subsubsection \<open>\<open>removeFinalizersFromAllInstancesOf\<close>\<close>

text \<open>The \<open>for\<close> loop over the items of the list.\<close>

fun forEachInstance ::
  "environment \<Rightarrow> defaultOryFinalizersHandler \<Rightarrow> groupVersionResource \<Rightarrow> unstructured list
    \<Rightarrow> event list \<Rightarrow> error option outcome \<times> event list" where
  "forEachInstance env h crdef [] tr = (Return None, tr)"
| "forEachInstance env h crdef (instance # items) tr =
     (case RetryOnConflict (DefaultRetrySteps env)
             (removeCustomResourceFinalizers env h crdef instance) tr of
        (NilPanic, tr1) \<Rightarrow> (NilPanic, tr1)
      | (Return (Some retryErr), tr1) \<Rightarrow>
          (Return (Some (Wrapf retryErr (failedMessage crdef (Name instance)))), tr1)
      | (Return None, tr1) \<Rightarrow> forEachInstance env h crdef items tr1)"

text \<open>The body between the first log line and the deferred one.\<close>

definition listAndRemove ::
  "environment \<Rightarrow> defaultOryFinalizersHandler \<Rightarrow> groupVersionResource
    \<Rightarrow> event list \<Rightarrow> error option outcome \<times> event list" where
  "listAndRemove env h crdef tr =
     andThen (useDynamic h tr) (\<lambda>d tr.
       let resp = resourceList env tr d crdef NamespaceAll;
           tr1 = tr @ [ResourceList d crdef NamespaceAll resp]
       in if otherThanNotFound (snd resp) then (Return (snd resp), tr1)
          else case fst resp of
            None \<Rightarrow>
              andThen (logf h DebugLevel ''Couldn't find any oauth2client custom resources.'' tr1)
                (\<lambda>_ tr2. (Return None, tr2))
          | Some customResourceList \<Rightarrow> forEachInstance env h crdef customResourceList tr1)"

definition removeFinalizersFromAllInstancesOf ::
  "environment \<Rightarrow> defaultOryFinalizersHandler \<Rightarrow> groupVersionResource
    \<Rightarrow> event list \<Rightarrow> error option outcome \<times> event list" where
  "removeFinalizersFromAllInstancesOf env h crdef tr =
     andThen (logf h DebugLevel (droppingMessage crdef) tr)
       (\<lambda>_ tr1.
         case listAndRemove env h crdef tr1 of (r, tr2) \<Rightarrow>
           (case logf h DebugLevel (finishedMessage crdef) tr2 of
              (NilPanic, tr3) \<Rightarrow> (NilPanic, tr3)
            | (Return _, tr3) \<Rightarrow> (r, tr3)))"

subsubsection \<open>\<open>FindAndDeleteOryFinalizers\<close>\<close>

definition FindAndDeleteOryFinalizers ::
  "environment \<Rightarrow> defaultOryFinalizersHandler \<Rightarrow> string \<Rightarrow> sugaredLogger option
    \<Rightarrow> event list
    \<Rightarrow> error option outcome \<times> defaultOryFinalizersHandler \<times> event list" where
  "FindAndDeleteOryFinalizers env h0 kubeconfigData lg tr0 =
     (let h1 = h0\<lparr>logger := lg\<rparr> in
      case restConfig env kubeconfigData tr0 of
        (Inl err, tr1) \<Rightarrow> (Return (Some err), h1, tr1)
      | (Inr cfg, tr1) \<Rightarrow>
         (let ra = apixNewForConfig env tr1 cfg;
              tr2 = tr1 @ [ApixNewForConfig cfg ra]
          in case ra of
               Inl err \<Rightarrow> (Return (Some err), h1\<lparr>apixClient := None\<rparr>, tr2)
             | Inr c \<Rightarrow>
                (let h2 = h1\<lparr>apixClient := Some c\<rparr>;
                     rd = dynamicNewForConfig env tr2 cfg;
                     tr3 = tr2 @ [DynamicNewForConfig cfg rd]
                 in case rd of
                      Inl err \<Rightarrow> (Return (Some err), h2\<lparr>dynamic := None\<rparr>, tr3)
                    | Inr d \<Rightarrow>
                       (let h3 = h2\<lparr>dynamic := Some d\<rparr> in
                        case useApixClient h3 tr3 of
                          (NilPanic, tr4) \<Rightarrow> (NilPanic, h3, tr4)
                        | (Return c', tr4) \<Rightarrow>
                           (let resp = crdGet env tr4 c' ''oauth2clients.hydra.ory.sh'';
                                tr5 = tr4 @ [CrdGet c' ''oauth2clients.hydra.ory.sh'' resp]
                            in if otherThanNotFound (snd resp) then (Return (snd resp), h3, tr5)
                               else (case fst resp of
                                 None \<Rightarrow>
                                   (case logf h3 DebugLevel
                                       ''Couldn't find oauth2client crd to remove finalizers from''
                                       tr5 of
                                      (NilPanic, tr6) \<Rightarrow> (NilPanic, h3, tr6)
                                    | (Return u, tr6) \<Rightarrow> (Return None, h3, tr6))
                               | Some crd \<Rightarrow>
                                  (let crdef = \<lparr>Group = SpecGroup crd, Version = SpecVersion crd,
                                                Resource = SpecNamesPlural crd\<rparr>
                                   in case removeFinalizersFromAllInstancesOf env h3 crdef tr5 of
                                        (NilPanic, tr6) \<Rightarrow> (NilPanic, h3, tr6)
                                      | (Return None, tr6) \<Rightarrow> (Return None, h3, tr6)
                                      | (Return (Some err), tr6) \<Rightarrow>
                                          (case logf h3 ErrorLevel (errorMessage crdef err)
                                              tr6 of
                                             (NilPanic, tr7) \<Rightarrow> (NilPanic, h3, tr7)
                                           | (Return u, tr7) \<Rightarrow>
                                               (Return (Some err), h3, tr7)))))))))"

subsection \<open>What a run returns and what it issues\<close>

definition result ::
  "environment \<Rightarrow> defaultOryFinalizersHandler \<Rightarrow> string \<Rightarrow> sugaredLogger option
    \<Rightarrow> event list \<Rightarrow> error option outcome" where
  "result env h kubeconfigData lg tr = fst (FindAndDeleteOryFinalizers env h kubeconfigData lg tr)"

definition events ::
  "environment \<Rightarrow> defaultOryFinalizersHandler \<Rightarrow> string \<Rightarrow> sugaredLogger option
    \<Rightarrow> event list \<Rightarrow> event list" where
  "events env h kubeconfigData lg tr =
     drop (length tr) (snd (snd (FindAndDeleteOryFinalizers env h kubeconfigData lg tr)))"

text \<open>The requests among the events, and the instances the get requests address.\<close>

fun isLog :: "event \<Rightarrow> bool" where
  "isLog (Logged lg lvl msg) = True"
| "isLog ev = False"

fun isGet :: "event \<Rightarrow> bool" where
  "isGet (ResourceGet d g ns n r) = True"
| "isGet ev = False"

fun isList :: "event \<Rightarrow> bool" where
  "isList (ResourceList d g ns r) = True"
| "isList ev = False"

fun isUpdate :: "event \<Rightarrow> bool" where
  "isUpdate (ResourceUpdate d g ns obj r) = True"
| "isUpdate ev = False"

definition calls :: "event list \<Rightarrow> event list" where
  "calls evs = filter (\<lambda>ev. \<not> isLog ev) evs"

fun target :: "event \<Rightarrow> (string \<times> string) list" where
  "target (ResourceGet d g ns n r) = [(ns, n)]"
| "target ev = []"

definition targets :: "event list \<Rightarrow> (string \<times> string) list" where
  "targets evs = concat (map target evs)"

text \<open>The error a call was answered with, if any.\<close>

fun answerError :: "event \<Rightarrow> error option" where
  "answerError (ParseKubeConfig k r) = (case r of Inl e \<Rightarrow> Some e | Inr cfg \<Rightarrow> None)"
| "answerError (ApixNewForConfig cfg r) = (case r of Inl e \<Rightarrow> Some e | Inr c \<Rightarrow> None)"
| "answerError (DynamicNewForConfig cfg r) = (case r of Inl e \<Rightarrow> Some e | Inr d \<Rightarrow> None)"
| "answerError (CrdGet c n r) = snd r"
| "answerError (ResourceList d g ns r) = snd r"
| "answerError (ResourceGet d g ns n r) = snd r"
| "answerError (ResourceUpdate d g ns obj r) = snd r"
| "answerError (Logged lg lvl msg) = None"

subsection \<open>A sample cluster\<close>

text \<open>
  A cluster with the CRD and two instances of it, one with a finalizer and one without.
  The first update it receives is answered with a conflict, the later ones succeed.
\<close>

definition sampleCrd :: customResourceDefinition where
  "sampleCrd = \<lparr>SpecGroup = ''hydra.ory.sh'', SpecVersion = ''v1alpha1'',
                 SpecNamesPlural = ''oauth2clients''\<rparr>"

definition sampleGvr :: groupVersionResource where
  "sampleGvr = \<lparr>Group = ''hydra.ory.sh'', Version = ''v1alpha1'', Resource = ''oauth2clients''\<rparr>"

definition clientA :: unstructured where
  "clientA = \<lparr>Name = ''client-a'', Namespace = ''team-a'', Kind = ''OAuth2Client'',
               ResourceVersion = ''7'', Finalizers = [''finalizer.ory.hydra.sh'']\<rparr>"

definition clientB :: unstructured where
  "clientB = \<lparr>Name = ''client-b'', Namespace = ''team-b'', Kind = ''OAuth2Client'',
               ResourceVersion = ''3'', Finalizers = []\<rparr>"

definition notFound :: error where
  "notFound = StatusError StatusReasonNotFound ''not found''"

definition conflict :: error where
  "conflict = StatusError StatusReasonConflict ''the object has been modified''"

definition forbidden :: error where
  "forbidden = StatusError StatusReasonUnknown ''forbidden''"

definition sampleConfig :: config where
  "sampleConfig = \<lparr>Host = ''https://cluster.local'', WarningHandler = DefaultWarnings\<rparr>"

definition sampleCluster :: environment where
  "sampleCluster =
     \<lparr>RESTConfigFromKubeConfig = (\<lambda>tr k. Inr sampleConfig),
      apixNewForConfig = (\<lambda>tr cfg. Inr (ApixClient 1)),
      dynamicNewForConfig = (\<lambda>tr cfg. Inr (DynamicClient 2)),
      crdGet = (\<lambda>tr c n.
        if n = ''oauth2clients.hydra.ory.sh'' then (Some sampleCrd, None)
        else (None, Some notFound)),
      resourceList = (\<lambda>tr d g ns. (Some [clientA, clientB], None)),
      resourceGet = (\<lambda>tr d g ns n.
        if n = ''client-a'' then (Some clientA, None)
        else if n = ''client-b'' then (Some clientB, None)
        else (None, Some notFound)),
      resourceUpdate = (\<lambda>tr d g ns obj.
        if filter isUpdate tr = [] then (None, Some conflict) else (Some obj, None)),
      DefaultRetrySteps = 5\<rparr>"

text \<open>
  A handler after its fields were assigned; a cluster where the first instance has
  vanished between the list and the get; and a cluster without the CRD, answering as the
  generated clientset does: an empty object together with the not-found error.
\<close>

definition readyHandler :: defaultOryFinalizersHandler where
  "readyHandler = \<lparr>apixClient = Some (ApixClient 1), dynamic = Some (DynamicClient 2),
                    logger = Some (SugaredLogger 0)\<rparr>"

definition vanishedCluster :: environment where
  "vanishedCluster = sampleCluster\<lparr>resourceGet := (\<lambda>tr d g ns n.
     if n = ''client-a'' then (None, Some notFound) else (Some clientB, None))\<rparr>"

definition emptyCrd :: customResourceDefinition where
  "emptyCrd = \<lparr>SpecGroup = '''', SpecVersion = '''', SpecNamesPlural = ''''\<rparr>"

definition emptyGvr :: groupVersionResource where
  "emptyGvr = \<lparr>Group = '''', Version = '''', Resource = ''''\<rparr>"

definition crdlessCluster :: environment where
  "crdlessCluster = sampleCluster\<lparr>
     crdGet := (\<lambda>tr c n. (Some emptyCrd, Some notFound)),
     resourceList := (\<lambda>tr d g ns. (None, Some notFound))\<rparr>"


text \<open>A cluster that refuses every update, and one that refuses every get.\<close>

definition readOnlyCluster :: environment where
  "readOnlyCluster = sampleCluster\<lparr>resourceUpdate := (\<lambda>tr d g ns obj. (None, Some forbidden))\<rparr>"

definition unreadableCluster :: environment where
  "unreadableCluster = sampleCluster\<lparr>resourceGet := (\<lambda>tr d g ns n. (None, Some forbidden))\<rparr>"

text \<open>
  A cluster that lists one instance and answers the get of it with another object, one
  of another name in another namespace.
\<close>

definition clientZ :: unstructured where
  "clientZ = \<lparr>Name = ''client-z'', Namespace = ''team-z'', Kind = ''OAuth2Client'',
               ResourceVersion = ''9'', Finalizers = [''finalizer.ory.hydra.sh'']\<rparr>"

definition strayCluster :: environment where
  "strayCluster = sampleCluster\<lparr>
     resourceList := (\<lambda>tr d g ns. (Some [clientA], None)),
     resourceGet := (\<lambda>tr d g ns n. (Some clientZ, None)),
     resourceUpdate := (\<lambda>tr d g ns obj. (Some obj, None))\<rparr>"

section \<open>Basic facts\<close>


lemma andThen_simps:
  "andThen (Return a, tr) f = f a tr"
  "andThen (NilPanic, tr) f = (NilPanic, tr)"
  by (simp_all add: andThen_def)

lemma logf_Some: "logger h = Some lg \<Longrightarrow> logf h lvl msg tr = (Return (), tr @ [Logged lg lvl msg])"
  by (simp add: logf_def)

lemma useDynamic_Some: "dynamic h = Some d \<Longrightarrow> useDynamic h tr = (Return d, tr)"
  by (simp add: useDynamic_def)

lemma attempt_eq:
  assumes "dynamic h = Some d" and "logger h = Some lg"
  shows "removeCustomResourceFinalizers env h crdef inst tr =
    (let resp = resourceGet env tr d crdef (Namespace inst) (Name inst);
         g = ResourceGet d crdef (Namespace inst) (Name inst) resp
     in if otherThanNotFound (snd resp) then (Return (snd resp), tr @ [g])
        else case fst resp of
          None \<Rightarrow> (Return None, tr @ [g])
        | Some res \<Rightarrow>
            if Finalizers res = [] then (Return None, tr @ [g])
            else
              (let l1 = Logged lg DebugLevel (foundMessage res inst);
                   res' = res\<lparr>Finalizers := []\<rparr>;
                   ur = resourceUpdate env (tr @ [g, l1]) d crdef (Namespace res) res';
                   u = ResourceUpdate d crdef (Namespace res) res' ur
               in case snd ur of
                    Some err \<Rightarrow> (Return (Some err), tr @ [g, l1, u])
                  | None \<Rightarrow> (Return None, tr @ [g, l1, u, Logged lg DebugLevel
                      (deletedMessage (res\<lparr>Finalizers := []\<rparr>) inst)])))"
  using assms
  by (simp add: removeCustomResourceFinalizers_def useDynamic_Some logf_Some andThen_simps
      Let_def SetFinalizersNil_def split: option.splits)

lemma retryLoop_events:
  assumes att: "\<And>tr. \<exists>evs r. fn tr = (Return r, tr @ evs) \<and> Q evs"
    and nil: "Q []" and app: "\<And>a b. Q a \<Longrightarrow> Q b \<Longrightarrow> Q (a @ b)"
  shows "\<exists>evs r. retryLoop n lastErr fn tr = (Return r, tr @ evs) \<and> Q evs"
proof (induction n arbitrary: lastErr tr)
  case 0
  show ?case using nil by simp
next
  case (Suc n)
  from att obtain evs r where a: "fn tr = (Return r, tr @ evs)" "Q evs" by blast
  show ?case
  proof (cases r)
    case None
    with a show ?thesis by auto
  next
    case (Some err)
    show ?thesis
    proof (cases "IsConflict err")
      case True
      from Suc.IH[of "Some err" "tr @ evs"] obtain evs' r'
        where b: "retryLoop n (Some err) fn (tr @ evs) = (Return r', (tr @ evs) @ evs')" "Q evs'"
        by blast
      from a b Some True app[OF a(2) b(2)] show ?thesis by auto
    next
      case False
      with a Some show ?thesis by auto
    qed
  qed
qed

lemma forEachInstance_events:
  assumes att: "\<And>inst tr. inst \<in> S \<Longrightarrow>
      \<exists>evs r. removeCustomResourceFinalizers env h crdef inst tr = (Return r, tr @ evs) \<and> Q evs"
    and nil: "Q []" and app: "\<And>a b. Q a \<Longrightarrow> Q b \<Longrightarrow> Q (a @ b)"
  shows "set items \<subseteq> S \<Longrightarrow>
    \<exists>evs r. forEachInstance env h crdef items tr = (Return r, tr @ evs) \<and> Q evs"
proof (induction items arbitrary: tr)
  case Nil
  show ?case using nil by simp
next
  case (Cons inst items)
  have "inst \<in> S" using Cons.prems by simp
  from retryLoop_events[where fn = "removeCustomResourceFinalizers env h crdef inst" and Q = Q,
      OF att[OF this] nil app, of "DefaultRetrySteps env" None tr]
  obtain evs r where a: "RetryOnConflict (DefaultRetrySteps env)
      (removeCustomResourceFinalizers env h crdef inst) tr = (Return r, tr @ evs)" "Q evs"
    by (auto simp: RetryOnConflict_def)
  show ?case
  proof (cases r)
    case None
    from Cons.IH[of "tr @ evs"] Cons.prems obtain evs' r'
      where b: "forEachInstance env h crdef items (tr @ evs) = (Return r', (tr @ evs) @ evs')" "Q evs'"
      by auto
    from a b None app[OF a(2) b(2)] show ?thesis by auto
  next
    case (Some err)
    with a show ?thesis by auto
  qed
qed


lemma forEachInstance_returns:
  assumes "dynamic h = Some d" and "logger h = Some lg"
  shows "\<exists>evs r. forEachInstance env h crdef items tr = (Return r, tr @ evs)"
proof -
  have "\<exists>evs r. forEachInstance env h crdef items tr = (Return r, tr @ evs) \<and> True"
    by (rule forEachInstance_events[where S = UNIV and Q = "\<lambda>_. True"])
      (simp_all add: attempt_eq[OF assms] Let_def split: option.splits)
  then show ?thesis by simp
qed

lemma rFFAIO_eq:
  assumes "dynamic h = Some d" and "logger h = Some lg"
  shows "removeFinalizersFromAllInstancesOf env h crdef tr =
    (let l0 = Logged lg DebugLevel (droppingMessage crdef);
         fin = Logged lg DebugLevel (finishedMessage crdef);
         resp = resourceList env (tr @ [l0]) d crdef NamespaceAll;
         l = ResourceList d crdef NamespaceAll resp
     in if otherThanNotFound (snd resp) then (Return (snd resp), tr @ [l0, l, fin])
        else case fst resp of
          None \<Rightarrow> (Return None, tr @ [l0, l,
            Logged lg DebugLevel ''Couldn't find any oauth2client custom resources.'', fin])
        | Some items \<Rightarrow>
            (case forEachInstance env h crdef items (tr @ [l0, l]) of
               (r, tr') \<Rightarrow> (r, tr' @ [fin])))"
  using assms
  by (simp add: removeFinalizersFromAllInstancesOf_def listAndRemove_def useDynamic_Some
      logf_Some andThen_simps Let_def split: option.splits prod.splits outcome.splits)


lemma logf_None: "logger h = None \<Longrightarrow> logf h lvl msg tr = (NilPanic, tr)"
  by (simp add: logf_def)

lemma rFFAIO_nil:
  "logger h = None \<Longrightarrow> removeFinalizersFromAllInstancesOf env h crdef tr = (NilPanic, tr)"
  by (simp add: removeFinalizersFromAllInstancesOf_def logf_None andThen_simps)

lemma handler_all_fields:
  "h\<lparr>logger := lg, apixClient := Some c, dynamic := Some d\<rparr>
     = \<lparr>apixClient = Some c, dynamic = Some d, logger = lg\<rparr>"
  by (cases h) simp

lemma F_cases0:
  fixes env h k lg tr
  defines "F \<equiv> FindAndDeleteOryFinalizers env h k lg tr"
  obtains
    (parse) e where
      "RESTConfigFromKubeConfig env tr k = Inl e"
      "F = (Return (Some e), h\<lparr>logger := lg\<rparr>, tr @ [ParseKubeConfig k (Inl e)])"
  | (apix) cfg0 cfg p e where
      "RESTConfigFromKubeConfig env tr k = Inr cfg0"
      "cfg = cfg0\<lparr>WarningHandler := NoWarnings\<rparr>"
      "p = ParseKubeConfig k (Inr cfg0)"
      "apixNewForConfig env (tr @ [p]) cfg = Inl e"
      "F = (Return (Some e), h\<lparr>logger := lg, apixClient := None\<rparr>,
            tr @ [p, ApixNewForConfig cfg (Inl e)])"
  | (dyn) cfg0 cfg p c a e where
      "RESTConfigFromKubeConfig env tr k = Inr cfg0"
      "cfg = cfg0\<lparr>WarningHandler := NoWarnings\<rparr>"
      "p = ParseKubeConfig k (Inr cfg0)"
      "apixNewForConfig env (tr @ [p]) cfg = Inr c"
      "a = ApixNewForConfig cfg (Inr c)"
      "dynamicNewForConfig env (tr @ [p, a]) cfg = Inl e"
      "F = (Return (Some e), h\<lparr>logger := lg, apixClient := Some c, dynamic := None\<rparr>,
            tr @ [p, a, DynamicNewForConfig cfg (Inl e)])"
  | (crd) cfg0 cfg p c a d dd h3 rg g where
      "RESTConfigFromKubeConfig env tr k = Inr cfg0"
      "cfg = cfg0\<lparr>WarningHandler := NoWarnings\<rparr>"
      "p = ParseKubeConfig k (Inr cfg0)"
      "apixNewForConfig env (tr @ [p]) cfg = Inr c"
      "a = ApixNewForConfig cfg (Inr c)"
      "dynamicNewForConfig env (tr @ [p, a]) cfg = Inr d"
      "dd = DynamicNewForConfig cfg (Inr d)"
      "h3 = \<lparr>apixClient = Some c, dynamic = Some d, logger = lg\<rparr>"
      "rg = crdGet env (tr @ [p, a, dd]) c ''oauth2clients.hydra.ory.sh''"
      "g = CrdGet c ''oauth2clients.hydra.ory.sh'' rg"
      "F = (if otherThanNotFound (snd rg) then (Return (snd rg), h3, tr @ [p, a, dd, g])
            else case lg of
              None \<Rightarrow> (NilPanic, h3, tr @ [p, a, dd, g])
            | Some lgr \<Rightarrow>
               (case fst rg of
                  None \<Rightarrow> (Return None, h3, tr @ [p, a, dd, g, Logged lgr DebugLevel
                    ''Couldn't find oauth2client crd to remove finalizers from''])
                | Some crd \<Rightarrow>
                    (let crdef = \<lparr>Group = SpecGroup crd, Version = SpecVersion crd,
                                  Resource = SpecNamesPlural crd\<rparr>
                     in case removeFinalizersFromAllInstancesOf env h3 crdef (tr @ [p, a, dd, g]) of
                          (Return (Some err), tr') \<Rightarrow> (Return (Some err), h3, tr' @ [Logged lgr ErrorLevel (errorMessage crdef err)])
                        | (r, tr') \<Rightarrow> (r, h3, tr'))))"
proof -
  show ?thesis
  proof (cases "RESTConfigFromKubeConfig env tr k")
    case (Inl e)
    then show ?thesis
      by (intro parse[of e]) (simp_all add: F_def FindAndDeleteOryFinalizers_def restConfig_def Let_def)
  next
    case (Inr cfg0)
    note r0 = this
    define cfg where "cfg = cfg0\<lparr>WarningHandler := NoWarnings\<rparr>"
    define p where "p = ParseKubeConfig k (Inr cfg0)"
    show ?thesis
    proof (cases "apixNewForConfig env (tr @ [p]) cfg")
      case (Inl e)
      with r0 show ?thesis
        by (intro apix[of cfg0 cfg p e])
          (simp_all add: F_def FindAndDeleteOryFinalizers_def restConfig_def Let_def cfg_def p_def)
    next
      case (Inr c)
      note ra = this
      define a where "a = ApixNewForConfig cfg (Inr c)"
      show ?thesis
      proof (cases "dynamicNewForConfig env (tr @ [p, a]) cfg")
        case (Inl e)
        with r0 ra show ?thesis
          by (intro dyn[of cfg0 cfg p c a e])
            (simp_all add: F_def FindAndDeleteOryFinalizers_def restConfig_def Let_def
              cfg_def p_def a_def)
      next
        case (Inr d)
        note rd = this
        show ?thesis
        proof (cases lg)
          case None
          with r0 ra rd show ?thesis
            by (intro crd[of cfg0 cfg p c a d "DynamicNewForConfig cfg (Inr d)"
                  "\<lparr>apixClient = Some c, dynamic = Some d, logger = lg\<rparr>"
                  "crdGet env (tr @ [p, a, DynamicNewForConfig cfg (Inr d)]) c ''oauth2clients.hydra.ory.sh''"
                  "CrdGet c ''oauth2clients.hydra.ory.sh'' (crdGet env (tr @ [p, a, DynamicNewForConfig cfg (Inr d)]) c ''oauth2clients.hydra.ory.sh'')"])
              (simp_all add: F_def FindAndDeleteOryFinalizers_def restConfig_def Let_def
                cfg_def p_def a_def handler_all_fields useApixClient_def logf_None rFFAIO_nil
                split: option.splits)
        next
          case (Some lgr)
          with r0 ra rd show ?thesis
            by (intro crd[of cfg0 cfg p c a d "DynamicNewForConfig cfg (Inr d)"
                  "\<lparr>apixClient = Some c, dynamic = Some d, logger = lg\<rparr>"
                  "crdGet env (tr @ [p, a, DynamicNewForConfig cfg (Inr d)]) c ''oauth2clients.hydra.ory.sh''"
                  "CrdGet c ''oauth2clients.hydra.ory.sh'' (crdGet env (tr @ [p, a, DynamicNewForConfig cfg (Inr d)]) c ''oauth2clients.hydra.ory.sh'')"])
              (simp_all add: F_def FindAndDeleteOryFinalizers_def restConfig_def Let_def
                cfg_def p_def a_def handler_all_fields useApixClient_def logf_Some
                split: option.splits prod.splits outcome.splits)
        qed
      qed
    qed
  qed
qed

text \<open>
  The ways a run can go. It ends at a failing parse, at a failing construction of a
  client or at a failing CRD get. Or, with a logger, it ends after a CRD get that handed
  back no CRD, at a failing list, after a list that handed back nothing, or after the loop
  over the listed instances. Or, with a nil logger and a CRD get that did not fail, it
  panics at the first log line, which comes right after the CRD get.
\<close>

lemma F_cases:
  fixes env h k lg tr
  defines "F \<equiv> FindAndDeleteOryFinalizers env h k lg tr"
  obtains
    (parse) e where
      "RESTConfigFromKubeConfig env tr k = Inl e"
      "F = (Return (Some e), h\<lparr>logger := lg\<rparr>, tr @ [ParseKubeConfig k (Inl e)])"
  | (apix) cfg0 cfg p e where
      "RESTConfigFromKubeConfig env tr k = Inr cfg0"
      "cfg = cfg0\<lparr>WarningHandler := NoWarnings\<rparr>"
      "p = ParseKubeConfig k (Inr cfg0)"
      "apixNewForConfig env (tr @ [p]) cfg = Inl e"
      "F = (Return (Some e), h\<lparr>logger := lg, apixClient := None\<rparr>,
            tr @ [p, ApixNewForConfig cfg (Inl e)])"
  | (dyn) cfg0 cfg p c a e where
      "RESTConfigFromKubeConfig env tr k = Inr cfg0"
      "cfg = cfg0\<lparr>WarningHandler := NoWarnings\<rparr>"
      "p = ParseKubeConfig k (Inr cfg0)"
      "apixNewForConfig env (tr @ [p]) cfg = Inr c"
      "a = ApixNewForConfig cfg (Inr c)"
      "dynamicNewForConfig env (tr @ [p, a]) cfg = Inl e"
      "F = (Return (Some e), h\<lparr>logger := lg, apixClient := Some c, dynamic := None\<rparr>,
            tr @ [p, a, DynamicNewForConfig cfg (Inl e)])"
  | (crdErr) cfg0 cfg p c a d dd h3 rc e where
      "RESTConfigFromKubeConfig env tr k = Inr cfg0"
      "cfg = cfg0\<lparr>WarningHandler := NoWarnings\<rparr>"
      "p = ParseKubeConfig k (Inr cfg0)"
      "apixNewForConfig env (tr @ [p]) cfg = Inr c"
      "a = ApixNewForConfig cfg (Inr c)"
      "dynamicNewForConfig env (tr @ [p, a]) cfg = Inr d"
      "dd = DynamicNewForConfig cfg (Inr d)"
      "h3 = \<lparr>apixClient = Some c, dynamic = Some d, logger = lg\<rparr>"
      "crdGet env (tr @ [p, a, dd]) c ''oauth2clients.hydra.ory.sh'' = (rc, Some e)"
      "\<not> IsNotFound e"
      "F = (Return (Some e), h3,
            tr @ [p, a, dd, CrdGet c ''oauth2clients.hydra.ory.sh'' (rc, Some e)])"
  | (crdNil) cfg0 cfg p c a d dd h3 e1 lgr where
      "RESTConfigFromKubeConfig env tr k = Inr cfg0"
      "cfg = cfg0\<lparr>WarningHandler := NoWarnings\<rparr>"
      "p = ParseKubeConfig k (Inr cfg0)"
      "apixNewForConfig env (tr @ [p]) cfg = Inr c"
      "a = ApixNewForConfig cfg (Inr c)"
      "dynamicNewForConfig env (tr @ [p, a]) cfg = Inr d"
      "dd = DynamicNewForConfig cfg (Inr d)"
      "h3 = \<lparr>apixClient = Some c, dynamic = Some d, logger = Some lgr\<rparr>"
      "crdGet env (tr @ [p, a, dd]) c ''oauth2clients.hydra.ory.sh'' = (None, e1)"
      "\<not> otherThanNotFound e1"
      "F = (Return None, h3,
            tr @ [p, a, dd, CrdGet c ''oauth2clients.hydra.ory.sh'' (None, e1),
              Logged lgr DebugLevel ''Couldn't find oauth2client crd to remove finalizers from''])"
      "lg = Some lgr"
  | (listErr) cfg0 cfg p c a d dd h3 crd e1 g crdef l0 fin rl e lgr where
      "RESTConfigFromKubeConfig env tr k = Inr cfg0"
      "cfg = cfg0\<lparr>WarningHandler := NoWarnings\<rparr>"
      "p = ParseKubeConfig k (Inr cfg0)"
      "apixNewForConfig env (tr @ [p]) cfg = Inr c"
      "a = ApixNewForConfig cfg (Inr c)"
      "dynamicNewForConfig env (tr @ [p, a]) cfg = Inr d"
      "dd = DynamicNewForConfig cfg (Inr d)"
      "h3 = \<lparr>apixClient = Some c, dynamic = Some d, logger = Some lgr\<rparr>"
      "crdGet env (tr @ [p, a, dd]) c ''oauth2clients.hydra.ory.sh'' = (Some crd, e1)"
      "\<not> otherThanNotFound e1"
      "g = CrdGet c ''oauth2clients.hydra.ory.sh'' (Some crd, e1)"
      "crdef = \<lparr>Group = SpecGroup crd, Version = SpecVersion crd, Resource = SpecNamesPlural crd\<rparr>"
      "l0 = Logged lgr DebugLevel (droppingMessage crdef)"
      "fin = Logged lgr DebugLevel (finishedMessage crdef)"
      "resourceList env (tr @ [p, a, dd, g, l0]) d crdef NamespaceAll = (rl, Some e)"
      "\<not> IsNotFound e"
      "F = (Return (Some e), h3,
            tr @ [p, a, dd, g, l0, ResourceList d crdef NamespaceAll (rl, Some e), fin,
              Logged lgr ErrorLevel (errorMessage crdef e)])"
      "lg = Some lgr"
  | (listNil) cfg0 cfg p c a d dd h3 crd e1 g crdef l0 fin e2 lgr where
      "RESTConfigFromKubeConfig env tr k = Inr cfg0"
      "cfg = cfg0\<lparr>WarningHandler := NoWarnings\<rparr>"
      "p = ParseKubeConfig k (Inr cfg0)"
      "apixNewForConfig env (tr @ [p]) cfg = Inr c"
      "a = ApixNewForConfig cfg (Inr c)"
      "dynamicNewForConfig env (tr @ [p, a]) cfg = Inr d"
      "dd = DynamicNewForConfig cfg (Inr d)"
      "h3 = \<lparr>apixClient = Some c, dynamic = Some d, logger = Some lgr\<rparr>"
      "crdGet env (tr @ [p, a, dd]) c ''oauth2clients.hydra.ory.sh'' = (Some crd, e1)"
      "\<not> otherThanNotFound e1"
      "g = CrdGet c ''oauth2clients.hydra.ory.sh'' (Some crd, e1)"
      "crdef = \<lparr>Group = SpecGroup crd, Version = SpecVersion crd, Resource = SpecNamesPlural crd\<rparr>"
      "l0 = Logged lgr DebugLevel (droppingMessage crdef)"
      "fin = Logged lgr DebugLevel (finishedMessage crdef)"
      "resourceList env (tr @ [p, a, dd, g, l0]) d crdef NamespaceAll = (None, e2)"
      "\<not> otherThanNotFound e2"
      "F = (Return None, h3,
            tr @ [p, a, dd, g, l0, ResourceList d crdef NamespaceAll (None, e2),
              Logged lgr DebugLevel ''Couldn't find any oauth2client custom resources.'', fin])"
      "lg = Some lgr"
  | (loop) cfg0 cfg p c a d dd h3 crd e1 g crdef l0 fin items e2 l r levs lgr where
      "RESTConfigFromKubeConfig env tr k = Inr cfg0"
      "cfg = cfg0\<lparr>WarningHandler := NoWarnings\<rparr>"
      "p = ParseKubeConfig k (Inr cfg0)"
      "apixNewForConfig env (tr @ [p]) cfg = Inr c"
      "a = ApixNewForConfig cfg (Inr c)"
      "dynamicNewForConfig env (tr @ [p, a]) cfg = Inr d"
      "dd = DynamicNewForConfig cfg (Inr d)"
      "h3 = \<lparr>apixClient = Some c, dynamic = Some d, logger = Some lgr\<rparr>"
      "crdGet env (tr @ [p, a, dd]) c ''oauth2clients.hydra.ory.sh'' = (Some crd, e1)"
      "\<not> otherThanNotFound e1"
      "g = CrdGet c ''oauth2clients.hydra.ory.sh'' (Some crd, e1)"
      "crdef = \<lparr>Group = SpecGroup crd, Version = SpecVersion crd, Resource = SpecNamesPlural crd\<rparr>"
      "l0 = Logged lgr DebugLevel (droppingMessage crdef)"
      "fin = Logged lgr DebugLevel (finishedMessage crdef)"
      "resourceList env (tr @ [p, a, dd, g, l0]) d crdef NamespaceAll = (Some items, e2)"
      "\<not> otherThanNotFound e2"
      "l = ResourceList d crdef NamespaceAll (Some items, e2)"
      "forEachInstance env h3 crdef items (tr @ [p, a, dd, g, l0, l])
         = (Return r, (tr @ [p, a, dd, g, l0, l]) @ levs)"
      "F = (Return r, h3,
            tr @ [p, a, dd, g, l0, l] @ levs @ fin #
              (case r of None \<Rightarrow> [] | Some err \<Rightarrow>
                [Logged lgr ErrorLevel (errorMessage crdef err)]))"
      "lg = Some lgr"
  | (nilLogger) cfg0 cfg p c a d dd h3 rc e1 where
      "RESTConfigFromKubeConfig env tr k = Inr cfg0"
      "cfg = cfg0\<lparr>WarningHandler := NoWarnings\<rparr>"
      "p = ParseKubeConfig k (Inr cfg0)"
      "apixNewForConfig env (tr @ [p]) cfg = Inr c"
      "a = ApixNewForConfig cfg (Inr c)"
      "dynamicNewForConfig env (tr @ [p, a]) cfg = Inr d"
      "dd = DynamicNewForConfig cfg (Inr d)"
      "h3 = \<lparr>apixClient = Some c, dynamic = Some d, logger = None\<rparr>"
      "crdGet env (tr @ [p, a, dd]) c ''oauth2clients.hydra.ory.sh'' = (rc, e1)"
      "\<not> otherThanNotFound e1"
      "F = (NilPanic, h3,
            tr @ [p, a, dd, CrdGet c ''oauth2clients.hydra.ory.sh'' (rc, e1)])"
      "lg = None"
proof (cases rule: F_cases0[of env tr k h lg])
  case (parse e)
  then show ?thesis using that(1) by (simp add: F_def)
next
  case (apix cfg0 cfg p e)
  then show ?thesis using that(2) by (simp add: F_def)
next
  case (dyn cfg0 cfg p c a e)
  then show ?thesis using that(3) by (simp add: F_def)
next
  case (crd cfg0 cfg p c a d dd h3 rg g0)
  note c7 = this(1-7)
  obtain rc e1 where rg: "rg = (rc, e1)" by (cases rg)
  have gr: "crdGet env (tr @ [p, a, dd]) c ''oauth2clients.hydra.ory.sh'' = (rc, e1)"
    using crd(9) rg by simp
  note Fraw = crd(11)[unfolded crd(10) rg F_def]
  show ?thesis
  proof (cases "otherThanNotFound e1")
    case True
    then obtain e where e: "e1 = Some e" "\<not> IsNotFound e"
      by (auto simp: otherThanNotFound_def split: option.splits)
    have "F = (Return (Some e), h3,
            tr @ [p, a, dd, CrdGet c ''oauth2clients.hydra.ory.sh'' (rc, Some e)])"
      using True e Fraw by (simp add: F_def)
    with c7 crd(8) gr e show ?thesis
      by (intro that(4)[of cfg0 cfg p c a d dd h3 rc e]) simp_all
  next
    case False
    note nf1 = this
    show ?thesis
    proof (cases lg)
      case None
      have "F = (NilPanic, h3,
            tr @ [p, a, dd, CrdGet c ''oauth2clients.hydra.ory.sh'' (rc, e1)])"
        using nf1 None Fraw by (simp add: F_def)
      with c7 crd(8) gr nf1 None show ?thesis
        by (intro that(9)[of cfg0 cfg p c a d dd h3 rc e1]) simp_all
    next
      case (Some lgr)
      note lgS = this
      have h3: "h3 = \<lparr>apixClient = Some c, dynamic = Some d, logger = Some lgr\<rparr>"
        using crd(8) lgS by simp
      note c = c7 h3
      have rdy: "dynamic h3 = Some d" "logger h3 = Some lgr" using h3 by simp_all
      have Fx0: "FindAndDeleteOryFinalizers env h k lg tr =
           (case rc of
              None \<Rightarrow> (Return None, h3, tr @ [p, a, dd, CrdGet c ''oauth2clients.hydra.ory.sh'' (rc, e1), Logged lgr DebugLevel
                ''Couldn't find oauth2client crd to remove finalizers from''])
            | Some crd \<Rightarrow>
                (let crdef = \<lparr>Group = SpecGroup crd, Version = SpecVersion crd,
                              Resource = SpecNamesPlural crd\<rparr>
                 in case removeFinalizersFromAllInstancesOf env h3 crdef (tr @ [p, a, dd, CrdGet c ''oauth2clients.hydra.ory.sh'' (rc, e1)]) of
                      (Return (Some err), tr') \<Rightarrow> (Return (Some err), h3, tr' @ [Logged lgr ErrorLevel (errorMessage crdef err)])
                    | (r, tr') \<Rightarrow> (r, h3, tr')))"
        using Fraw nf1 lgS by simp
      define g where "g = CrdGet c ''oauth2clients.hydra.ory.sh'' (rc, e1)"
      note Fx = Fx0[folded g_def]
      show ?thesis
      proof (cases rc)
        case None
        have "F = (Return None, h3,
              tr @ [p, a, dd, CrdGet c ''oauth2clients.hydra.ory.sh'' (None, e1),
                Logged lgr DebugLevel ''Couldn't find oauth2client crd to remove finalizers from''])"
          using nf1 None by (simp add: F_def Fx g_def)
        with c gr nf1 None lgS show ?thesis
          by (intro that(5)[of cfg0 cfg p c a d dd h3 lgr e1]) simp_all
      next
        case (Some crd)
        define crdef where "crdef = \<lparr>Group = SpecGroup crd, Version = SpecVersion crd,
          Resource = SpecNamesPlural crd\<rparr>"
        define l0 where "l0 = Logged lgr DebugLevel (droppingMessage crdef)"
        define fin where "fin = Logged lgr DebugLevel (finishedMessage crdef)"
        have g: "g = CrdGet c ''oauth2clients.hydra.ory.sh'' (Some crd, e1)"
          using Some by (simp add: g_def)
        have gr': "crdGet env (tr @ [p, a, dd]) c ''oauth2clients.hydra.ory.sh'' = (Some crd, e1)"
          using gr Some by simp
        obtain rl e2 where rl: "resourceList env (tr @ [p, a, dd, g, l0]) d crdef NamespaceAll = (rl, e2)"
          by (cases "resourceList env (tr @ [p, a, dd, g, l0]) d crdef NamespaceAll")
        have Feq: "F = (case removeFinalizersFromAllInstancesOf env h3 crdef (tr @ [p, a, dd, g]) of
                        (Return (Some err), tr') \<Rightarrow> (Return (Some err), h3, tr' @ [Logged lgr ErrorLevel (errorMessage crdef err)])
                      | (r, tr') \<Rightarrow> (r, h3, tr'))"
          using Some nf1 unfolding F_def Fx crdef_def Let_def by simp
        have R: "removeFinalizersFromAllInstancesOf env h3 crdef (tr @ [p, a, dd, g]) =
          (if otherThanNotFound e2
           then (Return e2, tr @ [p, a, dd, g, l0, ResourceList d crdef NamespaceAll (rl, e2), fin])
           else case rl of
             None \<Rightarrow> (Return None, tr @ [p, a, dd, g, l0, ResourceList d crdef NamespaceAll (rl, e2),
               Logged lgr DebugLevel ''Couldn't find any oauth2client custom resources.'', fin])
           | Some items \<Rightarrow>
               (case forEachInstance env h3 crdef items
                   (tr @ [p, a, dd, g, l0, ResourceList d crdef NamespaceAll (rl, e2)]) of
                  (r, tr') \<Rightarrow> (r, tr' @ [fin])))"
          using rl unfolding l0_def fin_def by (simp add: rFFAIO_eq[OF rdy] Let_def split: option.splits)
        show ?thesis
        proof (cases "otherThanNotFound e2")
          case True
          then obtain e where e: "e2 = Some e" "\<not> IsNotFound e"
            by (auto simp: otherThanNotFound_def split: option.splits)
          have "F = (Return (Some e), h3,
              tr @ [p, a, dd, g, l0, ResourceList d crdef NamespaceAll (rl, Some e), fin,
                Logged lgr ErrorLevel (errorMessage crdef e)])"
            using True e by (simp add: Feq R)
          with c gr' nf1 g rl e lgS show ?thesis
            by (intro that(6)[of cfg0 cfg p c a d dd h3 lgr crd e1 g crdef l0 fin rl e])
              (simp_all add: crdef_def l0_def fin_def)
        next
          case False
          note nf2 = this
          show ?thesis
          proof (cases rl)
            case None
            have "F = (Return None, h3,
              tr @ [p, a, dd, g, l0, ResourceList d crdef NamespaceAll (None, e2),
                Logged lgr DebugLevel ''Couldn't find any oauth2client custom resources.'', fin])"
              using nf2 None by (simp add: Feq R)
            with c gr' nf1 g rl nf2 None lgS show ?thesis
              by (intro that(7)[of cfg0 cfg p c a d dd h3 lgr crd e1 g crdef l0 fin e2])
                (simp_all add: crdef_def l0_def fin_def)
          next
            case (Some items)
            define l where "l = ResourceList d crdef NamespaceAll (Some items, e2)"
            from forEachInstance_returns[OF rdy, of env crdef items "tr @ [p, a, dd, g, l0, l]"]
            obtain levs r where fe: "forEachInstance env h3 crdef items (tr @ [p, a, dd, g, l0, l])
               = (Return r, (tr @ [p, a, dd, g, l0, l]) @ levs)" by blast
            have "F = (Return r, h3,
              tr @ [p, a, dd, g, l0, l] @ levs @ fin #
                (case r of None \<Rightarrow> [] | Some err \<Rightarrow>
                  [Logged lgr ErrorLevel (errorMessage crdef err)]))"
              using nf2 Some fe
              by (simp add: Feq R l_def split: option.splits)
            with c gr' nf1 g rl nf2 Some fe lgS show ?thesis
              by (intro that(8)[of cfg0 cfg p c a d dd h3 lgr crd e1 g crdef l0 fin items e2 l r levs])
                (simp_all add: crdef_def l0_def fin_def l_def)
          qed
        qed
      qed
    qed
  qed
qed


lemma ex_pair: "\<exists>a b. (a, b) = x"
  by (cases x) auto

lemma events_eq:
  "FindAndDeleteOryFinalizers env h k lg tr = (r, h', tr @ evs) \<Longrightarrow> events env h k lg tr = evs"
  by (simp add: events_def)

lemma result_eq:
  "FindAndDeleteOryFinalizers env h k lg tr = (r, h', tr') \<Longrightarrow> result env h k lg tr = r"
  by (simp add: result_def)

text \<open>Every event of the loop is a get, an update or a log line, through the handler's
  dynamic client and for the loop's resource type; a get is addressed to a listed instance.\<close>

lemma attempt_shape:
  assumes "dynamic h = Some d" and "logger h = Some lg"
  shows "\<exists>evs r. removeCustomResourceFinalizers env h crdef inst tr = (Return r, tr @ evs) \<and>
    (\<forall>ev\<in>set evs. case ev of
        ResourceGet d' g ns n resp \<Rightarrow> d' = d \<and> g = crdef \<and> ns = Namespace inst \<and> n = Name inst
      | ResourceUpdate d' g ns obj resp \<Rightarrow> d' = d \<and> g = crdef
      | Logged lg' lvl msg \<Rightarrow> True
      | _ \<Rightarrow> False)"
  by (simp add: attempt_eq[OF assms] Let_def split: option.splits)

lemma loop_shape:
  assumes "dynamic h = Some d" and "logger h = Some lg"
    and "forEachInstance env h crdef items tr = (r, tr @ evs)"
  shows "\<forall>ev\<in>set evs. case ev of
        ResourceGet d' g ns n resp \<Rightarrow>
          d' = d \<and> g = crdef \<and> (\<exists>inst\<in>set items. ns = Namespace inst \<and> n = Name inst)
      | ResourceUpdate d' g ns obj resp \<Rightarrow> d' = d \<and> g = crdef
      | Logged lg' lvl msg \<Rightarrow> True
      | _ \<Rightarrow> False"
proof -
  let ?Q = "\<lambda>evs. \<forall>ev\<in>set evs. case ev of
        ResourceGet d' g ns n resp \<Rightarrow>
          d' = d \<and> g = crdef \<and> (\<exists>inst\<in>set items. ns = Namespace inst \<and> n = Name inst)
      | ResourceUpdate d' g ns obj resp \<Rightarrow> d' = d \<and> g = crdef
      | Logged lg' lvl msg \<Rightarrow> True
      | _ \<Rightarrow> False"
  have "\<exists>evs r. forEachInstance env h crdef items tr = (Return r, tr @ evs) \<and> ?Q evs"
  proof (rule forEachInstance_events[where S = "set items"])
    fix inst tr assume "inst \<in> set items"
    with attempt_shape[OF assms(1,2), of env crdef inst tr]
    show "\<exists>evs r. removeCustomResourceFinalizers env h crdef inst tr = (Return r, tr @ evs) \<and> ?Q evs"
      by (fastforce split: event.splits)
  qed auto
  with assms(3) show ?thesis by auto
qed

text \<open>A fetched version with finalizers is followed by its update.\<close>

lemma loop_clears:
  assumes "dynamic h = Some d" and "logger h = Some lg"
    and "forEachInstance env h crdef items tr = (r, tr @ evs)"
  shows "\<forall>d' g ns n res e. ResourceGet d' g ns n (Some res, e) \<in> set evs
      \<and> \<not> otherThanNotFound e \<and> Finalizers res \<noteq> []
      \<longrightarrow> (\<exists>ur. ResourceUpdate d' g (Namespace res) (res\<lparr>Finalizers := []\<rparr>) ur \<in> set evs)"
proof -
  let ?Q = "\<lambda>evs. \<forall>d' g ns n res e. ResourceGet d' g ns n (Some res, e) \<in> set evs
      \<and> \<not> otherThanNotFound e \<and> Finalizers res \<noteq> []
      \<longrightarrow> (\<exists>ur. ResourceUpdate d' g (Namespace res) (res\<lparr>Finalizers := []\<rparr>) ur \<in> set evs)"
  have "\<exists>evs r. forEachInstance env h crdef items tr = (Return r, tr @ evs) \<and> ?Q evs"
  proof (rule forEachInstance_events[where S = UNIV])
    fix inst tr
    show "\<exists>evs r. removeCustomResourceFinalizers env h crdef inst tr = (Return r, tr @ evs) \<and> ?Q evs"
      by (cases "resourceGet env tr d crdef (Namespace inst) (Name inst)")
        (auto simp: attempt_eq[OF assms(1,2)] Let_def ex_pair split: option.splits)
  next
    fix a b assume "?Q a" "?Q b"
    then show "?Q (a @ b)" by (simp del: ex_simps all_simps) blast
  qed auto
  with assms(3) show ?thesis by auto
qed


lemma retry_returns:
  assumes "dynamic h = Some d" and "logger h = Some lg"
  shows "\<exists>evs r. retryLoop n lastErr (removeCustomResourceFinalizers env h crdef inst) tr
    = (Return r, tr @ evs)"
proof -
  have "\<exists>evs r. retryLoop n lastErr (removeCustomResourceFinalizers env h crdef inst) tr
    = (Return r, tr @ evs) \<and> True"
    by (rule retryLoop_events[where Q = "\<lambda>_. True"])
      (simp_all add: attempt_eq[OF assms] Let_def split: option.splits)
  then show ?thesis by simp
qed

lemma retry_first:
  assumes "dynamic h = Some d" and "logger h = Some lg"
  shows "\<exists>resp rest r. retryLoop (Suc n) lastErr (removeCustomResourceFinalizers env h crdef inst) tr
    = (Return r, tr @ ResourceGet d crdef (Namespace inst) (Name inst) resp # rest)"
proof -
  have "\<exists>r0 resp rest0. removeCustomResourceFinalizers env h crdef inst tr
      = (Return r0, tr @ ResourceGet d crdef (Namespace inst) (Name inst) resp # rest0)"
    by (simp add: attempt_eq[OF assms] Let_def split: option.splits)
  then obtain r0 resp rest0 where a: "removeCustomResourceFinalizers env h crdef inst tr
      = (Return r0, tr @ ResourceGet d crdef (Namespace inst) (Name inst) resp # rest0)"
    by blast
  show ?thesis
  proof (cases "\<exists>err. r0 = Some err \<and> IsConflict err")
    case True
    then obtain err where e: "r0 = Some err" "IsConflict err" by blast
    from retry_returns[OF assms, of n "Some err" env crdef inst
        "tr @ ResourceGet d crdef (Namespace inst) (Name inst) resp # rest0"]
    obtain evs r where "retryLoop n (Some err) (removeCustomResourceFinalizers env h crdef inst)
        (tr @ ResourceGet d crdef (Namespace inst) (Name inst) resp # rest0)
      = (Return r, (tr @ ResourceGet d crdef (Namespace inst) (Name inst) resp # rest0) @ evs)"
      by blast
    with a e show ?thesis by auto
  next
    case False
    with a show ?thesis by (cases r0) auto
  qed
qed

lemma loop_fetches:
  assumes "dynamic h = Some d" and "logger h = Some lg" and "0 < DefaultRetrySteps env"
  shows "forEachInstance env h crdef items tr = (Return None, tr @ evs) \<Longrightarrow>
    \<forall>inst\<in>set items. \<exists>resp.
      ResourceGet d crdef (Namespace inst) (Name inst) resp \<in> set evs"
proof (induction items arbitrary: tr evs)
  case Nil
  show ?case by simp
next
  case (Cons inst items)
  from assms(3) obtain n where n: "DefaultRetrySteps env = Suc n" by (cases "DefaultRetrySteps env") auto
  from retry_first[OF assms(1,2), of n None env crdef inst tr]
  obtain resp rest r1 where
    a: "RetryOnConflict (DefaultRetrySteps env) (removeCustomResourceFinalizers env h crdef inst) tr
      = (Return r1, tr @ ResourceGet d crdef (Namespace inst) (Name inst) resp # rest)"
    by (auto simp: RetryOnConflict_def n)
  from Cons.prems a have r1: "r1 = None" by (cases r1) auto
  define e1 where "e1 = ResourceGet d crdef (Namespace inst) (Name inst) resp # rest"
  from forEachInstance_returns[OF assms(1,2), of env crdef items "tr @ e1"]
  obtain e2 r2 where b: "forEachInstance env h crdef items (tr @ e1) = (Return r2, (tr @ e1) @ e2)"
    by blast
  from Cons.prems a r1 b have c: "r2 = None" "evs = e1 @ e2" by (auto simp: e1_def)
  from Cons.IH[of "tr @ e1" e2] b c
  have "\<forall>i\<in>set items. \<exists>resp. ResourceGet d crdef (Namespace i) (Name i) resp \<in> set e2"
    by (simp del: split_paired_Ex)
  with c show ?case unfolding e1_def by (simp del: split_paired_Ex) blast
qed


lemma loop_no_list:
  assumes "dynamic h = Some d" and "logger h = Some lg"
    and "forEachInstance env h crdef items tr = (r, tr @ evs)"
  shows "ResourceList d' g ns resp \<notin> set evs" "CrdGet c nm cresp \<notin> set evs"
  using loop_shape[OF assms, THEN bspec, of "ResourceList d' g ns resp"]
    loop_shape[OF assms, THEN bspec, of "CrdGet c nm cresp"] by auto

text \<open>An update carries a fetched version of a listed instance, with its finalizers cleared.\<close>

lemma loop_updates:
  assumes "dynamic h = Some d" and "logger h = Some lg"
    and "forEachInstance env h crdef items tr = (r, tr @ evs)"
  shows "\<forall>d' g ns obj ur. ResourceUpdate d' g ns obj ur \<in> set evs \<longrightarrow>
      (\<exists>inst\<in>set items. \<exists>res e.
         ResourceGet d' g (Namespace inst) (Name inst) (Some res, e) \<in> set evs
         \<and> Finalizers res \<noteq> [] \<and> ns = Namespace res \<and> obj = res\<lparr>Finalizers := []\<rparr>)"
proof -
  let ?Q = "\<lambda>evs. \<forall>d' g ns obj ur. ResourceUpdate d' g ns obj ur \<in> set evs \<longrightarrow>
      (\<exists>inst\<in>set items. \<exists>res e.
         ResourceGet d' g (Namespace inst) (Name inst) (Some res, e) \<in> set evs
         \<and> Finalizers res \<noteq> [] \<and> ns = Namespace res \<and> obj = res\<lparr>Finalizers := []\<rparr>)"
  have "\<exists>evs r. forEachInstance env h crdef items tr = (Return r, tr @ evs) \<and> ?Q evs"
  proof (rule forEachInstance_events[where S = "set items"])
    fix inst tr assume "inst \<in> set items"
    then show "\<exists>evs r. removeCustomResourceFinalizers env h crdef inst tr = (Return r, tr @ evs) \<and> ?Q evs"
      by (cases "resourceGet env tr d crdef (Namespace inst) (Name inst)")
        (auto simp: attempt_eq[OF assms(1,2)] Let_def split: option.splits)
  next
    fix a b assume "?Q a" "?Q b"
    then show "?Q (a @ b)" by (simp del: ex_simps all_simps split_paired_Ex split_paired_All) blast
  qed auto
  with assms(3) show ?thesis by auto
qed

lemma loop_no_calls_but_get_update:
  assumes "dynamic h = Some d" and "logger h = Some lg"
    and "forEachInstance env h crdef items tr = (r, tr @ evs)"
  shows "filter isList evs = []"
proof -
  have "\<not> isList x" if "x \<in> set evs" for x
    using loop_shape[OF assms, THEN bspec, OF that] by (cases x) auto
  then show ?thesis by (simp add: filter_empty_conv)
qed

text \<open>The gets of the loop address the instances in the order of the list, each at most
  as often as the retry helper allows.\<close>

lemma targets_simps:
  "targets [] = []"
  "targets (ev # evs) = target ev @ targets evs"
  "targets (xs @ ys) = targets xs @ targets ys"
  by (simp_all add: targets_def)


lemma calls_append: "calls (xs @ ys) = calls xs @ calls ys"
  by (simp add: calls_def)

lemma retry_targets:
  assumes "dynamic h = Some d" and "logger h = Some lg"
  shows "\<exists>evs r k. retryLoop n lastErr (removeCustomResourceFinalizers env h crdef inst) tr
      = (Return r, tr @ evs) \<and> k \<le> n
    \<and> targets evs = replicate k (Namespace inst, Name inst)"
proof (induction n arbitrary: lastErr tr)
  case 0
  show ?case by (simp add: targets_simps)
next
  case (Suc n)
  have "\<exists>evs r. removeCustomResourceFinalizers env h crdef inst tr = (Return r, tr @ evs)
      \<and> targets evs = [(Namespace inst, Name inst)]"
    by (simp add: attempt_eq[OF assms] Let_def targets_simps split: option.splits)
  then obtain evs r where a: "removeCustomResourceFinalizers env h crdef inst tr = (Return r, tr @ evs)"
    "targets evs = [(Namespace inst, Name inst)]" by blast
  show ?case
  proof (cases "\<exists>err. r = Some err \<and> IsConflict err")
    case True
    then obtain err where e: "r = Some err" "IsConflict err" by blast
    from Suc.IH[of "Some err" "tr @ evs"] obtain evs' r' k where
      b: "retryLoop n (Some err) (removeCustomResourceFinalizers env h crdef inst) (tr @ evs)
          = (Return r', (tr @ evs) @ evs')" "k \<le> n"
        "targets evs' = replicate k (Namespace inst, Name inst)" by blast
    have "retryLoop (Suc n) lastErr (removeCustomResourceFinalizers env h crdef inst) tr
        = (Return r', tr @ (evs @ evs')) \<and> Suc k \<le> Suc n
      \<and> targets (evs @ evs') = replicate (Suc k) (Namespace inst, Name inst)"
      using a b e by (simp add: targets_simps)
    then show ?thesis by blast
  next
    case False
    have "retryLoop (Suc n) lastErr (removeCustomResourceFinalizers env h crdef inst) tr
        = (Return r, tr @ evs) \<and> Suc 0 \<le> Suc n
      \<and> targets evs = replicate (Suc 0) (Namespace inst, Name inst)"
      using a False by (cases r) auto
    then show ?thesis by blast
  qed
qed

lemma loop_targets:
  assumes "dynamic h = Some d" and "logger h = Some lg"
  shows "\<exists>evs r ks. forEachInstance env h crdef items tr = (Return r, tr @ evs)
    \<and> length ks \<le> length items \<and> (\<forall>k\<in>set ks. k \<le> DefaultRetrySteps env)
    \<and> targets evs = concat (map2 (\<lambda>k inst. replicate k (Namespace inst, Name inst)) ks items)"
proof (induction items arbitrary: tr)
  case Nil
  have "forEachInstance env h crdef [] tr = (Return None, tr @ [])
    \<and> length ([]::nat list) \<le> length ([]::unstructured list)
    \<and> (\<forall>k\<in>set ([]::nat list). k \<le> DefaultRetrySteps env)
    \<and> targets [] = concat (map2 (\<lambda>k inst. replicate k (Namespace inst, Name inst)) [] [])"
    by (simp add: targets_simps)
  then show ?case by blast
next
  case (Cons inst items)
  from retry_targets[OF assms, of "DefaultRetrySteps env" None env crdef inst tr]
  obtain e1 r1 k where a: "RetryOnConflict (DefaultRetrySteps env)
        (removeCustomResourceFinalizers env h crdef inst) tr = (Return r1, tr @ e1)"
      "k \<le> DefaultRetrySteps env" "targets e1 = replicate k (Namespace inst, Name inst)"
    by (auto simp: RetryOnConflict_def)
  show ?case
  proof (cases r1)
    case None
    from Cons.IH[of "tr @ e1"] obtain e2 r2 ks where
      b: "forEachInstance env h crdef items (tr @ e1) = (Return r2, (tr @ e1) @ e2)"
        "length ks \<le> length items" "\<forall>k\<in>set ks. k \<le> DefaultRetrySteps env"
        "targets e2 = concat (map2 (\<lambda>k inst. replicate k (Namespace inst, Name inst)) ks items)"
      by blast
    have "forEachInstance env h crdef (inst # items) tr = (Return r2, tr @ (e1 @ e2))
      \<and> length (k # ks) \<le> length (inst # items)
      \<and> (\<forall>k\<in>set (k # ks). k \<le> DefaultRetrySteps env)
      \<and> targets (e1 @ e2)
          = concat (map2 (\<lambda>k inst. replicate k (Namespace inst, Name inst)) (k # ks) (inst # items))"
      using a b None by (simp add: targets_simps)
    then show ?thesis by blast
  next
    case (Some err)
    have "forEachInstance env h crdef (inst # items) tr
        = (Return (Some (Wrapf err (failedMessage crdef (Name inst)))), tr @ e1)
      \<and> length [k] \<le> length (inst # items)
      \<and> (\<forall>k\<in>set [k]. k \<le> DefaultRetrySteps env)
      \<and> targets e1
          = concat (map2 (\<lambda>k inst. replicate k (Namespace inst, Name inst)) [k] (inst # items))"
      using a Some by simp
    then show ?thesis by blast
  qed
qed


lemma calls_simps:
  "calls [] = []"
  "calls (Logged lg' lvl msg # evs) = calls evs"
  "calls (ParseKubeConfig k r0 # evs) = ParseKubeConfig k r0 # calls evs"
  "calls (ApixNewForConfig cfg ra # evs) = ApixNewForConfig cfg ra # calls evs"
  "calls (DynamicNewForConfig cfg rd # evs) = DynamicNewForConfig cfg rd # calls evs"
  "calls (CrdGet c nm rc # evs) = CrdGet c nm rc # calls evs"
  "calls (ResourceList d g ns rl # evs) = ResourceList d g ns rl # calls evs"
  "calls (ResourceGet d g ns n rg # evs) = ResourceGet d g ns n rg # calls evs"
  "calls (ResourceUpdate d g ns obj ru # evs) = ResourceUpdate d g ns obj ru # calls evs"
  by (simp_all add: calls_def)


lemma in_append_cases:
  "a @ b = pre @ x # post \<Longrightarrow>
   (\<exists>post'. a = pre @ x # post' \<and> post = post' @ b) \<or> (\<exists>pre'. pre = a @ pre' \<and> b = pre' @ x # post)"
  by (auto simp: append_eq_append_conv2 append_eq_Cons_conv Cons_eq_append_conv)

lemma in_middle:
  assumes "a @ b @ c = pre @ x # post" and "x \<notin> set a" and "x \<notin> set c"
  shows "\<exists>pre' post'. pre = a @ pre' \<and> b = pre' @ x # post' \<and> post = post' @ c"
proof -
  from in_append_cases[OF assms(1)] assms(2)
  obtain pre' where p: "pre = a @ pre'" "b @ c = pre' @ x # post" by auto
  from in_append_cases[OF p(2)] assms(3)
  obtain post' where "b = pre' @ x # post'" "post = post' @ c" by auto
  with p show ?thesis by blast
qed

text \<open>An error answer within one attempt ends the attempt and is what it returns.\<close>

lemma attempt_failure:
  assumes "dynamic h = Some d" and "logger h = Some lg"
    and "removeCustomResourceFinalizers env h crdef inst tr = (r, tr @ evs)"
  shows "evs = pre @ ResourceGet d' g ns m (rr, Some e) # post \<Longrightarrow> \<not> IsNotFound e \<Longrightarrow>
      post = [] \<and> r = Return (Some e) \<and> m = Name inst"
    and "evs = pre @ ResourceUpdate d' g ns obj (ur, Some e) # post \<Longrightarrow>
      post = [] \<and> r = Return (Some e)
      \<and> (\<exists>resp msg. pre = [ResourceGet d' g (Namespace inst) (Name inst) resp,
            Logged lg DebugLevel msg])"
  using assms(3)
  by (cases "resourceGet env tr d crdef (Namespace inst) (Name inst)";
      auto simp: attempt_eq[OF assms(1,2)] Let_def otherThanNotFound_def
        Cons_eq_append_conv append_eq_Cons_conv split: option.splits if_splits)+


text \<open>Within the attempts for one instance, an error answer that is not a conflict is the
  last event, and the error is what the retry helper returns.\<close>

lemma retry_failure:
  assumes "dynamic h = Some d" and "logger h = Some lg"
  shows "retryLoop n lastErr (removeCustomResourceFinalizers env h crdef inst) tr = (r, tr @ evs) \<Longrightarrow>
    (\<forall>pre post d' g ns m rr e.
        evs = pre @ ResourceGet d' g ns m (rr, Some e) # post \<and> \<not> IsNotFound e \<and> \<not> IsConflict e
        \<longrightarrow> post = [] \<and> r = Return (Some e) \<and> m = Name inst)
    \<and> (\<forall>pre post d' g ns obj ur e.
        evs = pre @ ResourceUpdate d' g ns obj (ur, Some e) # post \<and> \<not> IsConflict e
        \<longrightarrow> post = [] \<and> r = Return (Some e)
          \<and> (\<exists>pre' resp msg. pre = pre' @ [ResourceGet d' g (Namespace inst) (Name inst) resp,
                Logged lg DebugLevel msg]))"
proof (induction n arbitrary: lastErr tr evs r)
  case 0
  then show ?case by simp
next
  case (Suc n)
  let ?fn = "removeCustomResourceFinalizers env h crdef inst"
  have "\<exists>a r0. ?fn tr = (Return r0, tr @ a)"
    by (simp add: attempt_eq[OF assms] Let_def split: option.splits)
  then obtain a r0 where a: "?fn tr = (Return r0, tr @ a)" by blast
  note af = attempt_failure[OF assms a]
  show ?case
  proof (cases "\<exists>err. r0 = Some err \<and> IsConflict err")
    case False
    with Suc.prems a have eq: "evs = a" "r = Return r0" by (cases r0; auto)+
    show ?thesis unfolding eq
    proof (rule conjI; intro allI impI)
      fix pre post d' g ns m rr e
      assume "a = pre @ ResourceGet d' g ns m (rr, Some e) # post \<and> \<not> IsNotFound e \<and> \<not> IsConflict e"
      with af(1)[of pre d' g ns m rr e post]
      show "post = [] \<and> Return r0 = Return (Some e) \<and> m = Name inst" by simp
    next
      fix pre post d' g ns obj ur e
      assume "a = pre @ ResourceUpdate d' g ns obj (ur, Some e) # post \<and> \<not> IsConflict e"
      with af(2)[of pre d' g ns obj ur e post]
      show "post = [] \<and> Return r0 = Return (Some e)
          \<and> (\<exists>pre' resp msg. pre = pre' @ [ResourceGet d' g (Namespace inst) (Name inst) resp,
                Logged lg DebugLevel msg])" by auto
    qed
  next
    case True
    then obtain err where e: "r0 = Some err" "IsConflict err" by blast
    from retry_returns[OF assms, of n "Some err" env crdef inst "tr @ a"]
    obtain evs' r' where b: "retryLoop n (Some err) ?fn (tr @ a) = (Return r', (tr @ a) @ evs')"
      by blast
    with Suc.prems a e have eq: "evs = a @ evs'" "r = Return r'" by auto
    note IH = Suc.IH[OF b]
    show ?thesis unfolding eq
    proof (rule conjI; intro allI impI)
      fix pre post d' g ns m rr e'
      assume x: "a @ evs' = pre @ ResourceGet d' g ns m (rr, Some e') # post
        \<and> \<not> IsNotFound e' \<and> \<not> IsConflict e'"
      from in_append_cases[of a evs' pre _ post] x
      consider post' where "a = pre @ ResourceGet d' g ns m (rr, Some e') # post'"
        | pre' where "pre = a @ pre'" "evs' = pre' @ ResourceGet d' g ns m (rr, Some e') # post"
        by blast
      then show "post = [] \<and> Return r' = Return (Some e') \<and> m = Name inst"
      proof cases
        case 1
        with af(1)[of pre d' g ns m rr e' post'] x e show ?thesis by simp
      next
        case 2
        with IH x show ?thesis by blast
      qed
    next
      fix pre post d' g ns obj ur e'
      assume x: "a @ evs' = pre @ ResourceUpdate d' g ns obj (ur, Some e') # post \<and> \<not> IsConflict e'"
      from in_append_cases[of a evs' pre _ post] x
      consider post' where "a = pre @ ResourceUpdate d' g ns obj (ur, Some e') # post'"
        | pre' where "pre = a @ pre'" "evs' = pre' @ ResourceUpdate d' g ns obj (ur, Some e') # post"
        by blast
      then show "post = [] \<and> Return r' = Return (Some e')
          \<and> (\<exists>pre' resp msg. pre = pre' @ [ResourceGet d' g (Namespace inst) (Name inst) resp,
                Logged lg DebugLevel msg])"
      proof cases
        case 1
        with af(2)[of pre d' g ns obj ur e' post'] x e show ?thesis by simp
      next
        case 2
        from IH 2(2) x obtain pre'' resp msg where
          "post = []" "Return r' = Return (Some e')"
          "pre' = pre'' @ [ResourceGet d' g (Namespace inst) (Name inst) resp, Logged lg DebugLevel msg]"
          by blast
        with 2(1) show ?thesis by auto
      qed
    qed
  qed
qed

text \<open>In the loop, such an error answer is the last event too; the loop returns the error
  wrapped with the name of the instance it was working on.\<close>

lemma loop_failure:
  assumes "dynamic h = Some d" and "logger h = Some lg"
  shows "forEachInstance env h crdef items tr = (r, tr @ evs) \<Longrightarrow>
    (\<forall>pre post d' g ns m rr e.
        evs = pre @ ResourceGet d' g ns m (rr, Some e) # post \<and> \<not> IsNotFound e \<and> \<not> IsConflict e
        \<longrightarrow> post = [] \<and> r = Return (Some (Wrapf e (failedMessage crdef m))))
    \<and> (\<forall>pre post d' g ns obj ur e.
        evs = pre @ ResourceUpdate d' g ns obj (ur, Some e) # post \<and> \<not> IsConflict e
        \<longrightarrow> post = []
          \<and> (\<exists>pre' ns' m resp msg. pre = pre' @ [ResourceGet d' g ns' m resp, Logged lg DebugLevel msg]
                \<and> r = Return (Some (Wrapf e (failedMessage crdef m)))))"
proof (induction items arbitrary: tr evs r)
  case Nil
  then show ?case by simp
next
  case (Cons inst items)
  let ?fn = "removeCustomResourceFinalizers env h crdef inst"
  from retry_returns[OF assms, of "DefaultRetrySteps env" None env crdef inst tr]
  obtain e1 r1 where a: "retryLoop (DefaultRetrySteps env) None ?fn tr = (Return r1, tr @ e1)"
    by blast
  note rf = retry_failure[OF assms a]
  show ?case
  proof (cases r1)
    case (Some err)
    with Cons.prems a have eq: "evs = e1" "r = Return (Some (Wrapf err (failedMessage crdef (Name inst))))"
      by (auto simp: RetryOnConflict_def)
    show ?thesis unfolding eq
    proof (rule conjI; intro allI impI)
      fix pre post d' g ns m rr e
      assume x: "e1 = pre @ ResourceGet d' g ns m (rr, Some e) # post \<and> \<not> IsNotFound e \<and> \<not> IsConflict e"
      with rf have "post = [] \<and> Return r1 = Return (Some e) \<and> m = Name inst" by blast
      with Some show "post = [] \<and> Return (Some (Wrapf err (failedMessage crdef (Name inst))))
          = Return (Some (Wrapf e (failedMessage crdef m)))" by simp
    next
      fix pre post d' g ns obj ur e
      assume x: "e1 = pre @ ResourceUpdate d' g ns obj (ur, Some e) # post \<and> \<not> IsConflict e"
      with rf obtain pre' resp msg where "post = []" "Return r1 = Return (Some e)"
        "pre = pre' @ [ResourceGet d' g (Namespace inst) (Name inst) resp, Logged lg DebugLevel msg]"
        by blast
      with Some show "post = []
          \<and> (\<exists>pre' ns' m resp msg. pre = pre' @ [ResourceGet d' g ns' m resp, Logged lg DebugLevel msg]
                \<and> Return (Some (Wrapf err (failedMessage crdef (Name inst))))
                  = Return (Some (Wrapf e (failedMessage crdef m))))" by auto
    qed
  next
    case None
    from forEachInstance_returns[OF assms, of env crdef items "tr @ e1"]
    obtain e2 r2 where b: "forEachInstance env h crdef items (tr @ e1) = (Return r2, (tr @ e1) @ e2)"
      by blast
    with Cons.prems a None have eq: "evs = e1 @ e2" "r = Return r2"
      by (auto simp: RetryOnConflict_def)
    note IH = Cons.IH[OF b]
    show ?thesis unfolding eq
    proof (rule conjI; intro allI impI)
      fix pre post d' g ns m rr e
      assume x: "e1 @ e2 = pre @ ResourceGet d' g ns m (rr, Some e) # post
        \<and> \<not> IsNotFound e \<and> \<not> IsConflict e"
      from in_append_cases[of e1 e2 pre _ post] x
      consider post' where "e1 = pre @ ResourceGet d' g ns m (rr, Some e) # post'"
        | pre' where "pre = e1 @ pre'" "e2 = pre' @ ResourceGet d' g ns m (rr, Some e) # post"
        by blast
      then show "post = [] \<and> Return r2 = Return (Some (Wrapf e (failedMessage crdef m)))"
      proof cases
        case 1
        with rf x have "Return r1 = Return (Some e)" by blast
        with None show ?thesis by simp
      next
        case 2
        with IH x show ?thesis by blast
      qed
    next
      fix pre post d' g ns obj ur e
      assume x: "e1 @ e2 = pre @ ResourceUpdate d' g ns obj (ur, Some e) # post \<and> \<not> IsConflict e"
      from in_append_cases[of e1 e2 pre _ post] x
      consider post' where "e1 = pre @ ResourceUpdate d' g ns obj (ur, Some e) # post'"
        | pre' where "pre = e1 @ pre'" "e2 = pre' @ ResourceUpdate d' g ns obj (ur, Some e) # post"
        by blast
      then show "post = []
          \<and> (\<exists>pre' ns' m resp msg. pre = pre' @ [ResourceGet d' g ns' m resp, Logged lg DebugLevel msg]
                \<and> Return r2 = Return (Some (Wrapf e (failedMessage crdef m))))"
      proof cases
        case 1
        with rf x have "Return r1 = Return (Some e)" by blast
        with None show ?thesis by simp
      next
        case 2
        from IH[THEN conjunct2, rule_format, of pre' d' g ns obj ur e post] 2(2) x
        obtain pre'' ns' m resp msg where
          "post = []" "pre' = pre'' @ [ResourceGet d' g ns' m resp, Logged lg DebugLevel msg]"
          "Return r2 = Return (Some (Wrapf e (failedMessage crdef m)))"
          by auto
        with 2(1) show ?thesis by auto
      qed
    qed
  qed
qed


text \<open>
  The loop takes the instances in the order of the list. For each one it makes at least
  one attempt (when the retry helper has any), and it goes on to the next one unless the
  attempts ended with an error; then the last call of the loop is the one that was
  answered with that error, and the loop returns it wrapped in the message naming the
  instance. \<open>ks\<close> holds the number of gets sent for each instance that was reached.
\<close>

lemma attempt_order:
  assumes "dynamic h = Some d" and "logger h = Some lg"
  shows "\<exists>evs r. removeCustomResourceFinalizers env h crdef inst tr = (Return r, tr @ evs)
      \<and> targets evs = [(Namespace inst, Name inst)]
      \<and> (\<forall>err. r = Some err \<longrightarrow> calls evs \<noteq> [] \<and> answerError (last (calls evs)) = Some err)"
  by (cases "resourceGet env tr d crdef (Namespace inst) (Name inst)")
    (auto simp: attempt_eq[OF assms] Let_def targets_simps calls_simps otherThanNotFound_def
      split: option.splits)

lemma retry_order:
  assumes "dynamic h = Some d" and "logger h = Some lg"
  shows "\<exists>evs r k. retryLoop n lastErr (removeCustomResourceFinalizers env h crdef inst) tr
      = (Return r, tr @ evs) \<and> k \<le> n \<and> (0 < n \<longrightarrow> 0 < k)
    \<and> targets evs = replicate k (Namespace inst, Name inst)
    \<and> (\<forall>err. r = Some err \<longrightarrow>
          (calls evs = [] \<and> lastErr = Some err)
        \<or> (calls evs \<noteq> [] \<and> answerError (last (calls evs)) = Some err))"
proof (induction n arbitrary: lastErr tr)
  case 0
  show ?case by (simp add: targets_simps calls_simps)
next
  case (Suc n)
  from attempt_order[OF assms, of env crdef inst tr]
  obtain evs r where a: "removeCustomResourceFinalizers env h crdef inst tr = (Return r, tr @ evs)"
    "targets evs = [(Namespace inst, Name inst)]"
    "\<forall>err. r = Some err \<longrightarrow> calls evs \<noteq> [] \<and> answerError (last (calls evs)) = Some err"
    by blast
  show ?case
  proof (cases "\<exists>err. r = Some err \<and> IsConflict err")
    case True
    then obtain err where e: "r = Some err" "IsConflict err" by blast
    from Suc.IH[of "Some err" "tr @ evs"] obtain evs' r' k where
      b: "retryLoop n (Some err) (removeCustomResourceFinalizers env h crdef inst) (tr @ evs)
          = (Return r', (tr @ evs) @ evs')" "k \<le> n"
        "targets evs' = replicate k (Namespace inst, Name inst)"
        "\<forall>err'. r' = Some err' \<longrightarrow>
          (calls evs' = [] \<and> Some err = Some err')
        \<or> (calls evs' \<noteq> [] \<and> answerError (last (calls evs')) = Some err')"
      by blast
    have c: "\<forall>err'. r' = Some err' \<longrightarrow>
        calls (evs @ evs') \<noteq> [] \<and> answerError (last (calls (evs @ evs'))) = Some err'"
      using a(3) b(4) e by (auto simp: calls_append)
    have "retryLoop (Suc n) lastErr (removeCustomResourceFinalizers env h crdef inst) tr
        = (Return r', tr @ (evs @ evs')) \<and> Suc k \<le> Suc n \<and> (0 < Suc n \<longrightarrow> 0 < Suc k)
      \<and> targets (evs @ evs') = replicate (Suc k) (Namespace inst, Name inst)
      \<and> (\<forall>err'. r' = Some err' \<longrightarrow>
          (calls (evs @ evs') = [] \<and> lastErr = Some err')
        \<or> (calls (evs @ evs') \<noteq> [] \<and> answerError (last (calls (evs @ evs'))) = Some err'))"
      using a(1,2) b(1,2,3) e c by (simp add: targets_simps)
    then show ?thesis by blast
  next
    case False
    have "retryLoop (Suc n) lastErr (removeCustomResourceFinalizers env h crdef inst) tr
        = (Return r, tr @ evs) \<and> Suc 0 \<le> Suc n \<and> (0 < Suc n \<longrightarrow> 0 < Suc 0)
      \<and> targets evs = replicate (Suc 0) (Namespace inst, Name inst)
      \<and> (\<forall>err. r = Some err \<longrightarrow>
          (calls evs = [] \<and> lastErr = Some err)
        \<or> (calls evs \<noteq> [] \<and> answerError (last (calls evs)) = Some err))"
      using a False by (cases r) auto
    then show ?thesis by blast
  qed
qed


lemma retry_order_first:
  assumes "dynamic h = Some d" and "logger h = Some lg"
  shows "\<exists>evs r k. RetryOnConflict n (removeCustomResourceFinalizers env h crdef inst) tr
      = (Return r, tr @ evs) \<and> (0 < n \<longrightarrow> 0 < k)
    \<and> targets evs = replicate k (Namespace inst, Name inst)
    \<and> (\<forall>err. r = Some err \<longrightarrow> calls evs \<noteq> [] \<and> answerError (last (calls evs)) = Some err)"
proof -
  from retry_order[OF assms, of n None env crdef inst tr]
  obtain evs r k where
    "retryLoop n None (removeCustomResourceFinalizers env h crdef inst) tr = (Return r, tr @ evs)"
    "0 < n \<longrightarrow> 0 < k"
    "targets evs = replicate k (Namespace inst, Name inst)"
    "\<forall>err. r = Some err \<longrightarrow>
          (calls evs = [] \<and> None = Some err)
        \<or> (calls evs \<noteq> [] \<and> answerError (last (calls evs)) = Some err)"
    by (elim exE conjE) (rule that, assumption+)
  then have "RetryOnConflict n (removeCustomResourceFinalizers env h crdef inst) tr
      = (Return r, tr @ evs) \<and> (0 < n \<longrightarrow> 0 < k)
    \<and> targets evs = replicate k (Namespace inst, Name inst)
    \<and> (\<forall>err. r = Some err \<longrightarrow> calls evs \<noteq> [] \<and> answerError (last (calls evs)) = Some err)"
    by (simp add: RetryOnConflict_def)
  then show ?thesis
    by - (rule exI[of _ evs], rule exI[of _ r], rule exI[of _ k], assumption)
qed

lemma loop_order:
  assumes "dynamic h = Some d" and "logger h = Some lg"
  shows "\<exists>evs r ks. forEachInstance env h crdef items tr = (Return r, tr @ evs)
    \<and> length ks \<le> length items \<and> (items \<noteq> [] \<longrightarrow> ks \<noteq> [])
    \<and> (0 < DefaultRetrySteps env \<longrightarrow> (\<forall>k\<in>set ks. 0 < k))
    \<and> targets evs = concat (map2 (\<lambda>k inst. replicate k (Namespace inst, Name inst)) ks items)
    \<and> (r = None \<longrightarrow> length ks = length items)
    \<and> (\<forall>e. r = Some e \<longrightarrow> calls evs \<noteq> []
          \<and> (\<exists>err. answerError (last (calls evs)) = Some err
                \<and> e = Wrapf err (failedMessage crdef (Name (items ! (length ks - 1))))))"
proof (induction items arbitrary: tr)
  case Nil
  show ?case
    by (rule exI[of _ "[]"], rule exI[of _ None], rule exI[of _ "[]"]) (simp add: targets_simps)
next
  case (Cons inst items)
  from retry_order_first[OF assms, of "DefaultRetrySteps env" env crdef inst tr]
  obtain e1 r1 k where a: "RetryOnConflict (DefaultRetrySteps env)
        (removeCustomResourceFinalizers env h crdef inst) tr = (Return r1, tr @ e1)"
      "0 < DefaultRetrySteps env \<longrightarrow> 0 < k"
      "targets e1 = replicate k (Namespace inst, Name inst)"
      "\<forall>err. r1 = Some err \<longrightarrow> calls e1 \<noteq> [] \<and> answerError (last (calls e1)) = Some err"
    by (elim exE conjE) (rule that, assumption+)
  show ?case
  proof (cases r1)
    case None
    from Cons.IH[of "tr @ e1"] obtain e2 r2 ks where
      b: "forEachInstance env h crdef items (tr @ e1) = (Return r2, (tr @ e1) @ e2)"
        "length ks \<le> length items" "items \<noteq> [] \<longrightarrow> ks \<noteq> []"
        "0 < DefaultRetrySteps env \<longrightarrow> (\<forall>k\<in>set ks. 0 < k)"
        "targets e2 = concat (map2 (\<lambda>k inst. replicate k (Namespace inst, Name inst)) ks items)"
        "r2 = None \<longrightarrow> length ks = length items"
        "\<forall>e. r2 = Some e \<longrightarrow> calls e2 \<noteq> []
          \<and> (\<exists>err. answerError (last (calls e2)) = Some err
                \<and> e = Wrapf err (failedMessage crdef (Name (items ! (length ks - 1)))))"
      by (elim exE conjE) (rule that, assumption+)
    have nonempty: "ks \<noteq> []" if "r2 = Some e" for e
    proof
      assume "ks = []"
      with b(3) have "items = []" by auto
      with b(1) that show False by simp
    qed
    have idx: "(inst # items) ! (length (k # ks) - 1) = items ! (length ks - 1)" if "ks \<noteq> []"
      using that by (cases ks) simp_all
    have f: "\<forall>e. r2 = Some e \<longrightarrow> calls (e1 @ e2) \<noteq> []
          \<and> (\<exists>err. answerError (last (calls (e1 @ e2))) = Some err
                \<and> e = Wrapf err (failedMessage crdef (Name ((inst # items) ! (length (k # ks) - 1)))))"
    proof (intro allI impI)
      fix e assume r2: "r2 = Some e"
      from b(7)[rule_format, OF r2] obtain err where x: "calls e2 \<noteq> []"
        "answerError (last (calls e2)) = Some err"
        "e = Wrapf err (failedMessage crdef (Name (items ! (length ks - 1))))"
        by (elim exE conjE) (rule that, assumption+)
      have "calls (e1 @ e2) \<noteq> []" using x(1) by (simp add: calls_append)
      moreover have "answerError (last (calls (e1 @ e2))) = Some err"
        using x(1,2) by (simp add: calls_append)
      moreover have "e = Wrapf err (failedMessage crdef (Name ((inst # items) ! (length (k # ks) - 1))))"
        using x(3) by (simp only: idx[OF nonempty[OF r2]])
      ultimately show "calls (e1 @ e2) \<noteq> []
          \<and> (\<exists>err. answerError (last (calls (e1 @ e2))) = Some err
                \<and> e = Wrapf err (failedMessage crdef (Name ((inst # items) ! (length (k # ks) - 1)))))"
        by (intro conjI exI[of _ err])
    qed
    have g1: "forEachInstance env h crdef (inst # items) tr = (Return r2, tr @ (e1 @ e2))"
      using a(1) b(1) None by simp
    have g2: "length (k # ks) \<le> length (inst # items)" using b(2) by simp
    have g3: "inst # items \<noteq> [] \<longrightarrow> k # ks \<noteq> []" by simp
    have g4: "0 < DefaultRetrySteps env \<longrightarrow> (\<forall>k\<in>set (k # ks). 0 < k)"
      using a(2) b(4) by simp
    have g5: "targets (e1 @ e2)
          = concat (map2 (\<lambda>k inst. replicate k (Namespace inst, Name inst)) (k # ks) (inst # items))"
      using a(3) b(5) by (simp add: targets_simps)
    have g6: "r2 = None \<longrightarrow> length (k # ks) = length (inst # items)" using b(6) by simp
    show ?thesis
      by (rule exI[of _ "e1 @ e2"], rule exI[of _ r2], rule exI[of _ "k # ks"])
        (rule conjI[OF g1 conjI[OF g2 conjI[OF g3 conjI[OF g4 conjI[OF g5 conjI[OF g6 f]]]]]])
  next
    case (Some err)
    let ?e = "Wrapf err (failedMessage crdef (Name inst))"
    have g1: "forEachInstance env h crdef (inst # items) tr = (Return (Some ?e), tr @ e1)"
      using a(1) Some by simp
    have g2: "length [k] \<le> length (inst # items)" by simp
    have g3: "inst # items \<noteq> [] \<longrightarrow> [k] \<noteq> []" by simp
    have g4: "0 < DefaultRetrySteps env \<longrightarrow> (\<forall>k\<in>set [k]. 0 < k)" using a(2) by simp
    have g5: "targets e1
          = concat (map2 (\<lambda>k inst. replicate k (Namespace inst, Name inst)) [k] (inst # items))"
      using a(3) by simp
    have g6: "Some ?e = None \<longrightarrow> length [k] = length (inst # items)" by simp
    have g7: "\<forall>e. Some ?e = Some e \<longrightarrow> calls e1 \<noteq> []
          \<and> (\<exists>err. answerError (last (calls e1)) = Some err
                \<and> e = Wrapf err (failedMessage crdef (Name ((inst # items) ! (length [k] - 1)))))"
      using a(4)[rule_format, OF Some] by simp
    show ?thesis
      by (rule exI[of _ e1], rule exI[of _ "Some ?e"], rule exI[of _ "[k]"])
        (rule conjI[OF g1 conjI[OF g2 conjI[OF g3 conjI[OF g4 conjI[OF g5 conjI[OF g6 g7]]]]]])
  qed
qed

lemma run_requests:
  obtains (none) "\<forall>ev\<in>set (events env h k lg tr). \<not> isGet ev \<and> \<not> isUpdate ev"
      "\<forall>d g ns items e. ResourceList d g ns (Some items, e) \<in> set (events env h k lg tr)
         \<longrightarrow> targets (events env h k lg tr) = []"
  | (loop) h3 d crdef items a levs c r lgr where
      "dynamic h3 = Some d" "logger h3 = Some lgr"
      "forEachInstance env h3 crdef items (tr @ a) = (Return r, (tr @ a) @ levs)"
      "events env h k lg tr = a @ levs @ c"
      "result env h k lg tr = Return r"
      "\<forall>ev\<in>set a. \<not> isGet ev \<and> \<not> isUpdate ev" "\<forall>ev\<in>set c. isLog ev"
      "\<forall>d' g ns items' e. ResourceList d' g ns (Some items', e) \<in> set (events env h k lg tr)
         \<longrightarrow> items' = items"
      "targets a = []"
proof (cases rule: F_cases[of env tr k h lg])
  case (parse e)
  show ?thesis by (rule none) (simp_all add: events_eq[OF parse(2)] targets_simps)
next
  case (apix cfg0 cfg p e)
  show ?thesis by (rule none) (simp_all add: events_eq[OF apix(5)] apix(3) targets_simps)
next
  case (dyn cfg0 cfg p c a e)
  show ?thesis by (rule none) (simp_all add: events_eq[OF dyn(7)] dyn(3,5) targets_simps)
next
  case (crdErr cfg0 cfg p c a d dd h3 rc e)
  show ?thesis
    by (rule none) (simp_all add: events_eq[OF crdErr(11)] crdErr(3,5,7) targets_simps)
next
  case (crdNil cfg0 cfg p c a d dd h3 e1 lgr)
  show ?thesis
    by (rule none) (simp_all add: events_eq[OF crdNil(11)] crdNil(3,5,7) targets_simps)
next
  case (listErr cfg0 cfg p c a d dd h3 crd e1 g crdef l0 fin rl e lgr)
  show ?thesis
    by (rule none)
      (simp_all add: events_eq[OF listErr(17)] listErr(3,5,7,11,13,14) targets_simps)
next
  case (listNil cfg0 cfg p c a d dd h3 crd e1 g crdef l0 fin e2 lgr)
  show ?thesis
    by (rule none)
      (simp_all add: events_eq[OF listNil(17)] listNil(3,5,7,11,13,14) targets_simps)
next
  case (loop cfg0 cfg p c a d dd h3 crd e1 g crdef l0 fin items e2 l r levs lgr)
  have rdy: "dynamic h3 = Some d" "logger h3 = Some lgr" using loop(8) by simp_all
  note fe = loop(18)
  define c' where "c' = fin # (case r of None \<Rightarrow> []
    | Some err \<Rightarrow> [Logged lgr ErrorLevel (errorMessage crdef err)])"
  have ev: "events env h k lg tr = [p, a, dd, g, l0, l] @ levs @ c'"
    using events_eq[OF loop(19)] by (simp add: c'_def)
  have lists: "\<forall>d' g ns items' e. ResourceList d' g ns (Some items', e)
      \<in> set (events env h k lg tr) \<longrightarrow> items' = items"
    using loop_no_list(1)[OF rdy fe] unfolding ev c'_def
    by (auto simp: loop(3,5,7,11,13,14,17) split: option.splits)
  show ?thesis
  proof (rule that(2))
    show "dynamic h3 = Some d" "logger h3 = Some lgr" by fact+
    show "forEachInstance env h3 crdef items (tr @ [p, a, dd, g, l0, l])
        = (Return r, (tr @ [p, a, dd, g, l0, l]) @ levs)" by fact
    show "events env h k lg tr = [p, a, dd, g, l0, l] @ levs @ c'" by fact
    show "result env h k lg tr = Return r" by (rule result_eq[OF loop(19)])
    show "\<forall>ev\<in>set [p, a, dd, g, l0, l]. \<not> isGet ev \<and> \<not> isUpdate ev"
      by (simp add: loop(3,5,7,11,13,14,17))
    show "\<forall>ev\<in>set c'. isLog ev" by (cases r) (simp_all add: c'_def loop(14))
    show "\<forall>d' g ns items' e. ResourceList d' g ns (Some items', e)
      \<in> set (events env h k lg tr) \<longrightarrow> items' = items" by fact
    show "targets [p, a, dd, g, l0, l] = []"
      by (simp add: loop(3,5,7,11,13,14,17) targets_simps)
  qed
next
  case (nilLogger cfg0 cfg p c a d dd h3 rc e1)
  show ?thesis
    by (rule none) (simp_all add: events_eq[OF nilLogger(11)] nilLogger(3,5,7) targets_simps)
qed

text \<open>When the CRD get hands back no object, with no error or with not-found, the run
  ends there with nil: the four calls and one log line.\<close>

lemma crd_absent_returns_nil:
  assumes "RESTConfigFromKubeConfig env tr k = Inr cfg0"
    and "apixNewForConfig env (tr @ [ParseKubeConfig k (Inr cfg0)])
           (cfg0\<lparr>WarningHandler := NoWarnings\<rparr>) = Inr c"
    and "dynamicNewForConfig env
           (tr @ [ParseKubeConfig k (Inr cfg0),
                  ApixNewForConfig (cfg0\<lparr>WarningHandler := NoWarnings\<rparr>) (Inr c)])
           (cfg0\<lparr>WarningHandler := NoWarnings\<rparr>) = Inr d"
    and "crdGet env
           (tr @ [ParseKubeConfig k (Inr cfg0),
                  ApixNewForConfig (cfg0\<lparr>WarningHandler := NoWarnings\<rparr>) (Inr c),
                  DynamicNewForConfig (cfg0\<lparr>WarningHandler := NoWarnings\<rparr>) (Inr d)])
           c ''oauth2clients.hydra.ory.sh'' = (None, e)"
    and "\<not> otherThanNotFound e"
  shows "FindAndDeleteOryFinalizers env h k (Some lgr) tr =
    (Return None, \<lparr>apixClient = Some c, dynamic = Some d, logger = Some lgr\<rparr>,
     tr @ [ParseKubeConfig k (Inr cfg0),
           ApixNewForConfig (cfg0\<lparr>WarningHandler := NoWarnings\<rparr>) (Inr c),
           DynamicNewForConfig (cfg0\<lparr>WarningHandler := NoWarnings\<rparr>) (Inr d),
           CrdGet c ''oauth2clients.hydra.ory.sh'' (None, e),
           Logged lgr DebugLevel ''Couldn't find oauth2client crd to remove finalizers from''])"
  using assms
  by (simp add: FindAndDeleteOryFinalizers_def restConfig_def Let_def useApixClient_def
      logf_def handler_all_fields)

text \<open>Where the requests of a run are addressed to.\<close>

lemma run_addressing:
  "length (filter isList (events env h k lg tr)) \<le> 1
   \<and> (\<forall>d g ns resp. ResourceList d g ns resp \<in> set (events env h k lg tr) \<longrightarrow>
        ns = NamespaceAll
        \<and> (\<exists>c crd e. CrdGet c ''oauth2clients.hydra.ory.sh'' (Some crd, e)
              \<in> set (events env h k lg tr)
            \<and> g = \<lparr>Group = SpecGroup crd, Version = SpecVersion crd,
                   Resource = SpecNamesPlural crd\<rparr>))
   \<and> (\<forall>d g ns n resp. ResourceGet d g ns n resp \<in> set (events env h k lg tr) \<longrightarrow>
        (\<exists>c crd e items e' inst.
            CrdGet c ''oauth2clients.hydra.ory.sh'' (Some crd, e) \<in> set (events env h k lg tr)
          \<and> g = \<lparr>Group = SpecGroup crd, Version = SpecVersion crd,
                 Resource = SpecNamesPlural crd\<rparr>
          \<and> ResourceList d g NamespaceAll (Some items, e') \<in> set (events env h k lg tr)
          \<and> inst \<in> set items \<and> ns = Namespace inst \<and> n = Name inst))
   \<and> (\<forall>d g ns obj resp. ResourceUpdate d g ns obj resp \<in> set (events env h k lg tr) \<longrightarrow>
        (\<exists>c crd e items e' inst res e''.
            CrdGet c ''oauth2clients.hydra.ory.sh'' (Some crd, e) \<in> set (events env h k lg tr)
          \<and> g = \<lparr>Group = SpecGroup crd, Version = SpecVersion crd,
                 Resource = SpecNamesPlural crd\<rparr>
          \<and> ResourceList d g NamespaceAll (Some items, e') \<in> set (events env h k lg tr)
          \<and> inst \<in> set items
          \<and> ResourceGet d g (Namespace inst) (Name inst) (Some res, e'')
              \<in> set (events env h k lg tr)
          \<and> ns = Namespace res \<and> obj = res\<lparr>Finalizers := []\<rparr>))"
proof (cases rule: F_cases[of env tr k h lg])
  case (parse e)
  show ?thesis by (simp add: events_eq[OF parse(2)])
next
  case (apix cfg0 cfg p e)
  show ?thesis by (simp add: events_eq[OF apix(5)] apix(3))
next
  case (dyn cfg0 cfg p c a e)
  show ?thesis by (simp add: events_eq[OF dyn(7)] dyn(3,5))
next
  case (crdErr cfg0 cfg p c a d dd h3 rc e)
  show ?thesis by (simp add: events_eq[OF crdErr(11)] crdErr(3,5,7))
next
  case (crdNil cfg0 cfg p c a d dd h3 e1 lgr)
  show ?thesis by (simp add: events_eq[OF crdNil(11)] crdNil(3,5,7))
next
  case (listErr cfg0 cfg p c a d dd h3 crd e1 g crdef l0 fin rl e lgr)
  show ?thesis
    by (simp add: events_eq[OF listErr(17)] listErr(3,5,7,11,13,14)) (simp add: listErr(12))
next
  case (listNil cfg0 cfg p c a d dd h3 crd e1 g crdef l0 fin e2 lgr)
  show ?thesis
    by (simp add: events_eq[OF listNil(17)] listNil(3,5,7,11,13,14)) (simp add: listNil(12))
next
  case (loop cfg0 cfg p c' a d' dd h3 crd' e1 g' crdef l0 fin items' e2 l r levs lgr)
  have rdy: "dynamic h3 = Some d'" "logger h3 = Some lgr" using loop(8) by simp_all
  note fe = loop(18)
  let ?E = "events env h k lg tr"
  have ev: "?E = [p, a, dd, g', l0, l] @ levs @ fin #
      (case r of None \<Rightarrow> [] | Some err \<Rightarrow> [Logged lgr ErrorLevel (errorMessage crdef err)])"
    by (rule events_eq[OF loop(19)])
  have evs: "set ?E = {p, a, dd, g', l0, l, fin} \<union> set levs
      \<union> (case r of None \<Rightarrow> {} | Some err \<Rightarrow> {Logged lgr ErrorLevel (errorMessage crdef err)})"
    by (auto simp: ev split: option.splits)
  have g_in: "CrdGet c' ''oauth2clients.hydra.ory.sh'' (Some crd', e1) \<in> set ?E"
    unfolding evs by (simp add: loop(11))
  have l_in: "ResourceList d' crdef NamespaceAll (Some items', e2) \<in> set ?E"
    unfolding evs by (simp add: loop(17))
  have lev_in: "\<And>x. x \<in> set levs \<Longrightarrow> x \<in> set ?E"
    unfolding evs by simp
  have lists: "\<And>d g ns resp. ResourceList d g ns resp \<in> set ?E
      \<longleftrightarrow> ResourceList d g ns resp = l"
    using loop_no_list(1)[OF rdy fe] unfolding evs
    by (auto simp: loop(3,5,7,11,13,14) split: option.splits)
  have gets: "\<And>d g ns n resp. ResourceGet d g ns n resp \<in> set ?E
      \<longleftrightarrow> ResourceGet d g ns n resp \<in> set levs"
    unfolding evs by (auto simp: loop(3,5,7,11,13,14,17) split: option.splits)
  have upds: "\<And>d g ns obj resp. ResourceUpdate d g ns obj resp \<in> set ?E
      \<longleftrightarrow> ResourceUpdate d g ns obj resp \<in> set levs"
    unfolding evs by (auto simp: loop(3,5,7,11,13,14,17) split: option.splits)
  have one: "length (filter isList ?E) \<le> 1"
    unfolding ev using loop_no_calls_but_get_update[OF rdy fe]
    by (simp add: loop(3,5,7,11,13,14,17) split: option.splits)
  have two: "\<forall>d g ns resp. ResourceList d g ns resp \<in> set ?E \<longrightarrow>
        ns = NamespaceAll
        \<and> (\<exists>c crd e. CrdGet c ''oauth2clients.hydra.ory.sh'' (Some crd, e) \<in> set ?E
            \<and> g = \<lparr>Group = SpecGroup crd, Version = SpecVersion crd,
                   Resource = SpecNamesPlural crd\<rparr>)"
    unfolding lists using g_in by (auto simp: loop(17) loop(12))
  have three: "\<forall>d g ns n resp. ResourceGet d g ns n resp \<in> set ?E \<longrightarrow>
        (\<exists>c crd e items e' inst.
            CrdGet c ''oauth2clients.hydra.ory.sh'' (Some crd, e) \<in> set ?E
          \<and> g = \<lparr>Group = SpecGroup crd, Version = SpecVersion crd,
                 Resource = SpecNamesPlural crd\<rparr>
          \<and> ResourceList d g NamespaceAll (Some items, e') \<in> set ?E
          \<and> inst \<in> set items \<and> ns = Namespace inst \<and> n = Name inst)"
  proof (intro allI impI)
    fix d g ns n resp assume "ResourceGet d g ns n resp \<in> set ?E"
    then have "ResourceGet d g ns n resp \<in> set levs" by (simp only: gets)
    from loop_shape[OF rdy fe, THEN bspec, OF this]
    obtain inst where "d = d'" "g = crdef" "inst \<in> set items'" "ns = Namespace inst" "n = Name inst"
      by auto
    with g_in l_in loop(12) show "\<exists>c crd e items e' inst.
            CrdGet c ''oauth2clients.hydra.ory.sh'' (Some crd, e) \<in> set ?E
          \<and> g = \<lparr>Group = SpecGroup crd, Version = SpecVersion crd,
                 Resource = SpecNamesPlural crd\<rparr>
          \<and> ResourceList d g NamespaceAll (Some items, e') \<in> set ?E
          \<and> inst \<in> set items \<and> ns = Namespace inst \<and> n = Name inst"
      by blast
  qed
  have four: "\<forall>d g ns obj resp. ResourceUpdate d g ns obj resp \<in> set ?E \<longrightarrow>
        (\<exists>c crd e items e' inst res e''.
            CrdGet c ''oauth2clients.hydra.ory.sh'' (Some crd, e) \<in> set ?E
          \<and> g = \<lparr>Group = SpecGroup crd, Version = SpecVersion crd,
                 Resource = SpecNamesPlural crd\<rparr>
          \<and> ResourceList d g NamespaceAll (Some items, e') \<in> set ?E
          \<and> inst \<in> set items
          \<and> ResourceGet d g (Namespace inst) (Name inst) (Some res, e'') \<in> set ?E
          \<and> ns = Namespace res \<and> obj = res\<lparr>Finalizers := []\<rparr>)"
  proof (intro allI impI)
    fix d g ns obj resp assume "ResourceUpdate d g ns obj resp \<in> set ?E"
    then have u: "ResourceUpdate d g ns obj resp \<in> set levs" by (simp only: upds)
    from loop_shape[OF rdy fe, THEN bspec, OF this]
    have dg: "d = d'" "g = crdef" by auto
    from loop_updates[OF rdy fe] u obtain inst res e'' where
      "inst \<in> set items'" "ResourceGet d g (Namespace inst) (Name inst) (Some res, e'') \<in> set levs"
      "ns = Namespace res" "obj = res\<lparr>Finalizers := []\<rparr>"
      by blast
    with g_in l_in loop(12) dg lev_in show "\<exists>c crd e items e' inst res e''.
            CrdGet c ''oauth2clients.hydra.ory.sh'' (Some crd, e) \<in> set ?E
          \<and> g = \<lparr>Group = SpecGroup crd, Version = SpecVersion crd,
                 Resource = SpecNamesPlural crd\<rparr>
          \<and> ResourceList d g NamespaceAll (Some items, e') \<in> set ?E
          \<and> inst \<in> set items
          \<and> ResourceGet d g (Namespace inst) (Name inst) (Some res, e'') \<in> set ?E
          \<and> ns = Namespace res \<and> obj = res\<lparr>Finalizers := []\<rparr>"
      by blast
  qed
  from one two three four show ?thesis by blast
next
  case (nilLogger cfg0 cfg p c a d dd h3 rc e1)
  show ?thesis by (simp add: events_eq[OF nilLogger(11)] nilLogger(3,5,7))
qed

text \<open>The requests a run does send: the list, when the steps before it succeed, then the
  gets and the updates.\<close>

lemma run_lists:
  assumes "RESTConfigFromKubeConfig env tr k = Inr cfg0"
    and "apixNewForConfig env (tr @ [ParseKubeConfig k (Inr cfg0)])
           (cfg0\<lparr>WarningHandler := NoWarnings\<rparr>) = Inr c"
    and "dynamicNewForConfig env
           (tr @ [ParseKubeConfig k (Inr cfg0),
                  ApixNewForConfig (cfg0\<lparr>WarningHandler := NoWarnings\<rparr>) (Inr c)])
           (cfg0\<lparr>WarningHandler := NoWarnings\<rparr>) = Inr d"
    and "crdGet env
           (tr @ [ParseKubeConfig k (Inr cfg0),
                  ApixNewForConfig (cfg0\<lparr>WarningHandler := NoWarnings\<rparr>) (Inr c),
                  DynamicNewForConfig (cfg0\<lparr>WarningHandler := NoWarnings\<rparr>) (Inr d)])
           c ''oauth2clients.hydra.ory.sh'' = (Some crd, e)"
    and "\<not> otherThanNotFound e" and "lg \<noteq> None"
  shows "\<exists>rl. ResourceList d \<lparr>Group = SpecGroup crd, Version = SpecVersion crd,
             Resource = SpecNamesPlural crd\<rparr> NamespaceAll rl \<in> set (events env h k lg tr)"
proof (cases rule: F_cases[of env tr k h lg])
  case (parse e)
  with assms(1) show ?thesis by simp
next
  case (apix cfg0' cfg p e)
  from assms(1,2) apix(1-4) show ?thesis by simp
next
  case (dyn cfg0' cfg p c' a e)
  from assms(1,2,3) dyn(1-6) show ?thesis by simp
next
  case (crdErr cfg0' cfg p c' a d' dd h3 rc e')
  have "otherThanNotFound (Some e')" using crdErr(10) by (simp add: otherThanNotFound_def)
  with assms(1-5) crdErr(1-7,9) show ?thesis by simp
next
  case (crdNil cfg0' cfg p c' a d' dd h3 e1 lgr)
  from assms(1-4) crdNil(1-7,9) show ?thesis by simp
next
  case (listErr cfg0' cfg p c' a d' dd h3 crd' e1 g crdef l0 fin rl e' lgr)
  from assms(1-4) listErr(1-7,9) have eq: "d = d'" "crd = crd'" by simp_all
  show ?thesis unfolding eq
    by (rule exI[of _ "(rl, Some e')"]) (simp add: events_eq[OF listErr(17)] listErr(12))
next
  case (listNil cfg0' cfg p c' a d' dd h3 crd' e1 g crdef l0 fin e2 lgr)
  from assms(1-4) listNil(1-7,9) have eq: "d = d'" "crd = crd'" by simp_all
  show ?thesis unfolding eq
    by (rule exI[of _ "(None, e2)"]) (simp add: events_eq[OF listNil(17)] listNil(12))
next
  case (loop cfg0' cfg p c' a d' dd h3 crd' e1 g' crdef l0 fin items' e2 l r levs lgr)
  from assms(1-4) loop(1-7,9) have eq: "d = d'" "crd = crd'" by simp_all
  show ?thesis unfolding eq
    by (rule exI[of _ "(Some items', e2)"]) (simp add: events_eq[OF loop(19)] loop(12,17))
next
  case (nilLogger cfg0' cfg p c' a d' dd h3 rc e1)
  with assms(6) show ?thesis by simp
qed

lemma run_existence:
  "(\<forall>d g ns items e. ResourceList d g ns (Some items, e) \<in> set (events env h k lg tr)
        \<and> \<not> otherThanNotFound e \<longrightarrow>
        (\<exists>ks. length ks \<le> length items \<and> (items \<noteq> [] \<longrightarrow> ks \<noteq> [])
           \<and> (0 < DefaultRetrySteps env \<longrightarrow> (\<forall>k\<in>set ks. 0 < k))
           \<and> (result env h k lg tr = Return None \<longrightarrow> length ks = length items)
           \<and> targets (events env h k lg tr)
               = concat (map2 (\<lambda>k inst. replicate k (Namespace inst, Name inst)) ks items)))
   \<and> (\<forall>d g ns n res e. ResourceGet d g ns n (Some res, e) \<in> set (events env h k lg tr)
        \<and> \<not> otherThanNotFound e \<and> Finalizers res \<noteq> [] \<longrightarrow>
        (\<exists>ur. ResourceUpdate d g (Namespace res) (res\<lparr>Finalizers := []\<rparr>) ur
            \<in> set (events env h k lg tr)))"
proof (cases rule: F_cases[of env tr k h lg])
  case (parse e)
  show ?thesis by (simp add: events_eq[OF parse(2)])
next
  case (apix cfg0 cfg p e)
  show ?thesis by (simp add: events_eq[OF apix(5)] apix(3))
next
  case (dyn cfg0 cfg p c a e)
  show ?thesis by (simp add: events_eq[OF dyn(7)] dyn(3,5))
next
  case (crdErr cfg0 cfg p c a d dd h3 rc e)
  show ?thesis by (simp add: events_eq[OF crdErr(11)] crdErr(3,5,7))
next
  case (crdNil cfg0 cfg p c a d dd h3 e1 lgr)
  show ?thesis by (simp add: events_eq[OF crdNil(11)] crdNil(3,5,7))
next
  case (listErr cfg0 cfg p c a d dd h3 crd e1 g crdef l0 fin rl e lgr)
  have "otherThanNotFound (Some e)" using listErr(16) by (simp add: otherThanNotFound_def)
  then show ?thesis
    by (auto simp: events_eq[OF listErr(17)] listErr(3,5,7,11,13,14) listErr(12))
next
  case (listNil cfg0 cfg p c a d dd h3 crd e1 g crdef l0 fin e2 lgr)
  show ?thesis
    by (auto simp: events_eq[OF listNil(17)] listNil(3,5,7,11,13,14) listNil(12))
next
  case (loop cfg0 cfg p c' a d' dd h3 crd' e1 g' crdef l0 fin items' e2 l r levs lgr)
  have rdy: "dynamic h3 = Some d'" "logger h3 = Some lgr" using loop(8) by simp_all
  note fe = loop(18)
  let ?E = "events env h k lg tr"
  have ev: "?E = [p, a, dd, g', l0, l] @ levs @ fin #
      (case r of None \<Rightarrow> [] | Some err \<Rightarrow> [Logged lgr ErrorLevel (errorMessage crdef err)])"
    by (rule events_eq[OF loop(19)])
  have R: "result env h k lg tr = Return r" by (rule result_eq[OF loop(19)])
  have evs: "set ?E = {p, a, dd, g', l0, l, fin} \<union> set levs
      \<union> (case r of None \<Rightarrow> {} | Some err \<Rightarrow> {Logged lgr ErrorLevel (errorMessage crdef err)})"
    by (auto simp: ev split: option.splits)
  have tg: "targets ?E = targets levs"
    unfolding ev by (simp add: targets_simps loop(3,5,7,11,13,14,17) split: option.splits)
  have lists: "\<And>d g ns resp. ResourceList d g ns resp \<in> set ?E
      \<longleftrightarrow> ResourceList d g ns resp = l"
    using loop_no_list(1)[OF rdy fe] unfolding evs
    by (auto simp: loop(3,5,7,11,13,14) split: option.splits)
  have gets: "\<And>d g ns n resp. ResourceGet d g ns n resp \<in> set ?E
      \<longleftrightarrow> ResourceGet d g ns n resp \<in> set levs"
    unfolding evs by (auto simp: loop(3,5,7,11,13,14,17) split: option.splits)
  have upds: "\<And>d g ns obj resp. ResourceUpdate d g ns obj resp \<in> set levs
      \<Longrightarrow> ResourceUpdate d g ns obj resp \<in> set ?E"
    unfolding evs by simp
  from loop_order[OF rdy, of env crdef items' "tr @ [p, a, dd, g', l0, l]"]
  obtain evs' r' ks where lo:
    "forEachInstance env h3 crdef items' (tr @ [p, a, dd, g', l0, l])
       = (Return r', (tr @ [p, a, dd, g', l0, l]) @ evs')"
    "length ks \<le> length items'" "items' \<noteq> [] \<longrightarrow> ks \<noteq> []"
    "0 < DefaultRetrySteps env \<longrightarrow> (\<forall>k\<in>set ks. 0 < k)"
    "targets evs' = concat (map2 (\<lambda>k inst. replicate k (Namespace inst, Name inst)) ks items')"
    "r' = None \<longrightarrow> length ks = length items'"
    by (elim exE conjE) (rule that, assumption+)
  from lo(1) fe have same: "r' = r" "evs' = levs" by simp_all
  note ks = lo(2-6)[unfolded same]
  have K: "length ks \<le> length items' \<and> (items' \<noteq> [] \<longrightarrow> ks \<noteq> [])
           \<and> (0 < DefaultRetrySteps env \<longrightarrow> (\<forall>k\<in>set ks. 0 < k))
           \<and> (result env h k lg tr = Return None \<longrightarrow> length ks = length items')
           \<and> targets ?E
               = concat (map2 (\<lambda>k inst. replicate k (Namespace inst, Name inst)) ks items')"
    using ks by (simp add: R tg)
  have two: "\<forall>d g ns items e. ResourceList d g ns (Some items, e) \<in> set ?E
        \<and> \<not> otherThanNotFound e \<longrightarrow>
        (\<exists>ks. length ks \<le> length items \<and> (items \<noteq> [] \<longrightarrow> ks \<noteq> [])
           \<and> (0 < DefaultRetrySteps env \<longrightarrow> (\<forall>k\<in>set ks. 0 < k))
           \<and> (result env h k lg tr = Return None \<longrightarrow> length ks = length items)
           \<and> targets ?E
               = concat (map2 (\<lambda>k inst. replicate k (Namespace inst, Name inst)) ks items))"
  proof (intro allI impI)
    fix d g ns items e
    assume "ResourceList d g ns (Some items, e) \<in> set ?E \<and> \<not> otherThanNotFound e"
    then have "items = items'" by (simp add: lists loop(17))
    with K show "\<exists>ks. length ks \<le> length items \<and> (items \<noteq> [] \<longrightarrow> ks \<noteq> [])
           \<and> (0 < DefaultRetrySteps env \<longrightarrow> (\<forall>k\<in>set ks. 0 < k))
           \<and> (result env h k lg tr = Return None \<longrightarrow> length ks = length items)
           \<and> targets ?E
               = concat (map2 (\<lambda>k inst. replicate k (Namespace inst, Name inst)) ks items)"
      by (intro exI[of _ ks]) simp
  qed
  have three: "\<forall>d g ns n res e. ResourceGet d g ns n (Some res, e) \<in> set ?E
        \<and> \<not> otherThanNotFound e \<and> Finalizers res \<noteq> [] \<longrightarrow>
        (\<exists>ur. ResourceUpdate d g (Namespace res) (res\<lparr>Finalizers := []\<rparr>) ur \<in> set ?E)"
    using loop_clears[OF rdy fe] upds unfolding gets by (simp del: split_paired_Ex) blast
  show ?thesis by (rule conjI[OF two three])
next
  case (nilLogger cfg0 cfg p c a d dd h3 rc e1)
  note ev = events_eq[OF nilLogger(11)[unfolded nilLogger(12)]]
  show ?thesis unfolding nilLogger(12) by (simp add: ev nilLogger(3,5,7))
qed

text \<open>The run of the handler against the sample cluster.\<close>

lemmas run_defs = FindAndDeleteOryFinalizers_def restConfig_def Let_def
    NewDefaultOryFinalizersHandler_def useApixClient_def otherThanNotFound_def logf_def
    removeFinalizersFromAllInstancesOf_def listAndRemove_def andThen_def useDynamic_def
    RetryOnConflict_def removeCustomResourceFinalizers_def eval_nat_numeral SetFinalizersNil_def
    NamespaceAll_def



lemma sample_run:
  "FindAndDeleteOryFinalizers sampleCluster NewDefaultOryFinalizersHandler ''kubeconfig''
      (Some (SugaredLogger 0)) [] =
   (Return None,
    \<lparr>apixClient = Some (ApixClient 1), dynamic = Some (DynamicClient 2),
      logger = Some (SugaredLogger 0)\<rparr>,
    [ParseKubeConfig ''kubeconfig'' (Inr sampleConfig),
     ApixNewForConfig (sampleConfig\<lparr>WarningHandler := NoWarnings\<rparr>) (Inr (ApixClient 1)),
     DynamicNewForConfig (sampleConfig\<lparr>WarningHandler := NoWarnings\<rparr>) (Inr (DynamicClient 2)),
     CrdGet (ApixClient 1) ''oauth2clients.hydra.ory.sh'' (Some sampleCrd, None),
     Logged (SugaredLogger 0) DebugLevel (droppingMessage sampleGvr),
     ResourceList (DynamicClient 2) sampleGvr NamespaceAll (Some [clientA, clientB], None),
     ResourceGet (DynamicClient 2) sampleGvr ''team-a'' ''client-a'' (Some clientA, None),
     Logged (SugaredLogger 0) DebugLevel (foundMessage clientA clientA),
     ResourceUpdate (DynamicClient 2) sampleGvr ''team-a'' (clientA\<lparr>Finalizers := []\<rparr>)
       (None, Some conflict),
     ResourceGet (DynamicClient 2) sampleGvr ''team-a'' ''client-a'' (Some clientA, None),
     Logged (SugaredLogger 0) DebugLevel (foundMessage clientA clientA),
     ResourceUpdate (DynamicClient 2) sampleGvr ''team-a'' (clientA\<lparr>Finalizers := []\<rparr>)
       (Some (clientA\<lparr>Finalizers := []\<rparr>), None),
     Logged (SugaredLogger 0) DebugLevel (deletedMessage (clientA\<lparr>Finalizers := []\<rparr>) clientA),
     ResourceGet (DynamicClient 2) sampleGvr ''team-b'' ''client-b'' (Some clientB, None),
     Logged (SugaredLogger 0) DebugLevel (finishedMessage sampleGvr)])"
  by (simp add: run_defs sampleCluster_def clientA_def clientB_def conflict_def sampleCrd_def
      sampleGvr_def)

lemma sample_events:
  "events sampleCluster NewDefaultOryFinalizersHandler ''kubeconfig'' (Some (SugaredLogger 0)) [] =
    [ParseKubeConfig ''kubeconfig'' (Inr sampleConfig),
     ApixNewForConfig (sampleConfig\<lparr>WarningHandler := NoWarnings\<rparr>) (Inr (ApixClient 1)),
     DynamicNewForConfig (sampleConfig\<lparr>WarningHandler := NoWarnings\<rparr>) (Inr (DynamicClient 2)),
     CrdGet (ApixClient 1) ''oauth2clients.hydra.ory.sh'' (Some sampleCrd, None),
     Logged (SugaredLogger 0) DebugLevel (droppingMessage sampleGvr),
     ResourceList (DynamicClient 2) sampleGvr NamespaceAll (Some [clientA, clientB], None),
     ResourceGet (DynamicClient 2) sampleGvr ''team-a'' ''client-a'' (Some clientA, None),
     Logged (SugaredLogger 0) DebugLevel (foundMessage clientA clientA),
     ResourceUpdate (DynamicClient 2) sampleGvr ''team-a'' (clientA\<lparr>Finalizers := []\<rparr>)
       (None, Some conflict),
     ResourceGet (DynamicClient 2) sampleGvr ''team-a'' ''client-a'' (Some clientA, None),
     Logged (SugaredLogger 0) DebugLevel (foundMessage clientA clientA),
     ResourceUpdate (DynamicClient 2) sampleGvr ''team-a'' (clientA\<lparr>Finalizers := []\<rparr>)
       (Some (clientA\<lparr>Finalizers := []\<rparr>), None),
     Logged (SugaredLogger 0) DebugLevel (deletedMessage (clientA\<lparr>Finalizers := []\<rparr>) clientA),
     ResourceGet (DynamicClient 2) sampleGvr ''team-b'' ''client-b'' (Some clientB, None),
     Logged (SugaredLogger 0) DebugLevel (finishedMessage sampleGvr)]"
  by (simp add: events_def sample_run)

lemma readOnly_run:
  "FindAndDeleteOryFinalizers readOnlyCluster NewDefaultOryFinalizersHandler ''kubeconfig''
      (Some (SugaredLogger 0)) [] =
   (Return (Some (Wrapf forbidden (failedMessage sampleGvr ''client-a''))),
    readyHandler,
    [ParseKubeConfig ''kubeconfig'' (Inr sampleConfig),
     ApixNewForConfig (sampleConfig\<lparr>WarningHandler := NoWarnings\<rparr>) (Inr (ApixClient 1)),
     DynamicNewForConfig (sampleConfig\<lparr>WarningHandler := NoWarnings\<rparr>) (Inr (DynamicClient 2)),
     CrdGet (ApixClient 1) ''oauth2clients.hydra.ory.sh'' (Some sampleCrd, None),
     Logged (SugaredLogger 0) DebugLevel (droppingMessage sampleGvr),
     ResourceList (DynamicClient 2) sampleGvr NamespaceAll (Some [clientA, clientB], None),
     ResourceGet (DynamicClient 2) sampleGvr ''team-a'' ''client-a'' (Some clientA, None),
     Logged (SugaredLogger 0) DebugLevel (foundMessage clientA clientA),
     ResourceUpdate (DynamicClient 2) sampleGvr ''team-a'' (clientA\<lparr>Finalizers := []\<rparr>)
       (None, Some forbidden),
     Logged (SugaredLogger 0) DebugLevel (finishedMessage sampleGvr),
     Logged (SugaredLogger 0) ErrorLevel (errorMessage sampleGvr
       (Wrapf forbidden (failedMessage sampleGvr ''client-a'')))])"
  by (simp add: run_defs readOnlyCluster_def sampleCluster_def clientA_def clientB_def
      forbidden_def sampleCrd_def sampleGvr_def readyHandler_def)

lemma unreadable_run:
  "FindAndDeleteOryFinalizers unreadableCluster NewDefaultOryFinalizersHandler ''kubeconfig''
      (Some (SugaredLogger 0)) [] =
   (Return (Some (Wrapf forbidden (failedMessage sampleGvr ''client-a''))),
    readyHandler,
    [ParseKubeConfig ''kubeconfig'' (Inr sampleConfig),
     ApixNewForConfig (sampleConfig\<lparr>WarningHandler := NoWarnings\<rparr>) (Inr (ApixClient 1)),
     DynamicNewForConfig (sampleConfig\<lparr>WarningHandler := NoWarnings\<rparr>) (Inr (DynamicClient 2)),
     CrdGet (ApixClient 1) ''oauth2clients.hydra.ory.sh'' (Some sampleCrd, None),
     Logged (SugaredLogger 0) DebugLevel (droppingMessage sampleGvr),
     ResourceList (DynamicClient 2) sampleGvr NamespaceAll (Some [clientA, clientB], None),
     ResourceGet (DynamicClient 2) sampleGvr ''team-a'' ''client-a'' (None, Some forbidden),
     Logged (SugaredLogger 0) DebugLevel (finishedMessage sampleGvr),
     Logged (SugaredLogger 0) ErrorLevel (errorMessage sampleGvr
       (Wrapf forbidden (failedMessage sampleGvr ''client-a'')))])"
  by (simp add: run_defs unreadableCluster_def sampleCluster_def clientA_def clientB_def
      forbidden_def sampleCrd_def sampleGvr_def readyHandler_def)

lemma vanished_run:
  "FindAndDeleteOryFinalizers vanishedCluster NewDefaultOryFinalizersHandler ''kubeconfig''
      (Some (SugaredLogger 0)) [] =
   (Return None, readyHandler,
    [ParseKubeConfig ''kubeconfig'' (Inr sampleConfig),
     ApixNewForConfig (sampleConfig\<lparr>WarningHandler := NoWarnings\<rparr>) (Inr (ApixClient 1)),
     DynamicNewForConfig (sampleConfig\<lparr>WarningHandler := NoWarnings\<rparr>) (Inr (DynamicClient 2)),
     CrdGet (ApixClient 1) ''oauth2clients.hydra.ory.sh'' (Some sampleCrd, None),
     Logged (SugaredLogger 0) DebugLevel (droppingMessage sampleGvr),
     ResourceList (DynamicClient 2) sampleGvr NamespaceAll (Some [clientA, clientB], None),
     ResourceGet (DynamicClient 2) sampleGvr ''team-a'' ''client-a'' (None, Some notFound),
     ResourceGet (DynamicClient 2) sampleGvr ''team-b'' ''client-b'' (Some clientB, None),
     Logged (SugaredLogger 0) DebugLevel (finishedMessage sampleGvr)])"
  by (simp add: run_defs vanishedCluster_def sampleCluster_def clientA_def clientB_def
      notFound_def sampleCrd_def sampleGvr_def readyHandler_def)

text \<open>The run against the cluster that answers a get with another object, and the run of
  the sample cluster with a nil logger.\<close>

lemma stray_run:
  "FindAndDeleteOryFinalizers strayCluster NewDefaultOryFinalizersHandler ''kubeconfig''
      (Some (SugaredLogger 0)) [] =
   (Return None, readyHandler,
    [ParseKubeConfig ''kubeconfig'' (Inr sampleConfig),
     ApixNewForConfig (sampleConfig\<lparr>WarningHandler := NoWarnings\<rparr>) (Inr (ApixClient 1)),
     DynamicNewForConfig (sampleConfig\<lparr>WarningHandler := NoWarnings\<rparr>) (Inr (DynamicClient 2)),
     CrdGet (ApixClient 1) ''oauth2clients.hydra.ory.sh'' (Some sampleCrd, None),
     Logged (SugaredLogger 0) DebugLevel (droppingMessage sampleGvr),
     ResourceList (DynamicClient 2) sampleGvr NamespaceAll (Some [clientA], None),
     ResourceGet (DynamicClient 2) sampleGvr ''team-a'' ''client-a'' (Some clientZ, None),
     Logged (SugaredLogger 0) DebugLevel (foundMessage clientZ clientA),
     ResourceUpdate (DynamicClient 2) sampleGvr ''team-z'' (clientZ\<lparr>Finalizers := []\<rparr>)
       (Some (clientZ\<lparr>Finalizers := []\<rparr>), None),
     Logged (SugaredLogger 0) DebugLevel (deletedMessage (clientZ\<lparr>Finalizers := []\<rparr>) clientA),
     Logged (SugaredLogger 0) DebugLevel (finishedMessage sampleGvr)])"
  by (simp add: run_defs strayCluster_def sampleCluster_def clientA_def clientZ_def
      sampleCrd_def sampleGvr_def readyHandler_def)


section \<open>The claims\<close>

text \<open>
  C1. If \<open>FindAndDeleteOryFinalizers\<close> returns nil, and the CRD get and the instance list
  both succeeded with non-nil results, then every instance of the returned list was
  fetched again (the retry helper makes at least one attempt), and for every fetched
  version of it with a non-empty finalizer list an update request was issued, to the
  namespace of that version, carrying that version with its finalizers cleared.
\<close>

theorem C1_finalizers_cleared:
  assumes "result env h k lg tr = Return None"
    and "CrdGet c nm (Some crd, None) \<in> set (events env h k lg tr)"
    and "ResourceList d g ns (Some items, None) \<in> set (events env h k lg tr)"
    and "inst \<in> set items"
  shows "(0 < DefaultRetrySteps env \<longrightarrow>
      (\<exists>resp. ResourceGet d g (Namespace inst) (Name inst) resp \<in> set (events env h k lg tr)))
    \<and> (\<forall>res e. ResourceGet d g (Namespace inst) (Name inst) (Some res, e)
            \<in> set (events env h k lg tr)
          \<and> \<not> otherThanNotFound e \<and> Finalizers res \<noteq> []
        \<longrightarrow> (\<exists>ur. ResourceUpdate d g (Namespace res) (res\<lparr>Finalizers := []\<rparr>) ur
              \<in> set (events env h k lg tr)))"
proof (cases rule: F_cases[of env tr k h lg])
  case (parse e)
  with assms(3) show ?thesis by (simp add: events_eq[OF parse(2)])
next
  case (apix cfg0 cfg p e)
  with assms(3) show ?thesis by (simp add: events_eq[OF apix(5)])
next
  case (dyn cfg0 cfg p c a e)
  with assms(3) show ?thesis by (simp add: events_eq[OF dyn(7)])
next
  case (crdErr cfg0 cfg p c a d dd h3 rc e)
  with assms(3) show ?thesis by (simp add: events_eq[OF crdErr(11)])
next
  case (crdNil cfg0 cfg p c a d dd h3 e1 lgr)
  from assms(3) show ?thesis
    by (simp add: events_eq[OF crdNil(11)] crdNil(3,5,7))
next
  case (listErr cfg0 cfg p c a d dd h3 crd e1 g crdef l0 fin rl e lgr)
  from assms(3) show ?thesis
    by (simp add: events_eq[OF listErr(17)] listErr(3,5,7,11,13,14))
next
  case (listNil cfg0 cfg p c a d dd h3 crd e1 g crdef l0 fin e2 lgr)
  from assms(3) show ?thesis
    by (simp add: events_eq[OF listNil(17)] listNil(3,5,7,11,13,14))
next
  case (loop cfg0 cfg p c' a d' dd h3 crd' e1 g' crdef l0 fin items' e2 l r levs lgr)
  have rdy: "dynamic h3 = Some d'" "logger h3 = Some lgr" using loop(8) by simp_all
  note fe = loop(18)
  have ev: "events env h k lg tr = [p, a, dd, g', l0, l] @ levs @ fin #
      (case r of None \<Rightarrow> [] | Some err \<Rightarrow> [Logged lgr ErrorLevel (errorMessage crdef err)])"
    by (rule events_eq[OF loop(19)])
  have r: "r = None" using assms(1) result_eq[OF loop(19)] by simp
  have evs: "set (events env h k lg tr) = {p, a, dd, g', l0, l, fin} \<union> set levs"
    by (auto simp: ev r)
  have "ResourceList d g ns (Some items, None) = l"
    using assms(3) loop_no_list(1)[OF rdy fe] unfolding evs
    by (auto simp: loop(3,5,7,11,13,14))
  then have eq: "d = d'" "g = crdef" "items = items'" by (simp_all add: loop(17))
  have gets: "\<And>resp. ResourceGet d' crdef (Namespace inst) (Name inst) resp \<in> set (events env h k lg tr)
      \<longleftrightarrow> ResourceGet d' crdef (Namespace inst) (Name inst) resp \<in> set levs"
    unfolding evs by (auto simp: loop(3,5,7,11,13,14,17))
  have upds: "\<And>res ur. ResourceUpdate d' crdef (Namespace res) (res\<lparr>Finalizers := []\<rparr>) ur \<in> set levs
      \<Longrightarrow> ResourceUpdate d' crdef (Namespace res) (res\<lparr>Finalizers := []\<rparr>) ur \<in> set (events env h k lg tr)"
    unfolding evs by simp
  have one: "0 < DefaultRetrySteps env \<longrightarrow>
      (\<exists>resp. ResourceGet d' crdef (Namespace inst) (Name inst) resp \<in> set (events env h k lg tr))"
    using loop_fetches[OF rdy _ fe[unfolded r]] assms(4) unfolding gets eq
    by (simp del: split_paired_Ex)
  have two: "\<forall>res e. ResourceGet d' crdef (Namespace inst) (Name inst) (Some res, e)
            \<in> set (events env h k lg tr)
          \<and> \<not> otherThanNotFound e \<and> Finalizers res \<noteq> []
        \<longrightarrow> (\<exists>ur. ResourceUpdate d' crdef (Namespace res) (res\<lparr>Finalizers := []\<rparr>) ur
              \<in> set (events env h k lg tr))"
    using loop_clears[OF rdy fe] upds unfolding gets by (simp del: split_paired_Ex) blast
  from one two show ?thesis unfolding eq by blast
next
  case (nilLogger cfg0 cfg p c a d dd h3 rc e1)
  from assms(3) show ?thesis by (simp add: events_eq[OF nilLogger(11)] nilLogger(3,5,7))
qed

theorem C1_finalizers_cleared_witness:
  "result sampleCluster NewDefaultOryFinalizersHandler ''kubeconfig'' (Some (SugaredLogger 0)) [] = Return None
   \<and> CrdGet (ApixClient 1) ''oauth2clients.hydra.ory.sh'' (Some sampleCrd, None)
       \<in> set (events sampleCluster NewDefaultOryFinalizersHandler ''kubeconfig'' (Some (SugaredLogger 0)) [])
   \<and> ResourceList (DynamicClient 2) sampleGvr NamespaceAll (Some [clientA, clientB], None)
       \<in> set (events sampleCluster NewDefaultOryFinalizersHandler ''kubeconfig'' (Some (SugaredLogger 0)) [])
   \<and> clientA \<in> set [clientA, clientB]
   \<and> 0 < DefaultRetrySteps sampleCluster
   \<and> ResourceGet (DynamicClient 2) sampleGvr (Namespace clientA) (Name clientA) (Some clientA, None)
       \<in> set (events sampleCluster NewDefaultOryFinalizersHandler ''kubeconfig'' (Some (SugaredLogger 0)) [])
   \<and> \<not> otherThanNotFound None \<and> Finalizers clientA \<noteq> []
   \<and> (\<exists>ur. ResourceUpdate (DynamicClient 2) sampleGvr (Namespace clientA)
        (clientA\<lparr>Finalizers := []\<rparr>) ur
       \<in> set (events sampleCluster NewDefaultOryFinalizersHandler ''kubeconfig'' (Some (SugaredLogger 0)) []))"
proof -
  let ?E = "events sampleCluster NewDefaultOryFinalizersHandler ''kubeconfig'' (Some (SugaredLogger 0)) []"
  have r: "result sampleCluster NewDefaultOryFinalizersHandler ''kubeconfig'' (Some (SugaredLogger 0)) []
      = Return None"
    by (simp add: result_def sample_run)
  have c: "CrdGet (ApixClient 1) ''oauth2clients.hydra.ory.sh'' (Some sampleCrd, None) \<in> set ?E"
    by (simp add: events_def sample_run)
  have l: "ResourceList (DynamicClient 2) sampleGvr NamespaceAll (Some [clientA, clientB], None)
      \<in> set ?E"
    by (simp add: events_def sample_run)
  have i: "clientA \<in> set [clientA, clientB]" by simp
  have s: "0 < DefaultRetrySteps sampleCluster" by (simp add: sampleCluster_def)
  have g: "ResourceGet (DynamicClient 2) sampleGvr (Namespace clientA) (Name clientA)
      (Some clientA, None) \<in> set ?E"
    by (simp add: events_def sample_run clientA_def)
  have f: "\<not> otherThanNotFound None" "Finalizers clientA \<noteq> []"
    by (simp_all add: otherThanNotFound_def clientA_def)
  from C1_finalizers_cleared[OF r c l i] g f
  have "\<exists>ur. ResourceUpdate (DynamicClient 2) sampleGvr (Namespace clientA)
        (clientA\<lparr>Finalizers := []\<rparr>) ur \<in> set ?E"
    by blast
  with r c l i s g f show ?thesis by blast
qed

text \<open>
  C2, as the code has it. A not-found error of the per-instance get is not returned: the
  instance is skipped and the loop goes on, as the run against the cluster with the
  vanished instance shows.
\<close>

theorem C2_not_found_get_counterexample:
  "events vanishedCluster NewDefaultOryFinalizersHandler ''kubeconfig'' (Some (SugaredLogger 0)) [] =
    [ParseKubeConfig ''kubeconfig'' (Inr sampleConfig),
     ApixNewForConfig (sampleConfig\<lparr>WarningHandler := NoWarnings\<rparr>) (Inr (ApixClient 1)),
     DynamicNewForConfig (sampleConfig\<lparr>WarningHandler := NoWarnings\<rparr>) (Inr (DynamicClient 2)),
     CrdGet (ApixClient 1) ''oauth2clients.hydra.ory.sh'' (Some sampleCrd, None),
     Logged (SugaredLogger 0) DebugLevel (droppingMessage sampleGvr),
     ResourceList (DynamicClient 2) sampleGvr NamespaceAll (Some [clientA, clientB], None),
     ResourceGet (DynamicClient 2) sampleGvr ''team-a'' ''client-a'' (None, Some notFound),
     ResourceGet (DynamicClient 2) sampleGvr ''team-b'' ''client-b'' (Some clientB, None),
     Logged (SugaredLogger 0) DebugLevel (finishedMessage sampleGvr)]
   \<and> \<not> IsConflict notFound
   \<and> result vanishedCluster NewDefaultOryFinalizersHandler ''kubeconfig'' (Some (SugaredLogger 0)) []
       = Return None"
  by (simp add: events_def result_def vanished_run notFound_def)

text \<open>
  C2, amended. An error of a per-instance get that is neither not-found nor a conflict,
  and an error of an update that is not a conflict, is the last request of the run: it is
  not retried and no further instance is processed. The run returns that error wrapped in
  the message that names the instance the request was made for. For no instance are more
  gets sent than the retry helper has attempts, and an attempt that returns nil is not
  repeated.
\<close>

theorem C2_hard_errors_end_the_run:
  "(\<forall>pre post d g ns n rr e.
      events env h k lg tr = pre @ ResourceGet d g ns n (rr, Some e) # post
        \<and> \<not> IsNotFound e \<and> \<not> IsConflict e
      \<longrightarrow> calls post = []
        \<and> result env h k lg tr = Return (Some (Wrapf e (failedMessage g n))))
   \<and> (\<forall>pre post d g ns obj ur e.
      events env h k lg tr = pre @ ResourceUpdate d g ns obj (ur, Some e) # post
        \<and> \<not> IsConflict e
      \<longrightarrow> calls post = []
        \<and> (\<exists>pre' ns' n resp l lvl msg.
              pre = pre' @ [ResourceGet d g ns' n resp, Logged l lvl msg]
            \<and> result env h k lg tr = Return (Some (Wrapf e (failedMessage g n)))))
   \<and> (\<forall>d g ns items e. ResourceList d g ns (Some items, e) \<in> set (events env h k lg tr) \<longrightarrow>
        (\<exists>ks. length ks \<le> length items \<and> (\<forall>k\<in>set ks. k \<le> DefaultRetrySteps env)
           \<and> targets (events env h k lg tr)
               = concat (map2 (\<lambda>k inst. replicate k (Namespace inst, Name inst)) ks items)))
   \<and> (\<forall>h' crdef inst t t1 n lastErr.
        removeCustomResourceFinalizers env h' crdef inst t = (Return None, t1)
        \<longrightarrow> retryLoop (Suc n) lastErr (removeCustomResourceFinalizers env h' crdef inst) t
              = (Return None, t1))"
proof (cases rule: run_requests[of env h k lg tr])
  case none
  have g: False if "events env h k lg tr = pre @ ResourceGet d g ns n resp # post"
    for pre d g ns n resp post
  proof -
    from that have "ResourceGet d g ns n resp \<in> set (events env h k lg tr)" by simp
    with none(1) show False by auto
  qed
  have u: False if "events env h k lg tr = pre @ ResourceUpdate d g ns obj resp # post"
    for pre d g ns obj resp post
  proof -
    from that have "ResourceUpdate d g ns obj resp \<in> set (events env h k lg tr)" by simp
    with none(1) show False by auto
  qed
  have l: "\<exists>ks. length ks \<le> length items \<and> (\<forall>k\<in>set ks. k \<le> DefaultRetrySteps env)
           \<and> targets (events env h k lg tr)
               = concat (map2 (\<lambda>k inst. replicate k (Namespace inst, Name inst)) ks items)"
    if "ResourceList d g ns (Some items, e) \<in> set (events env h k lg tr)" for d g ns items e
    using none(2) that by (intro exI[of _ "[]"]) auto
  have one: "calls post = []
        \<and> result env h k lg tr = Return (Some (Wrapf e (failedMessage g n)))"
    if "events env h k lg tr = pre @ ResourceGet d' g ns n (rr, Some e) # post"
    for pre post d' g ns n rr e
    using g[OF that] by simp
  have two: "calls post = []
        \<and> (\<exists>pre' ns' n resp l lvl msg.
              pre = pre' @ [ResourceGet d' g ns' n resp, Logged l lvl msg]
            \<and> result env h k lg tr = Return (Some (Wrapf e (failedMessage g n))))"
    if "events env h k lg tr = pre @ ResourceUpdate d' g ns obj (ur, Some e) # post"
    for pre post d' g ns obj ur e
    using u[OF that] by simp
  note three = l
  have c1: "(\<forall>pre post d g ns n rr e.
      events env h k lg tr = pre @ ResourceGet d g ns n (rr, Some e) # post
        \<and> \<not> IsNotFound e \<and> \<not> IsConflict e
      \<longrightarrow> calls post = []
        \<and> result env h k lg tr = Return (Some (Wrapf e (failedMessage g n))))"
    using one by blast
  have c2: "(\<forall>pre post d g ns obj ur e.
      events env h k lg tr = pre @ ResourceUpdate d g ns obj (ur, Some e) # post
        \<and> \<not> IsConflict e
      \<longrightarrow> calls post = []
        \<and> (\<exists>pre' ns' n resp l lvl msg.
              pre = pre' @ [ResourceGet d g ns' n resp, Logged l lvl msg]
            \<and> result env h k lg tr = Return (Some (Wrapf e (failedMessage g n)))))"
    using two by blast
  have c3: "(\<forall>d g ns items e. ResourceList d g ns (Some items, e) \<in> set (events env h k lg tr) \<longrightarrow>
        (\<exists>ks. length ks \<le> length items \<and> (\<forall>k\<in>set ks. k \<le> DefaultRetrySteps env)
           \<and> targets (events env h k lg tr)
               = concat (map2 (\<lambda>k inst. replicate k (Namespace inst, Name inst)) ks items)))"
    using three by blast
  have c4: "(\<forall>h' crdef inst t t1 n lastErr.
        removeCustomResourceFinalizers env h' crdef inst t = (Return None, t1)
        \<longrightarrow> retryLoop (Suc n) lastErr (removeCustomResourceFinalizers env h' crdef inst) t
              = (Return None, t1))"
    by simp
  show ?thesis by (rule conjI[OF c1 conjI[OF c2 conjI[OF c3 c4]]])
next
  case (loop h3 d crdef items a levs c r lgr)
  note rdy = loop(1,2) and fe = loop(3) and ev = loop(4) and res = loop(5)
  note lf = loop_failure[OF rdy fe]
  have shape: "\<And>d' g ns n resp. ResourceGet d' g ns n resp \<in> set levs \<Longrightarrow> g = crdef"
    "\<And>d' g ns obj resp. ResourceUpdate d' g ns obj resp \<in> set levs \<Longrightarrow> g = crdef"
    using loop_shape[OF rdy fe] by (auto split: event.splits)
  have cpost: "calls c = []" using loop(7) by (auto simp: calls_def filter_empty_conv)
  have one: "calls post = []
        \<and> result env h k lg tr = Return (Some (Wrapf e (failedMessage g n)))"
    if x: "events env h k lg tr = pre @ ResourceGet d' g ns n (rr, Some e) # post"
      "\<not> IsNotFound e" "\<not> IsConflict e" for pre post d' g ns n rr e
  proof -
    have "ResourceGet d' g ns n (rr, Some e) \<notin> set a" "ResourceGet d' g ns n (rr, Some e) \<notin> set c"
      using loop(6,7) by auto
    from in_middle[OF x(1)[unfolded ev] this]
    obtain pre' post' where m: "pre = a @ pre'"
      "levs = pre' @ ResourceGet d' g ns n (rr, Some e) # post'" "post = post' @ c"
      by blast
    from lf m(2) x(2,3) have "post' = []" "Return r = Return (Some (Wrapf e (failedMessage crdef n)))"
      by blast+
    moreover have "ResourceGet d' g ns n (rr, Some e) \<in> set levs" using m(2) by simp
    then have "g = crdef" by (rule shape(1))
    ultimately show ?thesis using m(3) cpost res by simp
  qed
  have two: "calls post = []
        \<and> (\<exists>pre' ns' n resp l lvl msg.
              pre = pre' @ [ResourceGet d' g ns' n resp, Logged l lvl msg]
            \<and> result env h k lg tr = Return (Some (Wrapf e (failedMessage g n))))"
    if x: "events env h k lg tr = pre @ ResourceUpdate d' g ns obj (ur, Some e) # post"
      "\<not> IsConflict e" for pre post d' g ns obj ur e
  proof -
    have "ResourceUpdate d' g ns obj (ur, Some e) \<notin> set a"
      "ResourceUpdate d' g ns obj (ur, Some e) \<notin> set c"
      using loop(6,7) by auto
    from in_middle[OF x(1)[unfolded ev] this]
    obtain pre' post' where m: "pre = a @ pre'"
      "levs = pre' @ ResourceUpdate d' g ns obj (ur, Some e) # post'" "post = post' @ c"
      by blast
    from lf[THEN conjunct2, rule_format, of pre' d' g ns obj ur e post'] m(2) x(2)
    obtain pre'' ns' n resp msg where f: "post' = []"
      "pre' = pre'' @ [ResourceGet d' g ns' n resp, Logged lgr DebugLevel msg]"
      "Return r = Return (Some (Wrapf e (failedMessage crdef n)))"
      by auto
    have "ResourceUpdate d' g ns obj (ur, Some e) \<in> set levs" using m(2) by simp
    then have "g = crdef" by (rule shape(2))
    with f m(1,3) cpost res show ?thesis by auto
  qed
  have three: "\<exists>ks. length ks \<le> length items' \<and> (\<forall>k\<in>set ks. k \<le> DefaultRetrySteps env)
           \<and> targets (events env h k lg tr)
               = concat (map2 (\<lambda>k inst. replicate k (Namespace inst, Name inst)) ks items')"
    if "ResourceList d' g ns (Some items', e) \<in> set (events env h k lg tr)" for d' g ns items' e
  proof -
    from that loop(8) have i: "items' = items" by blast
    have tc: "targets c = []" using loop(7)
      by (induction c) (auto simp: targets_simps elim: isLog.elims)
    from loop_targets[OF rdy, of env crdef items "tr @ a"] fe
    obtain ks where "length ks \<le> length items" "\<forall>k\<in>set ks. k \<le> DefaultRetrySteps env"
      "targets levs = concat (map2 (\<lambda>k inst. replicate k (Namespace inst, Name inst)) ks items)"
      by auto
    then show ?thesis unfolding i ev by (intro exI[of _ ks]) (simp add: targets_simps loop(9) tc)
  qed
  have c1: "(\<forall>pre post d g ns n rr e.
      events env h k lg tr = pre @ ResourceGet d g ns n (rr, Some e) # post
        \<and> \<not> IsNotFound e \<and> \<not> IsConflict e
      \<longrightarrow> calls post = []
        \<and> result env h k lg tr = Return (Some (Wrapf e (failedMessage g n))))"
    using one by blast
  have c2: "(\<forall>pre post d g ns obj ur e.
      events env h k lg tr = pre @ ResourceUpdate d g ns obj (ur, Some e) # post
        \<and> \<not> IsConflict e
      \<longrightarrow> calls post = []
        \<and> (\<exists>pre' ns' n resp l lvl msg.
              pre = pre' @ [ResourceGet d g ns' n resp, Logged l lvl msg]
            \<and> result env h k lg tr = Return (Some (Wrapf e (failedMessage g n)))))"
    using two by blast
  have c3: "(\<forall>d g ns items e. ResourceList d g ns (Some items, e) \<in> set (events env h k lg tr) \<longrightarrow>
        (\<exists>ks. length ks \<le> length items \<and> (\<forall>k\<in>set ks. k \<le> DefaultRetrySteps env)
           \<and> targets (events env h k lg tr)
               = concat (map2 (\<lambda>k inst. replicate k (Namespace inst, Name inst)) ks items)))"
    using three by blast
  have c4: "(\<forall>h' crdef inst t t1 n lastErr.
        removeCustomResourceFinalizers env h' crdef inst t = (Return None, t1)
        \<longrightarrow> retryLoop (Suc n) lastErr (removeCustomResourceFinalizers env h' crdef inst) t
              = (Return None, t1))"
    by simp
  show ?thesis by (rule conjI[OF c1 conjI[OF c2 conjI[OF c3 c4]]])
qed

theorem C2_hard_errors_end_the_run_witness:
  "events unreadableCluster NewDefaultOryFinalizersHandler ''kubeconfig'' (Some (SugaredLogger 0)) [] =
     [ParseKubeConfig ''kubeconfig'' (Inr sampleConfig),
      ApixNewForConfig (sampleConfig\<lparr>WarningHandler := NoWarnings\<rparr>) (Inr (ApixClient 1)),
      DynamicNewForConfig (sampleConfig\<lparr>WarningHandler := NoWarnings\<rparr>) (Inr (DynamicClient 2)),
      CrdGet (ApixClient 1) ''oauth2clients.hydra.ory.sh'' (Some sampleCrd, None),
      Logged (SugaredLogger 0) DebugLevel (droppingMessage sampleGvr),
      ResourceList (DynamicClient 2) sampleGvr NamespaceAll (Some [clientA, clientB], None)]
     @ ResourceGet (DynamicClient 2) sampleGvr ''team-a'' ''client-a'' (None, Some forbidden)
     # [Logged (SugaredLogger 0) DebugLevel (finishedMessage sampleGvr),
        Logged (SugaredLogger 0) ErrorLevel (errorMessage sampleGvr
          (Wrapf forbidden (failedMessage sampleGvr ''client-a'')))]
   \<and> \<not> IsNotFound forbidden \<and> \<not> IsConflict forbidden
   \<and> result unreadableCluster NewDefaultOryFinalizersHandler ''kubeconfig'' (Some (SugaredLogger 0)) []
       = Return (Some (Wrapf forbidden (failedMessage sampleGvr ''client-a'')))
   \<and> events readOnlyCluster NewDefaultOryFinalizersHandler ''kubeconfig'' (Some (SugaredLogger 0)) [] =
     [ParseKubeConfig ''kubeconfig'' (Inr sampleConfig),
      ApixNewForConfig (sampleConfig\<lparr>WarningHandler := NoWarnings\<rparr>) (Inr (ApixClient 1)),
      DynamicNewForConfig (sampleConfig\<lparr>WarningHandler := NoWarnings\<rparr>) (Inr (DynamicClient 2)),
      CrdGet (ApixClient 1) ''oauth2clients.hydra.ory.sh'' (Some sampleCrd, None),
      Logged (SugaredLogger 0) DebugLevel (droppingMessage sampleGvr),
      ResourceList (DynamicClient 2) sampleGvr NamespaceAll (Some [clientA, clientB], None),
      ResourceGet (DynamicClient 2) sampleGvr ''team-a'' ''client-a'' (Some clientA, None),
      Logged (SugaredLogger 0) DebugLevel (foundMessage clientA clientA)]
     @ ResourceUpdate (DynamicClient 2) sampleGvr ''team-a'' (clientA\<lparr>Finalizers := []\<rparr>)
         (None, Some forbidden)
     # [Logged (SugaredLogger 0) DebugLevel (finishedMessage sampleGvr),
        Logged (SugaredLogger 0) ErrorLevel (errorMessage sampleGvr
          (Wrapf forbidden (failedMessage sampleGvr ''client-a'')))]
   \<and> result readOnlyCluster NewDefaultOryFinalizersHandler ''kubeconfig'' (Some (SugaredLogger 0)) []
       = Return (Some (Wrapf forbidden (failedMessage sampleGvr ''client-a'')))
   \<and> ResourceList (DynamicClient 2) sampleGvr NamespaceAll (Some [clientA, clientB], None)
       \<in> set (events sampleCluster NewDefaultOryFinalizersHandler ''kubeconfig'' (Some (SugaredLogger 0)) [])
   \<and> (\<exists>ks. length ks \<le> length [clientA, clientB]
        \<and> (\<forall>k\<in>set ks. k \<le> DefaultRetrySteps sampleCluster)
        \<and> targets (events sampleCluster NewDefaultOryFinalizersHandler ''kubeconfig''
             (Some (SugaredLogger 0)) [])
            = concat (map2 (\<lambda>k inst. replicate k (Namespace inst, Name inst)) ks
                [clientA, clientB]))
   \<and> removeCustomResourceFinalizers sampleCluster readyHandler sampleGvr clientB []
       = (Return None, [ResourceGet (DynamicClient 2) sampleGvr ''team-b'' ''client-b''
           (Some clientB, None)])
   \<and> retryLoop (Suc 4) None (removeCustomResourceFinalizers sampleCluster readyHandler sampleGvr
         clientB) []
       = (Return None, [ResourceGet (DynamicClient 2) sampleGvr ''team-b'' ''client-b''
           (Some clientB, None)])"
proof -
  note c2u = C2_hard_errors_end_the_run[of unreadableCluster NewDefaultOryFinalizersHandler
      "''kubeconfig''" "Some (SugaredLogger 0)" "[]"]
  note c2r = C2_hard_errors_end_the_run[of readOnlyCluster NewDefaultOryFinalizersHandler
      "''kubeconfig''" "Some (SugaredLogger 0)" "[]"]
  note c2s = C2_hard_errors_end_the_run[of sampleCluster NewDefaultOryFinalizersHandler
      "''kubeconfig''" "Some (SugaredLogger 0)" "[]"]
  have f: "\<not> IsNotFound forbidden" "\<not> IsConflict forbidden" by (simp_all add: forbidden_def)
  have eu: "events unreadableCluster NewDefaultOryFinalizersHandler ''kubeconfig'' (Some (SugaredLogger 0)) [] =
     [ParseKubeConfig ''kubeconfig'' (Inr sampleConfig),
      ApixNewForConfig (sampleConfig\<lparr>WarningHandler := NoWarnings\<rparr>) (Inr (ApixClient 1)),
      DynamicNewForConfig (sampleConfig\<lparr>WarningHandler := NoWarnings\<rparr>) (Inr (DynamicClient 2)),
      CrdGet (ApixClient 1) ''oauth2clients.hydra.ory.sh'' (Some sampleCrd, None),
      Logged (SugaredLogger 0) DebugLevel (droppingMessage sampleGvr),
      ResourceList (DynamicClient 2) sampleGvr NamespaceAll (Some [clientA, clientB], None)]
     @ ResourceGet (DynamicClient 2) sampleGvr ''team-a'' ''client-a'' (None, Some forbidden)
     # [Logged (SugaredLogger 0) DebugLevel (finishedMessage sampleGvr),
        Logged (SugaredLogger 0) ErrorLevel (errorMessage sampleGvr
          (Wrapf forbidden (failedMessage sampleGvr ''client-a'')))]"
    by (simp add: events_def unreadable_run)
  from c2u[THEN conjunct1, rule_format, OF conjI[OF eu conjI[OF f]]]
  have ru: "result unreadableCluster NewDefaultOryFinalizersHandler ''kubeconfig'' (Some (SugaredLogger 0)) []
       = Return (Some (Wrapf forbidden (failedMessage sampleGvr ''client-a'')))"
    by simp
  have er: "events readOnlyCluster NewDefaultOryFinalizersHandler ''kubeconfig'' (Some (SugaredLogger 0)) [] =
     [ParseKubeConfig ''kubeconfig'' (Inr sampleConfig),
      ApixNewForConfig (sampleConfig\<lparr>WarningHandler := NoWarnings\<rparr>) (Inr (ApixClient 1)),
      DynamicNewForConfig (sampleConfig\<lparr>WarningHandler := NoWarnings\<rparr>) (Inr (DynamicClient 2)),
      CrdGet (ApixClient 1) ''oauth2clients.hydra.ory.sh'' (Some sampleCrd, None),
      Logged (SugaredLogger 0) DebugLevel (droppingMessage sampleGvr),
      ResourceList (DynamicClient 2) sampleGvr NamespaceAll (Some [clientA, clientB], None),
      ResourceGet (DynamicClient 2) sampleGvr ''team-a'' ''client-a'' (Some clientA, None),
      Logged (SugaredLogger 0) DebugLevel (foundMessage clientA clientA)]
     @ ResourceUpdate (DynamicClient 2) sampleGvr ''team-a'' (clientA\<lparr>Finalizers := []\<rparr>)
         (None, Some forbidden)
     # [Logged (SugaredLogger 0) DebugLevel (finishedMessage sampleGvr),
        Logged (SugaredLogger 0) ErrorLevel (errorMessage sampleGvr
          (Wrapf forbidden (failedMessage sampleGvr ''client-a'')))]"
    by (simp add: events_def readOnly_run)
  from c2r[THEN conjunct2, THEN conjunct1, rule_format, OF conjI[OF er f(2)]]
  obtain pre' ns' n resp l lvl msg where
    p: "[ParseKubeConfig ''kubeconfig'' (Inr sampleConfig),
      ApixNewForConfig (sampleConfig\<lparr>WarningHandler := NoWarnings\<rparr>) (Inr (ApixClient 1)),
      DynamicNewForConfig (sampleConfig\<lparr>WarningHandler := NoWarnings\<rparr>) (Inr (DynamicClient 2)),
      CrdGet (ApixClient 1) ''oauth2clients.hydra.ory.sh'' (Some sampleCrd, None),
      Logged (SugaredLogger 0) DebugLevel (droppingMessage sampleGvr),
      ResourceList (DynamicClient 2) sampleGvr NamespaceAll (Some [clientA, clientB], None),
      ResourceGet (DynamicClient 2) sampleGvr ''team-a'' ''client-a'' (Some clientA, None),
      Logged (SugaredLogger 0) DebugLevel (foundMessage clientA clientA)]
      = pre' @ [ResourceGet (DynamicClient 2) sampleGvr ns' n resp, Logged l lvl msg]"
    and rn: "result readOnlyCluster NewDefaultOryFinalizersHandler ''kubeconfig'' (Some (SugaredLogger 0)) []
       = Return (Some (Wrapf forbidden (failedMessage sampleGvr n)))"
    by blast
  from arg_cong[OF p, of "\<lambda>xs. last (butlast xs)"] have "n = ''client-a''"
    by (simp add: butlast_append)
  with rn have rr: "result readOnlyCluster NewDefaultOryFinalizersHandler ''kubeconfig''
      (Some (SugaredLogger 0)) []
       = Return (Some (Wrapf forbidden (failedMessage sampleGvr ''client-a'')))"
    by simp
  have l: "ResourceList (DynamicClient 2) sampleGvr NamespaceAll (Some [clientA, clientB], None)
       \<in> set (events sampleCluster NewDefaultOryFinalizersHandler ''kubeconfig'' (Some (SugaredLogger 0)) [])"
    by (simp add: sample_events)
  note ks = c2s[THEN conjunct2, THEN conjunct2, THEN conjunct1, rule_format, OF l]
  have a: "removeCustomResourceFinalizers sampleCluster readyHandler sampleGvr clientB []
       = (Return None, [ResourceGet (DynamicClient 2) sampleGvr ''team-b'' ''client-b''
           (Some clientB, None)])"
    by (simp add: run_defs sampleCluster_def readyHandler_def clientB_def)
  note s = c2s[THEN conjunct2, THEN conjunct2, THEN conjunct2, rule_format, OF a, of 4 None]
  from eu f ru er rr l ks a s show ?thesis by blast
qed



text \<open>
  C4. On a not-found error of the CRD get the function is to return nil without listing
  or updating anything. The code tests the returned object for nil, not the error. The
  generated clientset hands back an empty CRD object together with the not-found error;
  at that answer the code goes on and sends a list request for the empty group, version
  and resource. (With a nil object it stops as described: \<open>crd_absent_returns_nil\<close>.)
\<close>

theorem C4_not_found_crd_is_listed:
  "crdGet crdlessCluster
      [ParseKubeConfig ''kubeconfig'' (Inr sampleConfig),
       ApixNewForConfig (sampleConfig\<lparr>WarningHandler := NoWarnings\<rparr>) (Inr (ApixClient 1)),
       DynamicNewForConfig (sampleConfig\<lparr>WarningHandler := NoWarnings\<rparr>) (Inr (DynamicClient 2))]
      (ApixClient 1) ''oauth2clients.hydra.ory.sh'' = (Some emptyCrd, Some notFound)
   \<and> IsNotFound notFound
   \<and> FindAndDeleteOryFinalizers crdlessCluster NewDefaultOryFinalizersHandler ''kubeconfig''
        (Some (SugaredLogger 0)) [] =
     (Return None,
      \<lparr>apixClient = Some (ApixClient 1), dynamic = Some (DynamicClient 2),
        logger = Some (SugaredLogger 0)\<rparr>,
      [ParseKubeConfig ''kubeconfig'' (Inr sampleConfig),
       ApixNewForConfig (sampleConfig\<lparr>WarningHandler := NoWarnings\<rparr>) (Inr (ApixClient 1)),
       DynamicNewForConfig (sampleConfig\<lparr>WarningHandler := NoWarnings\<rparr>) (Inr (DynamicClient 2)),
       CrdGet (ApixClient 1) ''oauth2clients.hydra.ory.sh'' (Some emptyCrd, Some notFound),
       Logged (SugaredLogger 0) DebugLevel (droppingMessage emptyGvr),
       ResourceList (DynamicClient 2) emptyGvr NamespaceAll (None, Some notFound),
       Logged (SugaredLogger 0) DebugLevel ''Couldn't find any oauth2client custom resources.'',
       Logged (SugaredLogger 0) DebugLevel (finishedMessage emptyGvr)])"
  by (simp add: run_defs crdlessCluster_def sampleCluster_def emptyCrd_def emptyGvr_def
      notFound_def)

text \<open>
  C5. When the get of an instance answers with a version that has no finalizers, the
  per-instance step returns nil after that one get: no update is issued, nothing is
  retried, and the loop goes on with the next instance. In a whole run, every update
  request carries a fetched version that did have finalizers, with the finalizers cleared.
\<close>

theorem C5_no_update_without_finalizers:
  "(dynamic h = Some d
      \<and> resourceGet env tr d crdef (Namespace inst) (Name inst) = (Some res, e)
      \<and> \<not> otherThanNotFound e \<and> Finalizers res = []
    \<longrightarrow> removeCustomResourceFinalizers env h crdef inst tr
          = (Return None, tr @ [ResourceGet d crdef (Namespace inst) (Name inst) (Some res, e)])
        \<and> (0 < DefaultRetrySteps env \<longrightarrow>
            forEachInstance env h crdef (inst # items) tr
              = forEachInstance env h crdef items
                  (tr @ [ResourceGet d crdef (Namespace inst) (Name inst) (Some res, e)])))
   \<and> (\<forall>d' g ns obj ur. ResourceUpdate d' g ns obj ur \<in> set (events env h0 k lg tr0) \<longrightarrow>
        (\<exists>ns' n' res' e'.
           ResourceGet d' g ns' n' (Some res', e') \<in> set (events env h0 k lg tr0)
           \<and> Finalizers res' \<noteq> [] \<and> ns = Namespace res' \<and> obj = res'\<lparr>Finalizers := []\<rparr>))"
proof -
  have one: "removeCustomResourceFinalizers env h crdef inst tr
          = (Return None, tr @ [ResourceGet d crdef (Namespace inst) (Name inst) (Some res, e)])
        \<and> (0 < DefaultRetrySteps env \<longrightarrow>
            forEachInstance env h crdef (inst # items) tr
              = forEachInstance env h crdef items
                  (tr @ [ResourceGet d crdef (Namespace inst) (Name inst) (Some res, e)]))"
    if h: "dynamic h = Some d"
      and g: "resourceGet env tr d crdef (Namespace inst) (Name inst) = (Some res, e)"
      and e: "\<not> otherThanNotFound e" and f: "Finalizers res = []"
  proof -
    have a: "removeCustomResourceFinalizers env h crdef inst tr
        = (Return None, tr @ [ResourceGet d crdef (Namespace inst) (Name inst) (Some res, e)])"
      using h g e f
      by (simp add: removeCustomResourceFinalizers_def useDynamic_Some andThen_simps Let_def)
    have "forEachInstance env h crdef (inst # items) tr
          = forEachInstance env h crdef items
              (tr @ [ResourceGet d crdef (Namespace inst) (Name inst) (Some res, e)])"
      if "0 < DefaultRetrySteps env"
    proof -
      from that obtain n where "DefaultRetrySteps env = Suc n"
        by (cases "DefaultRetrySteps env") auto
      then show ?thesis by (simp add: RetryOnConflict_def a)
    qed
    with a show ?thesis by blast
  qed
  have two: "\<forall>d' g ns obj ur. ResourceUpdate d' g ns obj ur \<in> set (events env h0 k lg tr0) \<longrightarrow>
        (\<exists>ns' n' res' e'.
           ResourceGet d' g ns' n' (Some res', e') \<in> set (events env h0 k lg tr0)
           \<and> Finalizers res' \<noteq> [] \<and> ns = Namespace res' \<and> obj = res'\<lparr>Finalizers := []\<rparr>)"
  proof (cases rule: F_cases[of env tr0 k h0 lg])
    case (parse e)
    show ?thesis by (simp add: events_eq[OF parse(2)])
  next
    case (apix cfg0 cfg p e)
    show ?thesis by (simp add: events_eq[OF apix(5)] apix(3))
  next
    case (dyn cfg0 cfg p c a e)
    show ?thesis by (simp add: events_eq[OF dyn(7)] dyn(3,5))
  next
    case (crdErr cfg0 cfg p c a d dd h3 rc e)
    show ?thesis by (simp add: events_eq[OF crdErr(11)] crdErr(3,5,7))
  next
    case (crdNil cfg0 cfg p c a d dd h3 e1 lgr)
    show ?thesis by (simp add: events_eq[OF crdNil(11)] crdNil(3,5,7))
  next
    case (listErr cfg0 cfg p c a d dd h3 crd e1 g crdef l0 fin rl e lgr)
    show ?thesis by (simp add: events_eq[OF listErr(17)] listErr(3,5,7,11,13,14))
  next
    case (listNil cfg0 cfg p c a d dd h3 crd e1 g crdef l0 fin e2 lgr)
    show ?thesis by (simp add: events_eq[OF listNil(17)] listNil(3,5,7,11,13,14))
  next
    case (loop cfg0 cfg p c' a d' dd h3 crd' e1 g' crdef l0 fin items' e2 l r levs lgr)
    have rdy: "dynamic h3 = Some d'" "logger h3 = Some lgr" using loop(8) by simp_all
    have ev: "events env h0 k lg tr0 = [p, a, dd, g', l0, l] @ levs @ fin #
        (case r of None \<Rightarrow> [] | Some err \<Rightarrow> [Logged lgr ErrorLevel (errorMessage crdef err)])"
      by (rule events_eq[OF loop(19)])
    have upd: "\<And>d g ns obj ur. ResourceUpdate d g ns obj ur \<in> set (events env h0 k lg tr0)
        \<longleftrightarrow> ResourceUpdate d g ns obj ur \<in> set levs"
      unfolding ev by (auto simp: loop(3,5,7,11,13,14,17) split: option.splits)
    have get: "\<And>x. x \<in> set levs \<Longrightarrow> x \<in> set (events env h0 k lg tr0)"
      unfolding ev by simp
    show ?thesis
      using loop_updates[OF rdy loop(18)] get unfolding upd by blast
  next
    case (nilLogger cfg0 cfg p c a d dd h3 rc e1)
    show ?thesis by (simp add: events_eq[OF nilLogger(11)] nilLogger(3,5,7))
  qed
  from one two show ?thesis by blast
qed

theorem C5_no_update_without_finalizers_witness:
  "dynamic readyHandler = Some (DynamicClient 2)
   \<and> resourceGet sampleCluster [] (DynamicClient 2) sampleGvr (Namespace clientB) (Name clientB)
       = (Some clientB, None)
   \<and> \<not> otherThanNotFound None \<and> Finalizers clientB = []
   \<and> removeCustomResourceFinalizers sampleCluster readyHandler sampleGvr clientB []
       = (Return None, [ResourceGet (DynamicClient 2) sampleGvr ''team-b'' ''client-b''
           (Some clientB, None)])
   \<and> ResourceUpdate (DynamicClient 2) sampleGvr ''team-a'' (clientA\<lparr>Finalizers := []\<rparr>)
        (None, Some conflict)
       \<in> set (events sampleCluster NewDefaultOryFinalizersHandler ''kubeconfig'' (Some (SugaredLogger 0)) [])
   \<and> (\<exists>ns' n' res' e'.
         ResourceGet (DynamicClient 2) sampleGvr ns' n' (Some res', e')
           \<in> set (events sampleCluster NewDefaultOryFinalizersHandler ''kubeconfig''
                (Some (SugaredLogger 0)) [])
         \<and> Finalizers res' \<noteq> [] \<and> ''team-a'' = Namespace res'
         \<and> clientA\<lparr>Finalizers := []\<rparr> = res'\<lparr>Finalizers := []\<rparr>)"
proof -
  let ?E = "events sampleCluster NewDefaultOryFinalizersHandler ''kubeconfig'' (Some (SugaredLogger 0)) []"
  have h: "dynamic readyHandler = Some (DynamicClient 2)" by (simp add: readyHandler_def)
  have g: "resourceGet sampleCluster [] (DynamicClient 2) sampleGvr (Namespace clientB)
      (Name clientB) = (Some clientB, None)"
    by (simp add: sampleCluster_def clientB_def)
  have f: "\<not> otherThanNotFound None" "Finalizers clientB = []"
    by (simp_all add: otherThanNotFound_def clientB_def)
  have u: "ResourceUpdate (DynamicClient 2) sampleGvr ''team-a'' (clientA\<lparr>Finalizers := []\<rparr>)
        (None, Some conflict) \<in> set ?E"
    by (simp add: sample_events)
  note c5 = C5_no_update_without_finalizers[of readyHandler "DynamicClient 2" sampleCluster "[]"
      sampleGvr clientB clientB None "[]" NewDefaultOryFinalizersHandler "''kubeconfig''"
      "Some (SugaredLogger 0)" "[]"]
  from c5 h g f have one:
    "removeCustomResourceFinalizers sampleCluster readyHandler sampleGvr clientB []
       = (Return None, [ResourceGet (DynamicClient 2) sampleGvr ''team-b'' ''client-b''
           (Some clientB, None)])"
    by (simp add: clientB_def)
  from c5 u have two: "\<exists>ns' n' res' e'.
         ResourceGet (DynamicClient 2) sampleGvr ns' n' (Some res', e') \<in> set ?E
         \<and> Finalizers res' \<noteq> [] \<and> ''team-a'' = Namespace res'
         \<and> clientA\<lparr>Finalizers := []\<rparr> = res'\<lparr>Finalizers := []\<rparr>"
    by blast
  from h g f one u two show ?thesis by blast
qed

text \<open>
  C6. When the get of an instance reports not-found (the dynamic client then hands back
  no object), the per-instance step returns nil after that one get, and the loop goes on
  with the next instance of the list.
\<close>

theorem C6_vanished_instance_is_skipped:
  assumes "dynamic h = Some d"
    and "resourceGet env tr d crdef (Namespace inst) (Name inst) = (None, Some e)"
    and "IsNotFound e"
  shows "removeCustomResourceFinalizers env h crdef inst tr
      = (Return None, tr @ [ResourceGet d crdef (Namespace inst) (Name inst) (None, Some e)])
    \<and> (0 < DefaultRetrySteps env \<longrightarrow>
        forEachInstance env h crdef (inst # items) tr
          = forEachInstance env h crdef items
              (tr @ [ResourceGet d crdef (Namespace inst) (Name inst) (None, Some e)]))"
proof -
  have a: "removeCustomResourceFinalizers env h crdef inst tr
      = (Return None, tr @ [ResourceGet d crdef (Namespace inst) (Name inst) (None, Some e)])"
    using assms
    by (simp add: removeCustomResourceFinalizers_def useDynamic_Some andThen_simps Let_def
        otherThanNotFound_def)
  have "forEachInstance env h crdef (inst # items) tr
          = forEachInstance env h crdef items
              (tr @ [ResourceGet d crdef (Namespace inst) (Name inst) (None, Some e)])"
    if "0 < DefaultRetrySteps env"
  proof -
    from that obtain n where "DefaultRetrySteps env = Suc n"
      by (cases "DefaultRetrySteps env") auto
    then show ?thesis by (simp add: RetryOnConflict_def a)
  qed
  with a show ?thesis by blast
qed

theorem C6_vanished_instance_is_skipped_witness:
  "dynamic readyHandler = Some (DynamicClient 2)
   \<and> resourceGet vanishedCluster [] (DynamicClient 2) sampleGvr (Namespace clientA) (Name clientA)
       = (None, Some notFound)
   \<and> IsNotFound notFound
   \<and> 0 < DefaultRetrySteps vanishedCluster
   \<and> removeCustomResourceFinalizers vanishedCluster readyHandler sampleGvr clientA []
       = (Return None, [ResourceGet (DynamicClient 2) sampleGvr ''team-a'' ''client-a''
           (None, Some notFound)])
   \<and> forEachInstance vanishedCluster readyHandler sampleGvr [clientA, clientB] []
       = (Return None,
          [ResourceGet (DynamicClient 2) sampleGvr ''team-a'' ''client-a'' (None, Some notFound),
           ResourceGet (DynamicClient 2) sampleGvr ''team-b'' ''client-b'' (Some clientB, None)])"
proof -
  have h: "dynamic readyHandler = Some (DynamicClient 2)" by (simp add: readyHandler_def)
  have g: "resourceGet vanishedCluster [] (DynamicClient 2) sampleGvr (Namespace clientA)
      (Name clientA) = (None, Some notFound)"
    by (simp add: vanishedCluster_def clientA_def)
  have n: "IsNotFound notFound" by (simp add: notFound_def)
  have s: "0 < DefaultRetrySteps vanishedCluster"
    by (simp add: vanishedCluster_def sampleCluster_def)
  have rest: "forEachInstance vanishedCluster readyHandler sampleGvr [clientB]
      [ResourceGet (DynamicClient 2) sampleGvr ''team-a'' ''client-a'' (None, Some notFound)]
    = (Return None,
          [ResourceGet (DynamicClient 2) sampleGvr ''team-a'' ''client-a'' (None, Some notFound),
           ResourceGet (DynamicClient 2) sampleGvr ''team-b'' ''client-b'' (Some clientB, None)])"
    by (simp add: run_defs vanishedCluster_def sampleCluster_def readyHandler_def clientB_def)
  from C6_vanished_instance_is_skipped[OF h g n, of "[clientB]"] s rest
  have "removeCustomResourceFinalizers vanishedCluster readyHandler sampleGvr clientA []
       = (Return None, [ResourceGet (DynamicClient 2) sampleGvr ''team-a'' ''client-a''
           (None, Some notFound)])
   \<and> forEachInstance vanishedCluster readyHandler sampleGvr [clientA, clientB] []
       = (Return None,
          [ResourceGet (DynamicClient 2) sampleGvr ''team-a'' ''client-a'' (None, Some notFound),
           ResourceGet (DynamicClient 2) sampleGvr ''team-b'' ''client-b'' (Some clientB, None)])"
    by (simp add: clientA_def)
  with h g n s show ?thesis by simp
qed

text \<open>
  C7, as the code has it. An update is addressed to the namespace of the object the get
  returned, and carries that object, whatever instance the get was sent for. A server that
  answers the get of the listed instance \<open>team-a/client-a\<close> with another object,
  \<open>team-z/client-z\<close>, receives the update in \<open>team-z\<close>, for \<open>client-z\<close>.
\<close>

theorem C7_update_follows_fetched_object_counterexample:
  "events strayCluster NewDefaultOryFinalizersHandler ''kubeconfig'' (Some (SugaredLogger 0)) [] =
    [ParseKubeConfig ''kubeconfig'' (Inr sampleConfig),
     ApixNewForConfig (sampleConfig\<lparr>WarningHandler := NoWarnings\<rparr>) (Inr (ApixClient 1)),
     DynamicNewForConfig (sampleConfig\<lparr>WarningHandler := NoWarnings\<rparr>) (Inr (DynamicClient 2)),
     CrdGet (ApixClient 1) ''oauth2clients.hydra.ory.sh'' (Some sampleCrd, None),
     Logged (SugaredLogger 0) DebugLevel (droppingMessage sampleGvr),
     ResourceList (DynamicClient 2) sampleGvr NamespaceAll (Some [clientA], None),
     ResourceGet (DynamicClient 2) sampleGvr ''team-a'' ''client-a'' (Some clientZ, None),
     Logged (SugaredLogger 0) DebugLevel (foundMessage clientZ clientA),
     ResourceUpdate (DynamicClient 2) sampleGvr ''team-z'' (clientZ\<lparr>Finalizers := []\<rparr>)
       (Some (clientZ\<lparr>Finalizers := []\<rparr>), None),
     Logged (SugaredLogger 0) DebugLevel (deletedMessage (clientZ\<lparr>Finalizers := []\<rparr>) clientA),
     Logged (SugaredLogger 0) DebugLevel (finishedMessage sampleGvr)]
   \<and> Namespace clientA = ''team-a'' \<and> Name clientA = ''client-a''
   \<and> ''team-z'' \<noteq> Namespace clientA
   \<and> Name (clientZ\<lparr>Finalizers := []\<rparr>) \<noteq> Name clientA"
  by (simp add: events_def stray_run clientA_def clientZ_def)

text \<open>
  C7, amended. A run sends at most one list request, addressed to all namespaces. Every get
  is addressed to the namespace and name of an instance of the list; every update carries
  the version a get of a listed instance returned, with its finalizers cleared, and is
  addressed to the namespace of that version. The group, version and resource of every
  list, get and update are the group, version and plural name of the fetched CRD. Where
  the server answers every get with the object that was asked for, every update is so
  addressed to the namespace and name of a listed instance.

  These requests are sent. When the kubeconfig parses, both clients are constructed and
  the CRD get hands back a CRD with no error other than not-found, the list request for
  the group, version and plural name of that CRD is sent, through the dynamic client, to
  all namespaces (the first log line comes in between and needs the caller's logger not to
  be nil). After a list that handed back instances, the gets of the run address these
  instances in list order, each reached instance at least once when the retry helper makes
  any attempt, the first one always and all of them when the run returns nil. A fetched
  version with finalizers is followed by the update that carries it.
\<close>

theorem C7_requests_addressed_from_crd_and_list:
  "(length (filter isList (events env h k lg tr)) \<le> 1
   \<and> (\<forall>d g ns resp. ResourceList d g ns resp \<in> set (events env h k lg tr) \<longrightarrow>
        ns = NamespaceAll
        \<and> (\<exists>c crd e. CrdGet c ''oauth2clients.hydra.ory.sh'' (Some crd, e)
              \<in> set (events env h k lg tr)
            \<and> g = \<lparr>Group = SpecGroup crd, Version = SpecVersion crd,
                   Resource = SpecNamesPlural crd\<rparr>))
   \<and> (\<forall>d g ns n resp. ResourceGet d g ns n resp \<in> set (events env h k lg tr) \<longrightarrow>
        (\<exists>c crd e items e' inst.
            CrdGet c ''oauth2clients.hydra.ory.sh'' (Some crd, e) \<in> set (events env h k lg tr)
          \<and> g = \<lparr>Group = SpecGroup crd, Version = SpecVersion crd,
                 Resource = SpecNamesPlural crd\<rparr>
          \<and> ResourceList d g NamespaceAll (Some items, e') \<in> set (events env h k lg tr)
          \<and> inst \<in> set items \<and> ns = Namespace inst \<and> n = Name inst))
   \<and> (\<forall>d g ns obj resp. ResourceUpdate d g ns obj resp \<in> set (events env h k lg tr) \<longrightarrow>
        (\<exists>c crd e items e' inst res e''.
            CrdGet c ''oauth2clients.hydra.ory.sh'' (Some crd, e) \<in> set (events env h k lg tr)
          \<and> g = \<lparr>Group = SpecGroup crd, Version = SpecVersion crd,
                 Resource = SpecNamesPlural crd\<rparr>
          \<and> ResourceList d g NamespaceAll (Some items, e') \<in> set (events env h k lg tr)
          \<and> inst \<in> set items
          \<and> ResourceGet d g (Namespace inst) (Name inst) (Some res, e'')
              \<in> set (events env h k lg tr)
          \<and> ns = Namespace res \<and> obj = res\<lparr>Finalizers := []\<rparr>)))
   \<and> (\<forall>d g ns obj resp. ResourceUpdate d g ns obj resp \<in> set (events env h k lg tr)
        \<and> (\<forall>d' g' ns' n' res e. ResourceGet d' g' ns' n' (Some res, e)
               \<in> set (events env h k lg tr) \<longrightarrow> Namespace res = ns' \<and> Name res = n')
      \<longrightarrow> (\<exists>items e' inst.
            ResourceList d g NamespaceAll (Some items, e') \<in> set (events env h k lg tr)
          \<and> inst \<in> set items \<and> ns = Namespace inst \<and> Name obj = Name inst))
   \<and> (\<forall>cfg0 c d crd e.
          RESTConfigFromKubeConfig env tr k = Inr cfg0
        \<and> apixNewForConfig env (tr @ [ParseKubeConfig k (Inr cfg0)])
            (cfg0\<lparr>WarningHandler := NoWarnings\<rparr>) = Inr c
        \<and> dynamicNewForConfig env
            (tr @ [ParseKubeConfig k (Inr cfg0),
                   ApixNewForConfig (cfg0\<lparr>WarningHandler := NoWarnings\<rparr>) (Inr c)])
            (cfg0\<lparr>WarningHandler := NoWarnings\<rparr>) = Inr d
        \<and> crdGet env
            (tr @ [ParseKubeConfig k (Inr cfg0),
                   ApixNewForConfig (cfg0\<lparr>WarningHandler := NoWarnings\<rparr>) (Inr c),
                   DynamicNewForConfig (cfg0\<lparr>WarningHandler := NoWarnings\<rparr>) (Inr d)])
            c ''oauth2clients.hydra.ory.sh'' = (Some crd, e)
        \<and> \<not> otherThanNotFound e \<and> lg \<noteq> None \<longrightarrow>
        (\<exists>rl. ResourceList d \<lparr>Group = SpecGroup crd, Version = SpecVersion crd,
                   Resource = SpecNamesPlural crd\<rparr> NamespaceAll rl
            \<in> set (events env h k lg tr)))
   \<and> (\<forall>d g ns items e. ResourceList d g ns (Some items, e) \<in> set (events env h k lg tr)
        \<and> \<not> otherThanNotFound e \<longrightarrow>
        (\<exists>ks. length ks \<le> length items \<and> (items \<noteq> [] \<longrightarrow> ks \<noteq> [])
           \<and> (0 < DefaultRetrySteps env \<longrightarrow> (\<forall>k\<in>set ks. 0 < k))
           \<and> (result env h k lg tr = Return None \<longrightarrow> length ks = length items)
           \<and> targets (events env h k lg tr)
               = concat (map2 (\<lambda>k inst. replicate k (Namespace inst, Name inst)) ks items)))
   \<and> (\<forall>d g ns n res e. ResourceGet d g ns n (Some res, e) \<in> set (events env h k lg tr)
        \<and> \<not> otherThanNotFound e \<and> Finalizers res \<noteq> [] \<longrightarrow>
        (\<exists>ur. ResourceUpdate d g (Namespace res) (res\<lparr>Finalizers := []\<rparr>) ur
            \<in> set (events env h k lg tr)))"
proof -
  note base = run_addressing[of env h k lg tr]
  have five: "\<forall>d g ns obj resp. ResourceUpdate d g ns obj resp \<in> set (events env h k lg tr)
        \<and> (\<forall>d' g' ns' n' res e. ResourceGet d' g' ns' n' (Some res, e)
               \<in> set (events env h k lg tr) \<longrightarrow> Namespace res = ns' \<and> Name res = n')
      \<longrightarrow> (\<exists>items e' inst.
            ResourceList d g NamespaceAll (Some items, e') \<in> set (events env h k lg tr)
          \<and> inst \<in> set items \<and> ns = Namespace inst \<and> Name obj = Name inst)"
  proof (intro allI impI)
    fix d g ns obj resp
    assume a: "ResourceUpdate d g ns obj resp \<in> set (events env h k lg tr)
        \<and> (\<forall>d' g' ns' n' res e. ResourceGet d' g' ns' n' (Some res, e)
               \<in> set (events env h k lg tr) \<longrightarrow> Namespace res = ns' \<and> Name res = n')"
    from base[THEN conjunct2, THEN conjunct2, THEN conjunct2, rule_format, OF a[THEN conjunct1]]
    obtain items e' inst res e'' where
      b: "ResourceList d g NamespaceAll (Some items, e') \<in> set (events env h k lg tr)"
        "inst \<in> set items"
        "ResourceGet d g (Namespace inst) (Name inst) (Some res, e'') \<in> set (events env h k lg tr)"
        "ns = Namespace res" "obj = res\<lparr>Finalizers := []\<rparr>"
      by (elim exE conjE) (rule that, assumption+)
    from a[THEN conjunct2, rule_format, OF b(3)]
    have "Namespace res = Namespace inst" "Name res = Name inst" by simp_all
    with b show "\<exists>items e' inst.
            ResourceList d g NamespaceAll (Some items, e') \<in> set (events env h k lg tr)
          \<and> inst \<in> set items \<and> ns = Namespace inst \<and> Name obj = Name inst"
      by auto
  qed
  have six: "\<forall>cfg0 c d crd e.
          RESTConfigFromKubeConfig env tr k = Inr cfg0
        \<and> apixNewForConfig env (tr @ [ParseKubeConfig k (Inr cfg0)])
            (cfg0\<lparr>WarningHandler := NoWarnings\<rparr>) = Inr c
        \<and> dynamicNewForConfig env
            (tr @ [ParseKubeConfig k (Inr cfg0),
                   ApixNewForConfig (cfg0\<lparr>WarningHandler := NoWarnings\<rparr>) (Inr c)])
            (cfg0\<lparr>WarningHandler := NoWarnings\<rparr>) = Inr d
        \<and> crdGet env
            (tr @ [ParseKubeConfig k (Inr cfg0),
                   ApixNewForConfig (cfg0\<lparr>WarningHandler := NoWarnings\<rparr>) (Inr c),
                   DynamicNewForConfig (cfg0\<lparr>WarningHandler := NoWarnings\<rparr>) (Inr d)])
            c ''oauth2clients.hydra.ory.sh'' = (Some crd, e)
        \<and> \<not> otherThanNotFound e \<and> lg \<noteq> None \<longrightarrow>
        (\<exists>rl. ResourceList d \<lparr>Group = SpecGroup crd, Version = SpecVersion crd,
                   Resource = SpecNamesPlural crd\<rparr> NamespaceAll rl
            \<in> set (events env h k lg tr))"
  proof (intro allI impI)
    fix cfg0 c d crd e
    assume a: "RESTConfigFromKubeConfig env tr k = Inr cfg0
        \<and> apixNewForConfig env (tr @ [ParseKubeConfig k (Inr cfg0)])
            (cfg0\<lparr>WarningHandler := NoWarnings\<rparr>) = Inr c
        \<and> dynamicNewForConfig env
            (tr @ [ParseKubeConfig k (Inr cfg0),
                   ApixNewForConfig (cfg0\<lparr>WarningHandler := NoWarnings\<rparr>) (Inr c)])
            (cfg0\<lparr>WarningHandler := NoWarnings\<rparr>) = Inr d
        \<and> crdGet env
            (tr @ [ParseKubeConfig k (Inr cfg0),
                   ApixNewForConfig (cfg0\<lparr>WarningHandler := NoWarnings\<rparr>) (Inr c),
                   DynamicNewForConfig (cfg0\<lparr>WarningHandler := NoWarnings\<rparr>) (Inr d)])
            c ''oauth2clients.hydra.ory.sh'' = (Some crd, e)
        \<and> \<not> otherThanNotFound e \<and> lg \<noteq> None"
    show "\<exists>rl. ResourceList d \<lparr>Group = SpecGroup crd, Version = SpecVersion crd,
                   Resource = SpecNamesPlural crd\<rparr> NamespaceAll rl
            \<in> set (events env h k lg tr)"
      by (rule run_lists[OF a[THEN conjunct1] a[THEN conjunct2, THEN conjunct1]
            a[THEN conjunct2, THEN conjunct2, THEN conjunct1]
            a[THEN conjunct2, THEN conjunct2, THEN conjunct2, THEN conjunct1]
            a[THEN conjunct2, THEN conjunct2, THEN conjunct2, THEN conjunct2, THEN conjunct1]
            a[THEN conjunct2, THEN conjunct2, THEN conjunct2, THEN conjunct2, THEN conjunct2]])
  qed
  show ?thesis
    by (rule conjI[OF base conjI[OF five conjI[OF six run_existence[of env h k lg tr]]]])
qed

theorem C7_requests_addressed_from_crd_and_list_witness:
  "ResourceList (DynamicClient 2) sampleGvr NamespaceAll (Some [clientA, clientB], None)
       \<in> set (events sampleCluster NewDefaultOryFinalizersHandler ''kubeconfig'' (Some (SugaredLogger 0)) [])
   \<and> ResourceGet (DynamicClient 2) sampleGvr ''team-b'' ''client-b'' (Some clientB, None)
       \<in> set (events sampleCluster NewDefaultOryFinalizersHandler ''kubeconfig'' (Some (SugaredLogger 0)) [])
   \<and> ResourceUpdate (DynamicClient 2) sampleGvr ''team-a'' (clientA\<lparr>Finalizers := []\<rparr>)
        (None, Some conflict)
       \<in> set (events sampleCluster NewDefaultOryFinalizersHandler ''kubeconfig'' (Some (SugaredLogger 0)) [])
   \<and> length (filter isList
        (events sampleCluster NewDefaultOryFinalizersHandler ''kubeconfig'' (Some (SugaredLogger 0)) [])) \<le> 1
   \<and> (\<exists>c crd e. CrdGet c ''oauth2clients.hydra.ory.sh'' (Some crd, e)
          \<in> set (events sampleCluster NewDefaultOryFinalizersHandler ''kubeconfig''
               (Some (SugaredLogger 0)) [])
        \<and> sampleGvr = \<lparr>Group = SpecGroup crd, Version = SpecVersion crd,
                         Resource = SpecNamesPlural crd\<rparr>)
   \<and> (\<exists>items e' inst.
          ResourceList (DynamicClient 2) sampleGvr NamespaceAll (Some items, e')
            \<in> set (events sampleCluster NewDefaultOryFinalizersHandler ''kubeconfig''
                 (Some (SugaredLogger 0)) [])
        \<and> inst \<in> set items \<and> ''team-b'' = Namespace inst \<and> ''client-b'' = Name inst)
   \<and> (\<exists>items e' inst res e''.
          ResourceList (DynamicClient 2) sampleGvr NamespaceAll (Some items, e')
            \<in> set (events sampleCluster NewDefaultOryFinalizersHandler ''kubeconfig''
                 (Some (SugaredLogger 0)) [])
        \<and> inst \<in> set items
        \<and> ResourceGet (DynamicClient 2) sampleGvr (Namespace inst) (Name inst) (Some res, e'')
            \<in> set (events sampleCluster NewDefaultOryFinalizersHandler ''kubeconfig''
                 (Some (SugaredLogger 0)) [])
        \<and> ''team-a'' = Namespace res \<and> clientA\<lparr>Finalizers := []\<rparr> = res\<lparr>Finalizers := []\<rparr>)
   \<and> list_all (\<lambda>ev. case ev of
          ResourceGet d g ns n (Some res, e) \<Rightarrow> Namespace res = ns \<and> Name res = n
        | _ \<Rightarrow> True)
        (events sampleCluster NewDefaultOryFinalizersHandler ''kubeconfig'' (Some (SugaredLogger 0)) [])
   \<and> (\<exists>items e' inst.
          ResourceList (DynamicClient 2) sampleGvr NamespaceAll (Some items, e')
            \<in> set (events sampleCluster NewDefaultOryFinalizersHandler ''kubeconfig''
                 (Some (SugaredLogger 0)) [])
        \<and> inst \<in> set items \<and> ''team-a'' = Namespace inst
        \<and> Name (clientA\<lparr>Finalizers := []\<rparr>) = Name inst)
   \<and> RESTConfigFromKubeConfig sampleCluster [] ''kubeconfig'' = Inr sampleConfig
   \<and> apixNewForConfig sampleCluster [ParseKubeConfig ''kubeconfig'' (Inr sampleConfig)]
         (sampleConfig\<lparr>WarningHandler := NoWarnings\<rparr>) = Inr (ApixClient 1)
   \<and> dynamicNewForConfig sampleCluster
         [ParseKubeConfig ''kubeconfig'' (Inr sampleConfig),
          ApixNewForConfig (sampleConfig\<lparr>WarningHandler := NoWarnings\<rparr>) (Inr (ApixClient 1))]
         (sampleConfig\<lparr>WarningHandler := NoWarnings\<rparr>) = Inr (DynamicClient 2)
   \<and> crdGet sampleCluster
         [ParseKubeConfig ''kubeconfig'' (Inr sampleConfig),
          ApixNewForConfig (sampleConfig\<lparr>WarningHandler := NoWarnings\<rparr>) (Inr (ApixClient 1)),
          DynamicNewForConfig (sampleConfig\<lparr>WarningHandler := NoWarnings\<rparr>)
            (Inr (DynamicClient 2))]
         (ApixClient 1) ''oauth2clients.hydra.ory.sh'' = (Some sampleCrd, None)
   \<and> \<not> otherThanNotFound None \<and> Some (SugaredLogger 0) \<noteq> None
   \<and> (\<exists>rl. ResourceList (DynamicClient 2)
              \<lparr>Group = SpecGroup sampleCrd, Version = SpecVersion sampleCrd,
                Resource = SpecNamesPlural sampleCrd\<rparr> NamespaceAll rl
       \<in> set (events sampleCluster NewDefaultOryFinalizersHandler ''kubeconfig'' (Some (SugaredLogger 0)) []))
   \<and> 0 < DefaultRetrySteps sampleCluster
   \<and> result sampleCluster NewDefaultOryFinalizersHandler ''kubeconfig'' (Some (SugaredLogger 0)) []
       = Return None
   \<and> (\<exists>ks. length ks = length [clientA, clientB] \<and> (\<forall>k\<in>set ks. 0 < k)
        \<and> targets (events sampleCluster NewDefaultOryFinalizersHandler ''kubeconfig''
             (Some (SugaredLogger 0)) [])
            = concat (map2 (\<lambda>k inst. replicate k (Namespace inst, Name inst)) ks
                [clientA, clientB]))
   \<and> ResourceGet (DynamicClient 2) sampleGvr ''team-a'' ''client-a'' (Some clientA, None)
       \<in> set (events sampleCluster NewDefaultOryFinalizersHandler ''kubeconfig'' (Some (SugaredLogger 0)) [])
   \<and> Finalizers clientA \<noteq> []
   \<and> (\<exists>ur. ResourceUpdate (DynamicClient 2) sampleGvr (Namespace clientA)
         (clientA\<lparr>Finalizers := []\<rparr>) ur
       \<in> set (events sampleCluster NewDefaultOryFinalizersHandler ''kubeconfig'' (Some (SugaredLogger 0)) []))"
proof -
  let ?E = "events sampleCluster NewDefaultOryFinalizersHandler ''kubeconfig'' (Some (SugaredLogger 0)) []"
  let ?R = "result sampleCluster NewDefaultOryFinalizersHandler ''kubeconfig'' (Some (SugaredLogger 0)) []"
  note c7full = C7_requests_addressed_from_crd_and_list[of sampleCluster
      NewDefaultOryFinalizersHandler "''kubeconfig''" "Some (SugaredLogger 0)" "[]"]
  note c7 = c7full[THEN conjunct1]
  note c7l = c7full[THEN conjunct2, THEN conjunct2, THEN conjunct1]
  note c7e = c7full[THEN conjunct2, THEN conjunct2, THEN conjunct2]
  have l: "ResourceList (DynamicClient 2) sampleGvr NamespaceAll (Some [clientA, clientB], None)
      \<in> set ?E"
    by (simp add: sample_events)
  have g: "ResourceGet (DynamicClient 2) sampleGvr ''team-b'' ''client-b'' (Some clientB, None)
      \<in> set ?E"
    by (simp add: sample_events)
  have u: "ResourceUpdate (DynamicClient 2) sampleGvr ''team-a'' (clientA\<lparr>Finalizers := []\<rparr>)
        (None, Some conflict) \<in> set ?E"
    by (simp add: sample_events)
  from c7 have one: "length (filter isList ?E) \<le> 1" by blast
  from c7 l have two: "\<exists>c crd e. CrdGet c ''oauth2clients.hydra.ory.sh'' (Some crd, e) \<in> set ?E
        \<and> sampleGvr = \<lparr>Group = SpecGroup crd, Version = SpecVersion crd,
                         Resource = SpecNamesPlural crd\<rparr>"
    by blast
  from c7 g have three: "\<exists>items e' inst.
          ResourceList (DynamicClient 2) sampleGvr NamespaceAll (Some items, e') \<in> set ?E
        \<and> inst \<in> set items \<and> ''team-b'' = Namespace inst \<and> ''client-b'' = Name inst"
    by blast
  from c7 u have four: "\<exists>items e' inst res e''.
          ResourceList (DynamicClient 2) sampleGvr NamespaceAll (Some items, e') \<in> set ?E
        \<and> inst \<in> set items
        \<and> ResourceGet (DynamicClient 2) sampleGvr (Namespace inst) (Name inst) (Some res, e'')
            \<in> set ?E
        \<and> ''team-a'' = Namespace res \<and> clientA\<lparr>Finalizers := []\<rparr> = res\<lparr>Finalizers := []\<rparr>"
    by blast
  have wb: "list_all (\<lambda>ev. case ev of
          ResourceGet d g ns n (Some res, e) \<Rightarrow> Namespace res = ns \<and> Name res = n
        | _ \<Rightarrow> True) ?E"
    by (simp add: sample_events clientA_def clientB_def)
  have wb': "\<forall>d' g' ns' n' res e. ResourceGet d' g' ns' n' (Some res, e) \<in> set ?E
      \<longrightarrow> Namespace res = ns' \<and> Name res = n'"
    by (simp add: sample_events) (auto simp: clientA_def clientB_def)
  from c7full[THEN conjunct2, THEN conjunct1, rule_format, OF conjI[OF u wb']]
  have five: "\<exists>items e' inst.
          ResourceList (DynamicClient 2) sampleGvr NamespaceAll (Some items, e') \<in> set ?E
        \<and> inst \<in> set items \<and> ''team-a'' = Namespace inst
        \<and> Name (clientA\<lparr>Finalizers := []\<rparr>) = Name inst" .
  have e1: "RESTConfigFromKubeConfig sampleCluster [] ''kubeconfig'' = Inr sampleConfig"
    by (simp add: sampleCluster_def)
  have e2: "apixNewForConfig sampleCluster [ParseKubeConfig ''kubeconfig'' (Inr sampleConfig)]
         (sampleConfig\<lparr>WarningHandler := NoWarnings\<rparr>) = Inr (ApixClient 1)"
    by (simp add: sampleCluster_def)
  have e3: "dynamicNewForConfig sampleCluster
         [ParseKubeConfig ''kubeconfig'' (Inr sampleConfig),
          ApixNewForConfig (sampleConfig\<lparr>WarningHandler := NoWarnings\<rparr>) (Inr (ApixClient 1))]
         (sampleConfig\<lparr>WarningHandler := NoWarnings\<rparr>) = Inr (DynamicClient 2)"
    by (simp add: sampleCluster_def)
  have e4: "crdGet sampleCluster
         [ParseKubeConfig ''kubeconfig'' (Inr sampleConfig),
          ApixNewForConfig (sampleConfig\<lparr>WarningHandler := NoWarnings\<rparr>) (Inr (ApixClient 1)),
          DynamicNewForConfig (sampleConfig\<lparr>WarningHandler := NoWarnings\<rparr>)
            (Inr (DynamicClient 2))]
         (ApixClient 1) ''oauth2clients.hydra.ory.sh'' = (Some sampleCrd, None)"
    by (simp add: sampleCluster_def)
  have o: "\<not> otherThanNotFound None" by (simp add: otherThanNotFound_def)
  have lgr: "Some (SugaredLogger 0) \<noteq> None" by simp
  from c7l[rule_format, of sampleConfig "ApixClient 1" "DynamicClient 2" sampleCrd None]
    e1 e2 e3 e4 o
  have six: "\<exists>rl. ResourceList (DynamicClient 2)
              \<lparr>Group = SpecGroup sampleCrd, Version = SpecVersion sampleCrd,
                Resource = SpecNamesPlural sampleCrd\<rparr> NamespaceAll rl \<in> set ?E"
    by simp
  have st: "0 < DefaultRetrySteps sampleCluster" by (simp add: sampleCluster_def)
  have R: "?R = Return None" by (simp add: result_def sample_run)
  from c7e[THEN conjunct1, rule_format, OF conjI[OF l o]]
  obtain ks where ks: "0 < DefaultRetrySteps sampleCluster \<longrightarrow> (\<forall>k\<in>set ks. 0 < k)"
    "?R = Return None \<longrightarrow> length ks = length [clientA, clientB]"
    "targets ?E = concat (map2 (\<lambda>k inst. replicate k (Namespace inst, Name inst)) ks
                [clientA, clientB])"
    by (elim exE conjE) (rule that, assumption+)
  from ks st R have seven: "\<exists>ks. length ks = length [clientA, clientB] \<and> (\<forall>k\<in>set ks. 0 < k)
        \<and> targets ?E = concat (map2 (\<lambda>k inst. replicate k (Namespace inst, Name inst)) ks
                [clientA, clientB])"
    by (intro exI[of _ ks]) simp
  have ga: "ResourceGet (DynamicClient 2) sampleGvr ''team-a'' ''client-a'' (Some clientA, None)
      \<in> set ?E"
    by (simp add: sample_events)
  have fa: "Finalizers clientA \<noteq> []" by (simp add: clientA_def)
  from c7e[THEN conjunct2, rule_format, OF conjI[OF ga conjI[OF o fa]]]
  have eight: "\<exists>ur. ResourceUpdate (DynamicClient 2) sampleGvr (Namespace clientA)
         (clientA\<lparr>Finalizers := []\<rparr>) ur \<in> set ?E" .
  show ?thesis
    by (rule conjI[OF l conjI[OF g conjI[OF u conjI[OF one conjI[OF two conjI[OF three
          conjI[OF four conjI[OF wb conjI[OF five conjI[OF e1
          conjI[OF e2 conjI[OF e3 conjI[OF e4
          conjI[OF o conjI[OF lgr conjI[OF six conjI[OF st conjI[OF R conjI[OF seven
          conjI[OF ga conjI[OF fa eight]]]]]]]]]]]]]]]]]]]]])
qed

text \<open>
  C8. The result of a call and the sequence of calls it issues do not depend on the
  handler it is called on: two handlers, whatever their fields hold from earlier calls,
  give the same result and the same trace on the same input, the same logger and the same
  answers. The call assigns the logger and both clients before it uses them: with a logger
  that is not nil it never runs into a nil field. (A nil logger makes the first log line
  panic, on either handler alike.)
\<close>

theorem C8_handler_state_is_irrelevant:
  "fst (FindAndDeleteOryFinalizers env h k lg tr) = fst (FindAndDeleteOryFinalizers env h' k lg tr)
   \<and> snd (snd (FindAndDeleteOryFinalizers env h k lg tr))
       = snd (snd (FindAndDeleteOryFinalizers env h' k lg tr))
   \<and> (lg \<noteq> None \<longrightarrow> result env h k lg tr \<noteq> NilPanic)"
proof -
  have same: "fst (FindAndDeleteOryFinalizers env h k lg tr) = fst (FindAndDeleteOryFinalizers env h' k lg tr)
   \<and> snd (snd (FindAndDeleteOryFinalizers env h k lg tr))
       = snd (snd (FindAndDeleteOryFinalizers env h' k lg tr))"
    by (simp add: FindAndDeleteOryFinalizers_def Let_def handler_all_fields
        split: prod.splits sum.splits)
  have "lg \<noteq> None \<longrightarrow> result env h k lg tr \<noteq> NilPanic"
    by (cases rule: F_cases[of env tr k h lg]) (simp_all add: result_def)
  with same show ?thesis by simp
qed

theorem C8_handler_state_is_irrelevant_witness:
  "Some (SugaredLogger 0) \<noteq> None
   \<and> result sampleCluster readyHandler ''kubeconfig'' (Some (SugaredLogger 0)) [] \<noteq> NilPanic
   \<and> fst (FindAndDeleteOryFinalizers sampleCluster readyHandler ''kubeconfig''
          (Some (SugaredLogger 0)) [])
       = fst (FindAndDeleteOryFinalizers sampleCluster NewDefaultOryFinalizersHandler ''kubeconfig''
          (Some (SugaredLogger 0)) [])
   \<and> snd (snd (FindAndDeleteOryFinalizers sampleCluster readyHandler ''kubeconfig''
          (Some (SugaredLogger 0)) []))
       = snd (snd (FindAndDeleteOryFinalizers sampleCluster NewDefaultOryFinalizersHandler
          ''kubeconfig'' (Some (SugaredLogger 0)) []))"
  using C8_handler_state_is_irrelevant[of sampleCluster readyHandler "''kubeconfig''"
      "Some (SugaredLogger 0)" "[]" NewDefaultOryFinalizersHandler]
  by simp

text \<open>
  C9. If parsing the kubeconfig fails, \<open>FindAndDeleteOryFinalizers\<close> returns that error,
  and the parse is the only call it has made: no client was constructed and no request
  was sent.
\<close>

theorem C9_parse_error_returned_first:
  "RESTConfigFromKubeConfig env tr k = Inl e \<Longrightarrow>
   FindAndDeleteOryFinalizers env h k lg tr
     = (Return (Some e), h\<lparr>logger := lg\<rparr>, tr @ [ParseKubeConfig k (Inl e)])"
  by (simp add: FindAndDeleteOryFinalizers_def restConfig_def Let_def)

theorem C9_parse_error_returned_first_witness:
  "RESTConfigFromKubeConfig (sampleCluster\<lparr>RESTConfigFromKubeConfig := \<lambda>tr k. Inl forbidden\<rparr>)
      [] ''not a kubeconfig'' = Inl forbidden
   \<and> FindAndDeleteOryFinalizers
        (sampleCluster\<lparr>RESTConfigFromKubeConfig := \<lambda>tr k. Inl forbidden\<rparr>)
        NewDefaultOryFinalizersHandler ''not a kubeconfig'' (Some (SugaredLogger 0)) []
      = (Return (Some forbidden),
         \<lparr>apixClient = None, dynamic = None, logger = Some (SugaredLogger 0)\<rparr>,
         [ParseKubeConfig ''not a kubeconfig'' (Inl forbidden)])"
  using C9_parse_error_returned_first[of
      "sampleCluster\<lparr>RESTConfigFromKubeConfig := \<lambda>tr k. Inl forbidden\<rparr>" "[]"
      "''not a kubeconfig''" forbidden NewDefaultOryFinalizersHandler "Some (SugaredLogger 0)"]
  by (simp add: NewDefaultOryFinalizersHandler_def)

end
